theory Spec2Isabelle
  imports Complex_Main
begin

section \<open>Koopa Engine: physics, collision resolution and encounters\<close>

text \<open>
  The repository holds two near-duplicate engines. Definitions with plain names embed
  \<^verbatim>\<open>KoopaHDR1.07.31.251.0X.py\<close> (stomp turns the enemy into a shell); definitions with the
  suffix \<open>_A\<close> embed \<^verbatim>\<open>koopahdr.py\<close> (stomp removes the enemy).

  Velocities are Python floats; they are modelled by exact reals, and no property below
  rests on a rounding. Sounds, images and drawing are left out: they never feed back into
  positions, velocities, score or lives.
\<close>

subsection \<open>pygame rectangles\<close>

text \<open>
  A pygame \<open>Rect\<close> keeps four integers. Assigning a float to a coordinate rounds it to
  the nearest integer, a half going away from zero (100.5 becomes 101, -2.5 becomes -3).
  \<open>colliderect\<close> is the strict overlap test of two rectangles of positive size, the only
  ones the engine builds.
\<close>

record Rect =
  rect_x :: int
  rect_y :: int
  rect_w :: int
  rect_h :: int

definition pg_int :: "real \<Rightarrow> int" where
  "pg_int r = (if 0 \<le> r then \<lfloor>r + 1 / 2\<rfloor> else \<lceil>r - 1 / 2\<rceil>)"

definition mk_Rect :: "int \<Rightarrow> int \<Rightarrow> int \<Rightarrow> int \<Rightarrow> Rect" where
  "mk_Rect a b c d = \<lparr>rect_x = a, rect_y = b, rect_w = c, rect_h = d\<rparr>"

definition rect_left :: "Rect \<Rightarrow> int" where
  "rect_left r = rect_x r"

definition rect_top :: "Rect \<Rightarrow> int" where
  "rect_top r = rect_y r"

definition rect_right :: "Rect \<Rightarrow> int" where
  "rect_right r = rect_x r + rect_w r"

definition rect_bottom :: "Rect \<Rightarrow> int" where
  "rect_bottom r = rect_y r + rect_h r"

definition rect_centery :: "Rect \<Rightarrow> int" where
  "rect_centery r = rect_y r + rect_h r div 2"

definition set_left :: "int \<Rightarrow> Rect \<Rightarrow> Rect" where
  "set_left v r = r\<lparr>rect_x := v\<rparr>"

definition set_right :: "int \<Rightarrow> Rect \<Rightarrow> Rect" where
  "set_right v r = r\<lparr>rect_x := v - rect_w r\<rparr>"

definition set_top :: "int \<Rightarrow> Rect \<Rightarrow> Rect" where
  "set_top v r = r\<lparr>rect_y := v\<rparr>"

definition set_bottom :: "int \<Rightarrow> Rect \<Rightarrow> Rect" where
  "set_bottom v r = r\<lparr>rect_y := v - rect_h r\<rparr>"

definition set_topleft :: "int \<times> int \<Rightarrow> Rect \<Rightarrow> Rect" where
  "set_topleft p r = r\<lparr>rect_x := fst p, rect_y := snd p\<rparr>"

definition colliderect :: "Rect \<Rightarrow> Rect \<Rightarrow> bool" where
  "colliderect a b \<longleftrightarrow>
     rect_x a < rect_x b + rect_w b \<and> rect_y a < rect_y b + rect_h b \<and>
     rect_x b < rect_x a + rect_w a \<and> rect_y b < rect_y a + rect_h a"

subsection \<open>Constants of \<^verbatim>\<open>KoopaHDR1.07.31.251.0X.py\<close>\<close>

definition TILE_SIZE :: int where "TILE_SIZE = 32"
definition GRAVITY :: real where "GRAVITY = 1/2"
definition JUMP_STRENGTH :: real where "JUMP_STRENGTH = - 12"
definition PLAYER_SPEED :: int where "PLAYER_SPEED = 6"
definition KOOPA_SPEED :: int where "KOOPA_SPEED = 2"
definition KOOPA_SHELL_SPEED :: int where "KOOPA_SHELL_SPEED = 10"

datatype error = IndexError | AttributeError

subsection \<open>TileMap\<close>

record TileMap =
  data :: "string list"
  tile_size :: int
  width :: int
  height :: int
  tiles :: "Rect list"
  coin_positions :: "(int \<times> int) list"
  koopa_positions :: "(int \<times> int) list"

text \<open>\<open>TileMap.__init__\<close>: \<open>len(data[0])\<close> raises IndexError on an empty sequence.\<close>

definition TileMap_init :: "string list \<Rightarrow> error + TileMap" where
  "TileMap_init d =
     (case d of
        [] \<Rightarrow> Inl IndexError
      | row0 # _ \<Rightarrow>
          Inr \<lparr>data = d, tile_size = TILE_SIZE, width = int (length row0),
               height = int (length d), tiles = [], coin_positions = [],
               koopa_positions = []\<rparr>)"

text \<open>The body of the inner loop of \<open>load_tiles\<close> for the cell at column \<open>cx\<close>, row \<open>cy\<close>.\<close>

definition load_cell :: "int \<Rightarrow> int \<Rightarrow> char \<Rightarrow> TileMap \<Rightarrow> TileMap" where
  "load_cell cy cx tile_char tm =
     (if tile_char = CHR ''#'' then
        tm\<lparr>tiles := tiles tm @
              [mk_Rect (cx * tile_size tm) (cy * tile_size tm) (tile_size tm) (tile_size tm)]\<rparr>
      else if tile_char = CHR ''C'' then
        tm\<lparr>coin_positions := coin_positions tm @
              [(cx * tile_size tm + tile_size tm div 2 - 10,
                cy * tile_size tm + tile_size tm div 2 - 10)]\<rparr>
      else if tile_char = CHR ''K'' then
        tm\<lparr>koopa_positions := koopa_positions tm @
              [(cx * tile_size tm, cy * tile_size tm)]\<rparr>
      else tm)"

fun load_row :: "int \<Rightarrow> int \<Rightarrow> string \<Rightarrow> TileMap \<Rightarrow> TileMap" where
  "load_row cy cx [] tm = tm"
| "load_row cy cx (tile_char # row) tm = load_row cy (cx + 1) row (load_cell cy cx tile_char tm)"

fun load_rows :: "int \<Rightarrow> string list \<Rightarrow> TileMap \<Rightarrow> TileMap" where
  "load_rows cy [] tm = tm"
| "load_rows cy (row # rows) tm = load_rows (cy + 1) rows (load_row cy 0 row tm)"

definition load_tiles :: "TileMap \<Rightarrow> TileMap" where
  "load_tiles tm =
     load_rows 0 (data tm) (tm\<lparr>tiles := [], coin_positions := [], koopa_positions := []\<rparr>)"

text \<open>Building a grid as \<open>GameManager.load_level\<close> does: construct, then \<open>load_tiles\<close>.\<close>

definition TileMap_build :: "string list \<Rightarrow> error + TileMap" where
  "TileMap_build d = (case TileMap_init d of Inl e \<Rightarrow> Inl e | Inr tm \<Rightarrow> Inr (load_tiles tm))"

subsection \<open>Entity: gravity and the two collision sweeps\<close>

record Entity =
  rect :: Rect
  vel_x :: real
  vel_y :: real
  on_ground :: bool

definition apply_gravity :: "'a Entity_scheme \<Rightarrow> 'a Entity_scheme" where
  "apply_gravity e =
     (let e1 = e\<lparr>vel_y := vel_y e + GRAVITY\<rparr>
      in if vel_y e1 > 10 then e1\<lparr>vel_y := 10\<rparr> else e1)"

fun check_collisions_x :: "Rect list \<Rightarrow> 'a Entity_scheme \<Rightarrow> 'a Entity_scheme" where
  "check_collisions_x [] e = e"
| "check_collisions_x (tile # ts) e =
     check_collisions_x ts
       (if colliderect (rect e) tile then
          (if vel_x e > 0 then e\<lparr>rect := set_right (rect_left tile) (rect e)\<rparr>
           else if vel_x e < 0 then e\<lparr>rect := set_left (rect_right tile) (rect e)\<rparr>
           else e)\<lparr>vel_x := 0\<rparr>
        else e)"

fun collisions_y_loop :: "Rect list \<Rightarrow> 'a Entity_scheme \<Rightarrow> 'a Entity_scheme" where
  "collisions_y_loop [] e = e"
| "collisions_y_loop (tile # ts) e =
     collisions_y_loop ts
       (if colliderect (rect e) tile then
          (if vel_y e > 0 then
             e\<lparr>rect := set_bottom (rect_top tile) (rect e), vel_y := 0, on_ground := True\<rparr>
           else if vel_y e < 0 then
             e\<lparr>rect := set_top (rect_bottom tile) (rect e), vel_y := 0\<rparr>
           else e)
        else e)"

definition check_collisions_y :: "Rect list \<Rightarrow> 'a Entity_scheme \<Rightarrow> 'a Entity_scheme" where
  "check_collisions_y ts e = collisions_y_loop ts (e\<lparr>on_ground := False\<rparr>)"

text \<open>The statements \<open>self.rect.x += dx\<close> and \<open>self.rect.y += dy\<close> with a float on the right.\<close>

definition move_x :: "real \<Rightarrow> 'a Entity_scheme \<Rightarrow> 'a Entity_scheme" where
  "move_x dx e = e\<lparr>rect := (rect e)\<lparr>rect_x := pg_int (real_of_int (rect_x (rect e)) + dx)\<rparr>\<rparr>"

definition move_y :: "real \<Rightarrow> 'a Entity_scheme \<Rightarrow> 'a Entity_scheme" where
  "move_y dy e = e\<lparr>rect := (rect e)\<lparr>rect_y := pg_int (real_of_int (rect_y (rect e)) + dy)\<rparr>\<rparr>"

subsection \<open>Level tables of \<^verbatim>\<open>KoopaHDR1.07.31.251.0X.py\<close>\<close>

text \<open>The rows are copied as they stand in the source; several are not 80 characters long.\<close>

definition level_1_1 :: "string list" where
  "level_1_1 =
     [''................................................................................'',
      ''................................................................................'',
      ''..................###..............................................K............'',
      ''..............................................###...............................'',
      ''.............................###..................C.............................'',
      ''................................................................................'',
      ''........K.......................................................................'',
      ''################################################################################'']"

definition level_1_2 :: "string list" where
  "level_1_2 =
     [''................................................................................'',
      ''...................................###..........................................'',
      ''................K.................#...#........................................'',
      ''..................................#...#................C.......................'',
      ''..................................#...#.........................................'',
      ''...................................###..................K......................'',
      ''................................................................................'',
      ''################################################################################'']"

definition level_1_3 :: "string list" where
  "level_1_3 =
     [''................................................................................'',
      ''.................###............................................................'',
      ''........K.......#...#..............................###..........................'',
      ''................#...#.............................#...#........C................'',
      ''................#...#.............................#...#.........................'',
      ''.................###..............................#...#........K................'',
      ''................................................................................'',
      ''################################################################################'']"

definition level_2_1 :: "string list" where
  "level_2_1 =
     [''................................................................................'',
      ''..............................#.................................................'',
      ''.............................#.#......................K.........................'',
      ''............................#...#....................###........................'',
      ''........C..................#...#...................#...#......................'',
      ''............................#...#...................#...#........K.............'',
      ''.............................#.#....................#...#......................'',
      ''..............................#......................###.......................'',
      ''................................................................................'',
      ''################################################################################'']"

definition level_2_2 :: "string list" where
  "level_2_2 =
     [''................................................................................'',
      ''................#...............................................................'',
      ''...............#.#........................................C.....................'',
      ''..............#...#..............................K..............................'',
      ''.............#.....#............................................................'',
      ''............#.......#...........................###..............................'',
      ''...........#.........#.........................#...#........K..................'',
      ''..........#...........#........................#...#............................'',
      ''.........#.............#.......................#...#...........................'',
      ''........#...............#......................###.............................'',
      ''................................................................................'',
      ''################################################################################'']"

definition level_2_3 :: "string list" where
  "level_2_3 =
     [''................................................................................'',
      ''................................................................................'',
      ''...............###..............................................K...............'',
      ''..............#...#....................................C........................'',
      ''.............#.....#............................................................'',
      ''............#.......#..........................K.................................'',
      ''...........#.........#..........................................................'',
      ''..........#...........#.........................................................'',
      ''.........#.............#........................................................'',
      ''........#...............#......................................................'',
      ''.......#.................#.....................................................'',
      ''......#...................#....................................................'',
      ''.....#.....................#...................................................'',
      ''....#.......................#..................................................'',
      ''...#.........................#.................................................'',
      ''................................................................................'',
      ''################################################################################'']"

definition level_3_1 :: "string list" where
  "level_3_1 =
     [''................................................................................'',
      ''................................................................................'',
      ''................................................................................'',
      ''.................K.........................................###..................'',
      ''..........................................................#...#........C........'',
      ''..........................................................#...#.................'',
      ''..........................................................#...#........K........'',
      ''...........................................................###..................'',
      ''................................................................................'',
      ''################################################################################'']"

definition level_3_2 :: "string list" where
  "level_3_2 =
     [''................................................................................'',
      ''...............#................................................................'',
      ''..............#.#........................................K......................'',
      ''.............#...#.....................................###.....................'',
      ''............#.....#...................................#...#........C...........'',
      ''...........#.......#..................................#...#....................'',
      ''..........#.........#........................K........#...#....................'',
      ''.........#...........#...............................#...#.....................'',
      ''........#.............#..............................###.......................'',
      ''................................................................................'',
      ''################################################################################'']"

definition level_3_3 :: "string list" where
  "level_3_3 =
     [''................................................................................'',
      ''................................................................................'',
      ''..............###...............................................K...............'',
      ''.............#...#.....................................C........................'',
      ''............#.....#.............................................................'',
      ''...........#.......#...................................###......................'',
      ''..........#.........#........................K.........#...#....................'',
      ''.........#...........#................................#...#....................'',
      ''........#.............#...............................#...#.....................'',
      ''.......#...............#..............................###.......................'',
      ''................................................................................'',
      ''################################################################################'']"

definition WORLDS :: "string list list list" where
  "WORLDS =
     [[level_1_1, level_1_2, level_1_3],
      [level_2_1, level_2_2, level_2_3],
      [level_3_1, level_3_2, level_3_3]]"

definition SCREEN_WIDTH :: int where "SCREEN_WIDTH = 800"

text \<open>Python indexing \<open>xs[i]\<close>: a negative index counts from the end, out of range raises.\<close>

definition py_index :: "'a list \<Rightarrow> int \<Rightarrow> error + 'a" where
  "py_index xs i =
     (if 0 \<le> i \<and> i < int (length xs) then Inr (xs ! nat i)
      else if i < 0 \<and> - int (length xs) \<le> i then Inr (xs ! nat (int (length xs) + i))
      else Inl IndexError)"

subsection \<open>Player\<close>

record Player = Entity +
  shell_state :: bool
  shell_timer :: int
  dash_speed :: int

datatype key = K_LEFT | K_RIGHT | K_a | K_d | K_SPACE | K_w | K_x

definition Player_init :: "int \<Rightarrow> int \<Rightarrow> Player" where
  "Player_init px py =
     \<lparr>rect = mk_Rect px py 32 32, vel_x = 0, vel_y = 0, on_ground = False,
      shell_state = False, shell_timer = 0, dash_speed = 0\<rparr>"

text \<open>Movement keys and jump of \<open>Player.update\<close>.\<close>

definition player_input :: "(key \<Rightarrow> bool) \<Rightarrow> Player \<Rightarrow> Player" where
  "player_input keys p =
     (let p1 = p\<lparr>vel_x := 0\<rparr>;
          p2 = (if keys K_LEFT \<or> keys K_a then p1\<lparr>vel_x := - real_of_int PLAYER_SPEED\<rparr> else p1);
          p3 = (if keys K_RIGHT \<or> keys K_d
                then p2\<lparr>vel_x := vel_x p2 + real_of_int PLAYER_SPEED\<rparr> else p2)
      in if (keys K_SPACE \<or> keys K_w) \<and> on_ground p3 then p3\<lparr>vel_y := JUMP_STRENGTH\<rparr> else p3)"

text \<open>Entering shell mode on X, and the shell timer, of \<open>Player.update\<close>.\<close>

definition player_shell_mode :: "(key \<Rightarrow> bool) \<Rightarrow> Player \<Rightarrow> Player" where
  "player_shell_mode keys p =
     (let p1 = (if keys K_x \<and> \<not> shell_state p then
                  p\<lparr>shell_state := True, shell_timer := 300,
                    rect := (rect p)\<lparr>rect_h := 24, rect_y := rect_y (rect p) + 8\<rparr>,
                    dash_speed := PLAYER_SPEED * 2\<rparr>
                else p)
      in if shell_state p1 then
           (let p2 = p1\<lparr>vel_x := vel_x p1 * (12 / 10), shell_timer := shell_timer p1 - 1\<rparr>
            in if shell_timer p2 \<le> 0 then
                 p2\<lparr>shell_state := False,
                    rect := (rect p2)\<lparr>rect_h := 32, rect_y := rect_y (rect p2) - 8\<rparr>,
                    dash_speed := 0\<rparr>
               else p2)
         else p1)"

text \<open>\<open>Player.update\<close> up to and including the horizontal sweep.\<close>

definition Player_update_x :: "TileMap \<Rightarrow> (key \<Rightarrow> bool) \<Rightarrow> Player \<Rightarrow> Player" where
  "Player_update_x tm keys p =
     (let p1 = player_shell_mode keys (player_input keys (apply_gravity p));
          p2 = move_x (vel_x p1 + real_of_int (dash_speed p1) *
                         (if vel_x p1 > 0 then 1 else if vel_x p1 < 0 then - 1 else 0)) p1
      in check_collisions_x (tiles tm) p2)"

definition Player_update :: "TileMap \<Rightarrow> (key \<Rightarrow> bool) \<Rightarrow> Player \<Rightarrow> Player" where
  "Player_update tm keys p =
     (let p3 = Player_update_x tm keys p;
          p4 = move_y (vel_y p3) p3
      in check_collisions_y (tiles tm) p4)"

subsection \<open>Koopa\<close>

record Koopa = Entity +
  direction :: int
  shell :: bool
  shell_timer_k :: int

definition Koopa_init :: "int \<Rightarrow> int \<Rightarrow> Koopa" where
  "Koopa_init px py =
     \<lparr>rect = mk_Rect px py 32 32, vel_x = 0, vel_y = 0, on_ground = False,
      direction = 1, shell = False, shell_timer_k = 0\<rparr>"

text \<open>The wall loop of \<open>Koopa.update\<close>: it stops at the first tile hit and reports \<open>hit_wall\<close>.\<close>

fun koopa_wall_loop :: "Rect list \<Rightarrow> Koopa \<Rightarrow> Koopa \<times> bool" where
  "koopa_wall_loop [] k = (k, False)"
| "koopa_wall_loop (tile # ts) k =
     (if colliderect (rect k) tile then
        (if vel_x k > 0 then k\<lparr>rect := set_right (rect_left tile) (rect k)\<rparr>
         else k\<lparr>rect := set_left (rect_right tile) (rect k)\<rparr>, True)
      else koopa_wall_loop ts k)"

text \<open>Velocity assignment, horizontal move and wall loop of \<open>Koopa.update\<close>.\<close>

definition koopa_walk :: "TileMap \<Rightarrow> Koopa \<Rightarrow> Koopa" where
  "koopa_walk tm k =
     (let k1 = (if \<not> shell k then k\<lparr>vel_x := real_of_int (KOOPA_SPEED * direction k)\<rparr>
                else k\<lparr>vel_x := real_of_int (KOOPA_SHELL_SPEED * direction k)\<rparr>);
          k2 = move_x (vel_x k1) k1;
          (k3, hit_wall) = koopa_wall_loop (tiles tm) k2
      in if hit_wall then k3\<lparr>direction := direction k3 * (- 1)\<rparr> else k3)"

text \<open>The ledge probe of \<open>Koopa.update\<close>.\<close>

definition koopa_edge_check :: "TileMap \<Rightarrow> Koopa \<Rightarrow> Koopa" where
  "koopa_edge_check tm k =
     (if on_ground k then
        (let edge_check = mk_Rect (pg_int (real_of_int (rect_x (rect k)) + vel_x k))
                            (rect_bottom (rect k)) (rect_w (rect k)) 2
         in if \<not> list_ex (colliderect edge_check) (tiles tm)
            then k\<lparr>direction := direction k * (- 1)\<rparr> else k)
      else k)"

text \<open>\<open>Koopa.update\<close> up to and including the ledge probe.\<close>

definition Koopa_update_x :: "TileMap \<Rightarrow> Koopa \<Rightarrow> Koopa" where
  "Koopa_update_x tm k = koopa_edge_check tm (koopa_walk tm (apply_gravity k))"

text \<open>The shell timer at the end of \<open>Koopa.update\<close>.\<close>

definition koopa_shell_tick :: "Koopa \<Rightarrow> Koopa" where
  "koopa_shell_tick k =
     (if shell k then
        (let k1 = k\<lparr>shell_timer_k := shell_timer_k k - 1\<rparr>
         in if shell_timer_k k1 \<le> 0 then k1\<lparr>shell := False\<rparr> else k1)
      else k)"

definition Koopa_update :: "TileMap \<Rightarrow> Koopa \<Rightarrow> Koopa" where
  "Koopa_update tm k =
     (let k1 = Koopa_update_x tm k;
          k2 = move_y (vel_y k1) k1
      in koopa_shell_tick (check_collisions_y (tiles tm) k2))"

definition stomp :: "Koopa \<Rightarrow> Koopa" where
  "stomp k = k\<lparr>shell := True, shell_timer_k := 180, vel_x := 0\<rparr>"

definition kick :: "int \<Rightarrow> Koopa \<Rightarrow> Koopa" where
  "kick d k =
     k\<lparr>shell := True, shell_timer_k := 300, direction := d,
       vel_x := real_of_int (KOOPA_SHELL_SPEED * d), vel_y := - 5\<rparr>"

subsection \<open>GameManager\<close>

text \<open>
  The sprite groups are lists in insertion order. \<open>current_world\<close> and \<open>current_level\<close> are
  the module globals. \<open>self_current_world\<close> and \<open>self_current_level\<close> are the instance
  attributes that \<open>update\<close> reads; \<open>None\<close> means the attribute does not exist, which is how
  \<open>__init__\<close> leaves them.
\<close>

record GameManager =
  player :: Player
  coins :: "Entity list"
  koopas :: "Koopa list"
  tile_map :: TileMap
  score :: int
  lives :: int
  current_world :: int
  current_level :: int
  camera_x :: int
  self_current_world :: "int option"
  self_current_level :: "int option"

definition get_level :: "GameManager \<Rightarrow> string list" where
  "get_level g =
     (if 0 \<le> current_world g \<and> current_world g < int (length WORLDS) \<and>
         0 \<le> current_level g \<and>
         current_level g < int (length (WORLDS ! nat (current_world g)))
      then WORLDS ! nat (current_world g) ! nat (current_level g)
      else replicate 16 (replicate 80 CHR ''.''))"

text \<open>The module function \<open>load_level\<close>: it clamps both indices into the table.\<close>

definition load_level :: "int \<Rightarrow> int \<Rightarrow> GameManager \<Rightarrow> (error + unit) \<times> GameManager" where
  "load_level world level g =
     (let g1 = g\<lparr>current_world := max 0 (min world (int (length WORLDS) - 1))\<rparr>
      in case py_index WORLDS (current_world g1) of
           Inl e \<Rightarrow> (Inl e, g1)
         | Inr levels \<Rightarrow>
             (Inr (), g1\<lparr>current_level := max 0 (min level (int (length levels) - 1))\<rparr>))"

definition Coin_init :: "int \<times> int \<Rightarrow> Entity" where
  "Coin_init pos =
     \<lparr>rect = mk_Rect (fst pos) (snd pos) 20 20, vel_x = 0, vel_y = 0, on_ground = False\<rparr>"

definition GameManager_load_level ::
  "int \<Rightarrow> int \<Rightarrow> GameManager \<Rightarrow> (error + unit) \<times> GameManager" where
  "GameManager_load_level world level g =
     (case load_level world level g of
        (Inl e, g1) \<Rightarrow> (Inl e, g1)
      | (Inr u, g1) \<Rightarrow>
          (case TileMap_build (get_level g1) of
             Inl e \<Rightarrow> (Inl e, g1)
           | Inr tm \<Rightarrow>
               (Inr (),
                g1\<lparr>tile_map := tm,
                   player := (player g1)\<lparr>rect := set_topleft (100, 100) (rect (player g1)),
                                          vel_x := 0, vel_y := 0\<rparr>,
                   coins := map Coin_init (coin_positions tm),
                   koopas := map (\<lambda>pos. Koopa_init (fst pos) (snd pos)) (koopa_positions tm)\<rparr>)))"

text \<open>
  \<open>GameManager.__init__\<close>. The record needs a tile map, a score and a life count before
  \<open>load_level\<close> has run; the placeholders are overwritten before anything reads them.
\<close>

definition GameManager_init :: "error + GameManager" where
  "GameManager_init =
     (let g0 = \<lparr>player = Player_init 100 100, coins = [], koopas = [],
                tile_map = \<lparr>data = [], tile_size = TILE_SIZE, width = 0, height = 0, tiles = [],
                            coin_positions = [], koopa_positions = []\<rparr>,
                score = 0, lives = 3, current_world = 0, current_level = 0, camera_x = 0,
                self_current_world = None, self_current_level = None\<rparr>
      in case GameManager_load_level 0 0 g0 of
           (Inl e, g1) \<Rightarrow> Inl e
         | (Inr u, g1) \<Rightarrow> Inr (g1\<lparr>score := 0, lives := 3, camera_x := 0\<rparr>))"

text \<open>
  The body of the enemy loop of \<open>update\<close> for the koopa at index \<open>i\<close> of the group. The first
  component is \<open>False\<close> when the body executes \<open>return False\<close>.
\<close>

definition enemy_interaction :: "nat \<Rightarrow> GameManager \<Rightarrow> bool \<times> GameManager" where
  "enemy_interaction i g =
     (let koopa = koopas g ! i; p = player g
      in if vel_y p > 0 \<and> rect_bottom (rect p) < rect_centery (rect koopa) then
           (True, g\<lparr>koopas := (koopas g)[i := stomp koopa],
                    player := p\<lparr>vel_y := JUMP_STRENGTH * (7 / 10)\<rparr>,
                    score := score g + 100\<rparr>)
         else if shell_state p then
           (True, g\<lparr>koopas := (koopas g)[i := kick (if vel_x p > 0 then 1 else - 1) koopa],
                    score := score g + 200\<rparr>)
         else
           (let g1 = g\<lparr>lives := lives g - 1\<rparr>
            in if lives g1 \<le> 0 then (False, g1)
               else (True, g1\<lparr>player := p\<lparr>rect := set_topleft (100, 100) (rect p),
                                            vel_x := 0, vel_y := 0\<rparr>\<rparr>)))"

fun enemy_loop :: "nat list \<Rightarrow> GameManager \<Rightarrow> bool \<times> GameManager" where
  "enemy_loop [] g = (True, g)"
| "enemy_loop (i # rest) g =
     (case enemy_interaction i g of
        (go, g1) \<Rightarrow> if go then enemy_loop rest g1 else (False, g1))"

text \<open>\<open>pg.sprite.spritecollide(self.player, self.koopas, False)\<close>, as indices into the group.\<close>

definition collided_koopas :: "GameManager \<Rightarrow> nat list" where
  "collided_koopas g =
     filter (\<lambda>i. colliderect (rect (player g)) (rect (koopas g ! i))) [0..<length (koopas g)]"

text \<open>The level-complete branch of \<open>update\<close>.\<close>

definition level_complete :: "GameManager \<Rightarrow> (error + bool) \<times> GameManager" where
  "level_complete g =
     (case self_current_level g of
        None \<Rightarrow> (Inl AttributeError, g)
      | Some l \<Rightarrow>
          (let g1 = g\<lparr>self_current_level := Some (l + 1)\<rparr>
           in case self_current_world g1 of
                None \<Rightarrow> (Inl AttributeError, g1)
              | Some w \<Rightarrow>
                  (case py_index WORLDS w of
                     Inl e \<Rightarrow> (Inl e, g1)
                   | Inr levels \<Rightarrow>
                       (let (w2, l2) = (if l + 1 \<ge> int (length levels) then (w + 1, 0)
                                        else (w, l + 1));
                            g2 = g1\<lparr>self_current_world := Some w2, self_current_level := Some l2\<rparr>
                        in if w2 \<ge> int (length WORLDS) then (Inr False, g2)
                           else (case GameManager_load_level w2 l2 g2 of
                                   (Inl e, g3) \<Rightarrow> (Inl e, g3)
                                 | (Inr u, g3) \<Rightarrow> (Inr True, g3))))))"

definition GameManager_update ::
  "(key \<Rightarrow> bool) \<Rightarrow> GameManager \<Rightarrow> (error + bool) \<times> GameManager" where
  "GameManager_update keys g =
     (let g1 = g\<lparr>player := Player_update (tile_map g) keys (player g)\<rparr>;
          g2 = g1\<lparr>koopas := map (Koopa_update (tile_map g1)) (koopas g1)\<rparr>;
          g3 = g2\<lparr>camera_x := rect_x (rect (player g2)) - SCREEN_WIDTH div 2\<rparr>;
          collected = filter (\<lambda>c. colliderect (rect (player g3)) (rect c)) (coins g3);
          g4 = g3\<lparr>coins := filter (\<lambda>c. \<not> colliderect (rect (player g3)) (rect c)) (coins g3)\<rparr>;
          g5 = g4\<lparr>score := foldl (\<lambda>s coin. s + 50) (score g4) collected\<rparr>
      in case enemy_loop (collided_koopas g5) g5 of
           (go, g6) \<Rightarrow>
             if \<not> go then (Inr False, g6)
             else if rect_x (rect (player g6)) > width (tile_map g6) * TILE_SIZE - 100
             then level_complete g6
             else (Inr True, g6))"

text \<open>
  The part of \<open>update\<close> before the enemy loop: the player moves, the koopas move, the camera
  follows, the coins in contact are taken. \<open>update\<close> runs the enemy loop on the state this
  leaves (\<open>GameManager_update_phases\<close> below).
\<close>

definition GameManager_move :: "(key \<Rightarrow> bool) \<Rightarrow> GameManager \<Rightarrow> GameManager" where
  "GameManager_move keys g =
     (let g1 = g\<lparr>player := Player_update (tile_map g) keys (player g)\<rparr>;
          g2 = g1\<lparr>koopas := map (Koopa_update (tile_map g1)) (koopas g1)\<rparr>;
          g3 = g2\<lparr>camera_x := rect_x (rect (player g2)) - SCREEN_WIDTH div 2\<rparr>;
          collected = filter (\<lambda>c. colliderect (rect (player g3)) (rect c)) (coins g3);
          g4 = g3\<lparr>coins := filter (\<lambda>c. \<not> colliderect (rect (player g3)) (rect c)) (coins g3)\<rparr>
      in g4\<lparr>score := foldl (\<lambda>s coin. s + 50) (score g4) collected\<rparr>)"

text \<open>
  The main loop: one \<open>update\<close> per tick, with that tick's pressed keys, until \<open>update\<close>
  returns \<open>False\<close> or raises. The list holds the keys of the ticks played so far.
\<close>

fun main_loop :: "(key \<Rightarrow> bool) list \<Rightarrow> GameManager \<Rightarrow> GameManager" where
  "main_loop [] g = g"
| "main_loop (keys # rest) g =
     (case GameManager_update keys g of
        (Inr True, g1) \<Rightarrow> main_loop rest g1
      | (Inr False, g1) \<Rightarrow> g1
      | (Inl e, g1) \<Rightarrow> g1)"

section \<open>The engine of \<^verbatim>\<open>koopahdr.py\<close>\<close>

definition JUMP_STRENGTH_A :: real where "JUMP_STRENGTH_A = - 10"
definition PLAYER_SPEED_A :: int where "PLAYER_SPEED_A = 5"
definition KOOPA_SPEED_A :: int where "KOOPA_SPEED_A = 1"
definition KOOPA_SHELL_SPEED_A :: int where "KOOPA_SHELL_SPEED_A = 8"

definition level_1_1_A :: "string list" where
  "level_1_1_A =
     [''................................................................................'',
      ''................................................................................'',
      ''................................................................................'',
      ''..................###...........................................................'',
      ''..............................................###...............................'',
      ''.............................###................................................'',
      ''................................................................................'',
      ''################################################################################'']"

definition level_1_2_A :: "string list" where
  "level_1_2_A =
     [''................................................................................'',
      ''................................................................................'',
      ''................................................................................'',
      ''................................................................................'',
      ''................................................................................'',
      ''................................................................................'',
      ''................................................................................'',
      ''################################################################################'']"

definition level_1_3_A :: "string list" where
  "level_1_3_A =
     [''................................................................................'',
      ''................................................................................'',
      ''................................................................................'',
      ''................................................................................'',
      ''................................................................................'',
      ''................................................................................'',
      ''................................................................................'',
      ''################################################################################'']"

definition WORLDS_A :: "string list list list" where
  "WORLDS_A =
     [[level_1_1_A, level_1_2_A, level_1_3_A]] @
     replicate 4 [replicate 8 (replicate 80 CHR ''#'')]"

subsection \<open>TileMap\<close>

text \<open>
  Iterating a Python string yields strings of length one, and the fallback of \<open>get_level\<close>
  is a list holding one list of eight strings. A row is therefore a list of cells, each cell
  a string; \<open>cells\<close> is what iterating a string yields.
\<close>

definition cells :: "string \<Rightarrow> string list" where
  "cells s = map (\<lambda>c. [c]) s"

record TileMap_A =
  data_A :: "string list list"
  tile_size_A :: int
  width_A :: int
  height_A :: int
  tiles_A :: "Rect list"
  coins_A :: "(int \<times> int) list"
  koopas_A :: "(int \<times> int) list"

definition TileMap_init_A :: "string list list \<Rightarrow> error + TileMap_A" where
  "TileMap_init_A d =
     (case d of
        [] \<Rightarrow> Inl IndexError
      | row0 # _ \<Rightarrow>
          Inr \<lparr>data_A = d, tile_size_A = TILE_SIZE, width_A = int (length row0),
               height_A = int (length d), tiles_A = [], coins_A = [], koopas_A = []\<rparr>)"

definition load_cell_A :: "int \<Rightarrow> int \<Rightarrow> string \<Rightarrow> TileMap_A \<Rightarrow> TileMap_A" where
  "load_cell_A cy cx tile_char tm =
     (if tile_char = ''#'' then
        tm\<lparr>tiles_A := tiles_A tm @
              [mk_Rect (cx * tile_size_A tm) (cy * tile_size_A tm)
                 (tile_size_A tm) (tile_size_A tm)]\<rparr>
      else if tile_char = ''C'' then
        tm\<lparr>coins_A := coins_A tm @
              [(cx * tile_size_A tm + tile_size_A tm div 2,
                cy * tile_size_A tm + tile_size_A tm div 2)]\<rparr>
      else if tile_char = ''K'' then
        tm\<lparr>koopas_A := koopas_A tm @ [(cx * tile_size_A tm, cy * tile_size_A tm)]\<rparr>
      else tm)"

fun load_row_A :: "int \<Rightarrow> int \<Rightarrow> string list \<Rightarrow> TileMap_A \<Rightarrow> TileMap_A" where
  "load_row_A cy cx [] tm = tm"
| "load_row_A cy cx (tile_char # row) tm =
     load_row_A cy (cx + 1) row (load_cell_A cy cx tile_char tm)"

fun load_rows_A :: "int \<Rightarrow> string list list \<Rightarrow> TileMap_A \<Rightarrow> TileMap_A" where
  "load_rows_A cy [] tm = tm"
| "load_rows_A cy (row # rows) tm = load_rows_A (cy + 1) rows (load_row_A cy 0 row tm)"

definition load_tiles_A :: "TileMap_A \<Rightarrow> TileMap_A" where
  "load_tiles_A tm =
     load_rows_A 0 (data_A tm) (tm\<lparr>tiles_A := [], coins_A := [], koopas_A := []\<rparr>)"

definition TileMap_build_A :: "string list list \<Rightarrow> error + TileMap_A" where
  "TileMap_build_A d =
     (case TileMap_init_A d of Inl e \<Rightarrow> Inl e | Inr tm \<Rightarrow> Inr (load_tiles_A tm))"

subsection \<open>Entity, Player and Koopa\<close>

record Entity_A =
  rect_A :: Rect
  vel_x_A :: real
  vel_y_A :: real

record Player_A = Entity_A +
  on_ground_A :: bool
  jumping_A :: bool
  shell_state_A :: bool
  shell_timer_A :: int

record Koopa_A = Entity_A +
  direction_A :: int
  walk_speed_A :: int
  shell_A :: bool
  shell_timer_k_A :: int

definition Player_init_A :: "int \<Rightarrow> int \<Rightarrow> Player_A" where
  "Player_init_A px py =
     \<lparr>rect_A = mk_Rect px py 32 32, vel_x_A = 0, vel_y_A = 0, on_ground_A = False,
      jumping_A = False, shell_state_A = False, shell_timer_A = 0\<rparr>"

definition Koopa_init_A :: "int \<Rightarrow> int \<Rightarrow> Koopa_A" where
  "Koopa_init_A px py =
     \<lparr>rect_A = mk_Rect px py 32 32, vel_x_A = 0, vel_y_A = 0, direction_A = 1,
      walk_speed_A = KOOPA_SPEED_A, shell_A = False, shell_timer_k_A = 0\<rparr>"

text \<open>The loop of \<open>Player.check_collisions\<close> over the tiles, for one of the two directions.\<close>

fun collisions_loop_A :: "Rect list \<Rightarrow> string \<Rightarrow> Player_A \<Rightarrow> Player_A" where
  "collisions_loop_A [] dir p = p"
| "collisions_loop_A (tile_rect # ts) dir p =
     collisions_loop_A ts dir
       (if colliderect (rect_A p) tile_rect then
          (if dir = ''horizontal'' then
             (if vel_x_A p > 0 then p\<lparr>rect_A := set_right (rect_left tile_rect) (rect_A p)\<rparr>
              else if vel_x_A p < 0 then p\<lparr>rect_A := set_left (rect_right tile_rect) (rect_A p)\<rparr>
              else p)
           else if dir = ''vertical'' then
             (if vel_y_A p > 0 then
                p\<lparr>rect_A := set_bottom (rect_top tile_rect) (rect_A p), vel_y_A := 0,
                  on_ground_A := True, jumping_A := False\<rparr>
              else if vel_y_A p < 0 then
                p\<lparr>rect_A := set_top (rect_bottom tile_rect) (rect_A p), vel_y_A := 0\<rparr>
              else p)
           else p)
        else p)"

definition check_collisions_A :: "TileMap_A \<Rightarrow> string \<Rightarrow> Player_A \<Rightarrow> Player_A" where
  "check_collisions_A tm dir p = collisions_loop_A (tiles_A tm) dir p"

definition move_x_A :: "real \<Rightarrow> 'a Entity_A_scheme \<Rightarrow> 'a Entity_A_scheme" where
  "move_x_A dx e =
     e\<lparr>rect_A := (rect_A e)\<lparr>rect_x := pg_int (real_of_int (rect_x (rect_A e)) + dx)\<rparr>\<rparr>"

definition move_y_A :: "real \<Rightarrow> 'a Entity_A_scheme \<Rightarrow> 'a Entity_A_scheme" where
  "move_y_A dy e =
     e\<lparr>rect_A := (rect_A e)\<lparr>rect_y := pg_int (real_of_int (rect_y (rect_A e)) + dy)\<rparr>\<rparr>"

text \<open>Gravity with the fall speed capped at 5, as both \<open>update\<close> methods write it.\<close>

definition gravity_A :: "'a Entity_A_scheme \<Rightarrow> 'a Entity_A_scheme" where
  "gravity_A e =
     (let e1 = e\<lparr>vel_y_A := vel_y_A e + GRAVITY\<rparr>
      in if vel_y_A e1 > 5 then e1\<lparr>vel_y_A := 5\<rparr> else e1)"

definition Player_update_A :: "TileMap_A \<Rightarrow> (key \<Rightarrow> bool) \<Rightarrow> Player_A \<Rightarrow> Player_A" where
  "Player_update_A tm keys p =
     (let p1 = gravity_A p;
          p2 = (if keys K_LEFT then p1\<lparr>vel_x_A := - real_of_int PLAYER_SPEED_A\<rparr>
                else if keys K_RIGHT then p1\<lparr>vel_x_A := real_of_int PLAYER_SPEED_A\<rparr>
                else p1\<lparr>vel_x_A := 0\<rparr>);
          p3 = (if keys K_SPACE \<and> on_ground_A p2
                then p2\<lparr>vel_y_A := JUMP_STRENGTH_A, on_ground_A := False, jumping_A := True\<rparr>
                else p2);
          p4 = check_collisions_A tm ''horizontal'' (move_x_A (vel_x_A p3) p3);
          p5 = check_collisions_A tm ''vertical'' (move_y_A (vel_y_A p4) p4)
      in if shell_state_A p5 then
           (let p6 = p5\<lparr>shell_timer_A := shell_timer_A p5 - 1\<rparr>
            in if shell_timer_A p6 \<le> 0 then p6\<lparr>shell_state_A := False\<rparr> else p6)
         else p5)"

text \<open>\<open>Player.update\<close> up to and including the horizontal sweep, and its shell timer.\<close>

definition Player_update_x_A :: "TileMap_A \<Rightarrow> (key \<Rightarrow> bool) \<Rightarrow> Player_A \<Rightarrow> Player_A" where
  "Player_update_x_A tm keys p =
     (let p1 = gravity_A p;
          p2 = (if keys K_LEFT then p1\<lparr>vel_x_A := - real_of_int PLAYER_SPEED_A\<rparr>
                else if keys K_RIGHT then p1\<lparr>vel_x_A := real_of_int PLAYER_SPEED_A\<rparr>
                else p1\<lparr>vel_x_A := 0\<rparr>);
          p3 = (if keys K_SPACE \<and> on_ground_A p2
                then p2\<lparr>vel_y_A := JUMP_STRENGTH_A, on_ground_A := False, jumping_A := True\<rparr>
                else p2)
      in check_collisions_A tm ''horizontal'' (move_x_A (vel_x_A p3) p3))"

definition player_shell_tick_A :: "Player_A \<Rightarrow> Player_A" where
  "player_shell_tick_A p =
     (if shell_state_A p then
        (let p1 = p\<lparr>shell_timer_A := shell_timer_A p - 1\<rparr>
         in if shell_timer_A p1 \<le> 0 then p1\<lparr>shell_state_A := False\<rparr> else p1)
      else p)"

text \<open>The wall loop of \<open>Koopa.update\<close>; the second component is the flag \<open>collision\<close>.\<close>

fun koopa_wall_loop_A :: "Rect list \<Rightarrow> Koopa_A \<Rightarrow> Koopa_A \<times> bool" where
  "koopa_wall_loop_A [] k = (k, False)"
| "koopa_wall_loop_A (tile_rect # ts) k =
     (if colliderect (rect_A k) tile_rect then
        ((if direction_A k = 1 then k\<lparr>rect_A := set_right (rect_left tile_rect) (rect_A k)\<rparr>
          else k\<lparr>rect_A := set_left (rect_right tile_rect) (rect_A k)\<rparr>)
           \<lparr>direction_A := direction_A k * (- 1)\<rparr>, True)
      else koopa_wall_loop_A ts k)"

text \<open>Velocity assignment, trial step and wall loop of \<open>Koopa.update\<close>.\<close>

definition koopa_walk_A :: "TileMap_A \<Rightarrow> Koopa_A \<Rightarrow> Koopa_A" where
  "koopa_walk_A tm k =
     (let k1 = k\<lparr>vel_x_A := real_of_int (walk_speed_A k * direction_A k)\<rparr>;
          old_x = rect_x (rect_A k1);
          k2 = move_x_A (vel_x_A k1) k1;
          (k3, collision) = koopa_wall_loop_A (tiles_A tm) k2
      in if \<not> collision then k3\<lparr>rect_A := (rect_A k3)\<lparr>rect_x := old_x\<rparr>\<rparr> else k3)"

fun koopa_collisions_loop_A :: "Rect list \<Rightarrow> Koopa_A \<Rightarrow> Koopa_A" where
  "koopa_collisions_loop_A [] k = k"
| "koopa_collisions_loop_A (tile_rect # ts) k =
     koopa_collisions_loop_A ts
       (if colliderect (rect_A k) tile_rect then
          (if vel_y_A k > 0
           then k\<lparr>rect_A := set_bottom (rect_top tile_rect) (rect_A k), vel_y_A := 0\<rparr>
           else k)
        else k)"

definition Koopa_check_collisions_A :: "TileMap_A \<Rightarrow> Koopa_A \<Rightarrow> Koopa_A" where
  "Koopa_check_collisions_A tm k = koopa_collisions_loop_A (tiles_A tm) k"

definition Koopa_update_A :: "TileMap_A \<Rightarrow> Koopa_A \<Rightarrow> Koopa_A" where
  "Koopa_update_A tm k =
     (let k1 = gravity_A (koopa_walk_A tm k);
          k2 = Koopa_check_collisions_A tm (move_y_A (vel_y_A k1) k1)
      in if shell_A k2 then
           (let k3 = k2\<lparr>shell_timer_k_A := shell_timer_k_A k2 - 1\<rparr>
            in if shell_timer_k_A k3 \<le> 0 then k3\<lparr>shell_A := False\<rparr> else k3)
         else k2)"

text \<open>\<open>Koopa.update\<close> up to the vertical move, and its shell timer.\<close>

definition Koopa_update_x_A :: "TileMap_A \<Rightarrow> Koopa_A \<Rightarrow> Koopa_A" where
  "Koopa_update_x_A tm k = gravity_A (koopa_walk_A tm k)"

definition koopa_shell_tick_A :: "Koopa_A \<Rightarrow> Koopa_A" where
  "koopa_shell_tick_A k =
     (if shell_A k then
        (let k1 = k\<lparr>shell_timer_k_A := shell_timer_k_A k - 1\<rparr>
         in if shell_timer_k_A k1 \<le> 0 then k1\<lparr>shell_A := False\<rparr> else k1)
      else k)"

definition kick_A :: "Koopa_A \<Rightarrow> Koopa_A" where
  "kick_A k =
     (let k1 = k\<lparr>shell_A := True, shell_timer_k_A := 180,
                 direction_A := (if vel_x_A k < 0 then 1 else - 1)\<rparr>
      in k1\<lparr>vel_x_A := real_of_int (direction_A k1 * KOOPA_SHELL_SPEED_A), vel_y_A := - 5\<rparr>)"

subsection \<open>GameManager\<close>

text \<open>
  The groups \<open>all_sprites\<close>, \<open>koopas\<close> and \<open>enemies\<close> share their Koopa objects, and \<open>kill\<close>
  removes an object from all of them. \<open>koopa_objs_A\<close> is the store of the Koopa objects made
  so far; a group is the list of the indices of its members, in insertion order. The player
  is the first member of \<open>all_sprites\<close> throughout, so \<open>all_sprites_A\<close> lists the members
  after it. \<open>current_world_A\<close> and \<open>current_level_A\<close> are the module globals.
\<close>

record GameManager_A =
  player_A :: Player_A
  koopa_objs_A :: "Koopa_A list"
  all_sprites_A :: "nat list"
  koopas_group_A :: "nat list"
  enemies_A :: "nat list"
  current_level_data_A :: "string list list"
  tile_map_A :: TileMap_A
  score_A :: int
  lives_A :: int
  current_world_A :: int
  current_level_A :: int

definition get_level_A :: "GameManager_A \<Rightarrow> string list list" where
  "get_level_A g =
     (if 0 \<le> current_world_A g \<and> current_world_A g < int (length WORLDS_A) \<and>
         0 \<le> current_level_A g \<and>
         current_level_A g < int (length (WORLDS_A ! nat (current_world_A g)))
      then map cells (WORLDS_A ! nat (current_world_A g) ! nat (current_level_A g))
      else [replicate 8 (replicate 80 CHR ''.'')])"

definition load_level_A :: "int \<Rightarrow> int \<Rightarrow> GameManager_A \<Rightarrow> GameManager_A" where
  "load_level_A world level g =
     (if 0 \<le> world \<and> world < int (length WORLDS_A) then
        (if 0 \<le> level \<and> level < int (length (WORLDS_A ! nat world))
         then g\<lparr>current_world_A := world, current_level_A := level\<rparr>
         else g\<lparr>current_world_A := world, current_level_A := 0\<rparr>)
      else g\<lparr>current_world_A := 0, current_level_A := 0\<rparr>)"

text \<open>The spawn loop of \<open>GameManager.load_level\<close>: a new object, added to the three groups.\<close>

fun spawn_koopas_A :: "(int \<times> int) list \<Rightarrow> GameManager_A \<Rightarrow> GameManager_A" where
  "spawn_koopas_A [] g = g"
| "spawn_koopas_A (koopa_pos # rest) g =
     spawn_koopas_A rest
       (g\<lparr>koopa_objs_A := koopa_objs_A g @ [Koopa_init_A (fst koopa_pos) (snd koopa_pos)],
          koopas_group_A := koopas_group_A g @ [length (koopa_objs_A g)],
          enemies_A := enemies_A g @ [length (koopa_objs_A g)],
          all_sprites_A := all_sprites_A g @ [length (koopa_objs_A g)]\<rparr>)"

definition GameManager_load_level_A ::
  "int \<Rightarrow> int \<Rightarrow> GameManager_A \<Rightarrow> (error + unit) \<times> GameManager_A" where
  "GameManager_load_level_A world level g =
     (let g1 = load_level_A world level g;
          g2 = g1\<lparr>current_level_data_A := get_level_A g1\<rparr>
      in case TileMap_build_A (current_level_data_A g2) of
           Inl e \<Rightarrow> (Inl e, g2)
         | Inr tm \<Rightarrow>
             (Inr (),
              spawn_koopas_A (koopas_A tm)
                (g2\<lparr>tile_map_A := tm,
                    player_A := (player_A g2)\<lparr>rect_A := set_topleft (200, 64) (rect_A (player_A g2)),
                                              vel_y_A := 0\<rparr>,
                    koopas_group_A := [], enemies_A := []\<rparr>)))"

text \<open>
  \<open>GameManager.__init__\<close>; the module globals start at world 0, level 0. The tile map of the
  record is a placeholder until the built one replaces it.
\<close>

definition GameManager_init_A :: "error + GameManager_A" where
  "GameManager_init_A =
     (let g0 = \<lparr>player_A = Player_init_A 200 64, koopa_objs_A = [], all_sprites_A = [],
                koopas_group_A = [], enemies_A = [], current_level_data_A = [],
                tile_map_A = \<lparr>data_A = [], tile_size_A = TILE_SIZE, width_A = 0, height_A = 0,
                              tiles_A = [], coins_A = [], koopas_A = []\<rparr>,
                score_A = 0, lives_A = 3, current_world_A = 0, current_level_A = 0\<rparr>;
          g1 = g0\<lparr>current_level_data_A := get_level_A g0\<rparr>
      in case TileMap_build_A (current_level_data_A g1) of
           Inl e \<Rightarrow> Inl e
         | Inr tm \<Rightarrow> Inr (g1\<lparr>tile_map_A := tm, score_A := 0, lives_A := 3\<rparr>))"

text \<open>\<open>Group.update\<close>: \<open>update\<close> on every member, in order.\<close>

fun group_update_A :: "nat list \<Rightarrow> TileMap_A \<Rightarrow> Koopa_A list \<Rightarrow> Koopa_A list" where
  "group_update_A [] tm objs = objs"
| "group_update_A (i # rest) tm objs =
     group_update_A rest tm (objs[i := Koopa_update_A tm (objs ! i)])"

text \<open>\<open>Sprite.kill\<close>: the object leaves every group that holds it.\<close>

definition kill_A :: "nat \<Rightarrow> GameManager_A \<Rightarrow> GameManager_A" where
  "kill_A i g =
     g\<lparr>all_sprites_A := filter (\<lambda>j. j \<noteq> i) (all_sprites_A g),
       koopas_group_A := filter (\<lambda>j. j \<noteq> i) (koopas_group_A g),
       enemies_A := filter (\<lambda>j. j \<noteq> i) (enemies_A g)\<rparr>"

text \<open>
  The body of the enemy loop of \<open>update\<close> for the object at index \<open>i\<close>. The first component
  is \<open>False\<close> when the body executes \<open>return False\<close>.
\<close>

definition enemy_interaction_A :: "Rect \<Rightarrow> nat \<Rightarrow> GameManager_A \<Rightarrow> bool \<times> GameManager_A" where
  "enemy_interaction_A player_feet i g =
     (let enemy = koopa_objs_A g ! i; p = player_A g
      in if colliderect (rect_A enemy) player_feet \<and> vel_y_A p > 0 then
           (True, (kill_A i g)\<lparr>player_A := p\<lparr>vel_y_A := JUMP_STRENGTH_A * (8 / 10)\<rparr>,
                               score_A := score_A g + 100\<rparr>)
         else if colliderect (rect_A p) (rect_A enemy) then
           (if shell_state_A p then
              (True, g\<lparr>koopa_objs_A := (koopa_objs_A g)[i := kick_A enemy],
                       score_A := score_A g + 50\<rparr>)
            else
              (let g1 = g\<lparr>lives_A := lives_A g - 1\<rparr>
               in if lives_A g1 \<le> 0 then (False, g1)
                  else (True, g1\<lparr>player_A := p\<lparr>rect_A := set_topleft (200, 64) (rect_A p),
                                                 vel_y_A := 0\<rparr>\<rparr>)))
         else (True, g))"

fun enemy_loop_A :: "Rect \<Rightarrow> nat list \<Rightarrow> GameManager_A \<Rightarrow> bool \<times> GameManager_A" where
  "enemy_loop_A player_feet [] g = (True, g)"
| "enemy_loop_A player_feet (i # rest) g =
     (case enemy_interaction_A player_feet i g of
        (go, g1) \<Rightarrow> if go then enemy_loop_A player_feet rest g1 else (False, g1))"

definition GameManager_update_A ::
  "(key \<Rightarrow> bool) \<Rightarrow> GameManager_A \<Rightarrow> bool \<times> GameManager_A" where
  "GameManager_update_A keys g =
     (let g1 = g\<lparr>player_A := Player_update_A (tile_map_A g) keys (player_A g)\<rparr>;
          g2 = g1\<lparr>koopa_objs_A := group_update_A (all_sprites_A g1) (tile_map_A g1) (koopa_objs_A g1)\<rparr>;
          g3 = g2\<lparr>koopa_objs_A := group_update_A (koopas_group_A g2) (tile_map_A g2) (koopa_objs_A g2)\<rparr>;
          player_feet = mk_Rect (rect_x (rect_A (player_A g3)))
                          (rect_bottom (rect_A (player_A g3)) - 5)
                          (rect_w (rect_A (player_A g3))) 10
      in enemy_loop_A player_feet (enemies_A g3) g3)"

text \<open>
  The part of \<open>update\<close> before the enemy loop (the two group updates), and the rectangle
  \<open>player_feet\<close> that \<open>update\<close> computes once, before the loop.
\<close>

definition GameManager_move_A :: "(key \<Rightarrow> bool) \<Rightarrow> GameManager_A \<Rightarrow> GameManager_A" where
  "GameManager_move_A keys g =
     (let g1 = g\<lparr>player_A := Player_update_A (tile_map_A g) keys (player_A g)\<rparr>;
          g2 = g1\<lparr>koopa_objs_A := group_update_A (all_sprites_A g1) (tile_map_A g1) (koopa_objs_A g1)\<rparr>
      in g2\<lparr>koopa_objs_A := group_update_A (koopas_group_A g2) (tile_map_A g2) (koopa_objs_A g2)\<rparr>)"

definition player_feet_A :: "GameManager_A \<Rightarrow> Rect" where
  "player_feet_A g =
     mk_Rect (rect_x (rect_A (player_A g))) (rect_bottom (rect_A (player_A g)) - 5)
       (rect_w (rect_A (player_A g))) 10"

text \<open>
  The main loop of \<^verbatim>\<open>koopahdr.py\<close> handles the tick's events before \<open>update\<close>. Keys 1 to 5 load
  a world; keys 7 to 9 read \<open>game_manager.current_world\<close>, an attribute that does not exist.
  Key codes are pygame's: \<open>K_ESCAPE = 27\<close>, \<open>K_1 = 49\<close>, \<open>K_5 = 53\<close>, \<open>K_7 = 55\<close>, \<open>K_9 = 57\<close>.
\<close>

datatype event = QUIT | KEYDOWN int

definition handle_event_A ::
  "event \<Rightarrow> bool \<times> GameManager_A \<Rightarrow> (error + unit) \<times> bool \<times> GameManager_A" where
  "handle_event_A e s =
     (case s of (running, g) \<Rightarrow>
        (case e of
           QUIT \<Rightarrow> (Inr (), False, g)
         | KEYDOWN k \<Rightarrow>
             (let running1 = (if k = 27 then False else running)
              in if 49 \<le> k \<and> k \<le> 53 then
                   (case GameManager_load_level_A (k - 49) 0 g of
                      (Inl err, g1) \<Rightarrow> (Inl err, running1, g1)
                    | (Inr u, g1) \<Rightarrow> (Inr (), running1, g1))
                 else if k \<in> {55, 56, 57} then (Inl AttributeError, running1, g)
                 else (Inr (), running1, g))))"

fun handle_events_A ::
  "event list \<Rightarrow> bool \<times> GameManager_A \<Rightarrow> (error + unit) \<times> bool \<times> GameManager_A" where
  "handle_events_A [] s = (Inr (), s)"
| "handle_events_A (e # es) s =
     (case handle_event_A e s of
        (Inl err, s1) \<Rightarrow> (Inl err, s1)
      | (Inr u, s1) \<Rightarrow> handle_events_A es s1)"

fun main_loop_A :: "(event list \<times> (key \<Rightarrow> bool)) list \<Rightarrow> GameManager_A \<Rightarrow> GameManager_A" where
  "main_loop_A [] g = g"
| "main_loop_A (tick # rest) g =
     (case handle_events_A (fst tick) (True, g) of
        (Inl err, running, g1) \<Rightarrow> g1
      | (Inr u, running, g1) \<Rightarrow>
          (case GameManager_update_A (snd tick) g1 of
             (go, g2) \<Rightarrow> if go \<and> running then main_loop_A rest g2 else g2))"

section \<open>Notions used to state the properties\<close>

text \<open>What one overlapping rectangle does to a body in the horizontal sweep.\<close>

definition snap_x :: "'a Entity_scheme \<Rightarrow> Rect \<Rightarrow> 'a Entity_scheme" where
  "snap_x e t =
     (if vel_x e > 0 then e\<lparr>rect := set_right (rect_left t) (rect e)\<rparr>
      else if vel_x e < 0 then e\<lparr>rect := set_left (rect_right t) (rect e)\<rparr>
      else e)\<lparr>vel_x := 0\<rparr>"

text \<open>What one overlapping rectangle does to a body in the vertical sweep.\<close>

definition snap_y :: "'a Entity_scheme \<Rightarrow> Rect \<Rightarrow> 'a Entity_scheme" where
  "snap_y e t =
     (if vel_y e > 0 then
        e\<lparr>rect := set_bottom (rect_top t) (rect e), vel_y := 0, on_ground := True\<rparr>
      else if vel_y e < 0 then e\<lparr>rect := set_top (rect_bottom t) (rect e), vel_y := 0\<rparr>
      else e)"

text \<open>The nearest integer, a half going away from zero.\<close>

definition nearest :: "real \<Rightarrow> int" where
  "nearest r = (if 0 \<le> r then round r else - round (- r))"

text \<open>
  The vertical sweep as the specification words it: add the velocity to \<open>y\<close> (the sum kept as
  the nearest integer), clear the grounded flag, then treat every rectangle that overlaps
  the moved bounding box, in grid order.
\<close>

definition vertical_sweep_claim :: "Rect list \<Rightarrow> 'a Entity_scheme \<Rightarrow> 'a Entity_scheme" where
  "vertical_sweep_claim ts e =
     (let e1 = e\<lparr>rect := (rect e)\<lparr>rect_y :=
                   nearest (real_of_int (rect_y (rect e)) + vel_y e)\<rparr>,
                on_ground := False\<rparr>
      in foldl snap_y e1 (filter (colliderect (rect e1)) ts))"

text \<open>
  The same for the bodies of \<^verbatim>\<open>koopahdr.py\<close>, as far as position and velocity go: \<open>Entity\<close>
  has no grounded flag there.
\<close>

definition snap_y_A :: "'a Entity_A_scheme \<Rightarrow> Rect \<Rightarrow> 'a Entity_A_scheme" where
  "snap_y_A e t =
     (if vel_y_A e > 0 then e\<lparr>rect_A := set_bottom (rect_top t) (rect_A e), vel_y_A := 0\<rparr>
      else if vel_y_A e < 0 then e\<lparr>rect_A := set_top (rect_bottom t) (rect_A e), vel_y_A := 0\<rparr>
      else e)"

definition vertical_sweep_claim_A ::
  "Rect list \<Rightarrow> 'a Entity_A_scheme \<Rightarrow> 'a Entity_A_scheme" where
  "vertical_sweep_claim_A ts e =
     (let e1 = e\<lparr>rect_A := (rect_A e)\<lparr>rect_y :=
                   nearest (real_of_int (rect_y (rect_A e)) + vel_y_A e)\<rparr>\<rparr>
      in foldl snap_y_A e1 (filter (colliderect (rect_A e1)) ts))"

text \<open>
  The enemies whose turn in the enemy loop comes before that of enemy \<open>i\<close>, and the stomp
  test of \<^verbatim>\<open>KoopaHDR1.07.31.251.0X.py\<close> for the enemy at index \<open>i\<close>.
\<close>

definition before_turn :: "nat \<Rightarrow> nat list \<Rightarrow> nat list" where
  "before_turn i js = takeWhile (\<lambda>j. j \<noteq> i) js"

definition stomp_test :: "GameManager \<Rightarrow> nat \<Rightarrow> bool" where
  "stomp_test g i \<longleftrightarrow>
     vel_y (player g) > 0 \<and> rect_bottom (rect (player g)) < rect_centery (rect (koopas g ! i))"

text \<open>A body is clear of the grid when its rectangle overlaps no tile.\<close>

definition clear_of :: "Rect list \<Rightarrow> Rect \<Rightarrow> bool" where
  "clear_of ts r \<longleftrightarrow> \<not> list_ex (colliderect r) ts"

text \<open>A tile of the lattice: a square of \<open>TILE_SIZE\<close> at a multiple of \<open>TILE_SIZE\<close>.\<close>

definition lattice_tile :: "Rect \<Rightarrow> bool" where
  "lattice_tile t \<longleftrightarrow>
     rect_w t = TILE_SIZE \<and> rect_h t = TILE_SIZE \<and>
     rect_x t mod TILE_SIZE = 0 \<and> rect_y t mod TILE_SIZE = 0"

text \<open>A tile map of the engine's tile size all of whose tiles are lattice tiles.\<close>

definition on_lattice :: "TileMap \<Rightarrow> bool" where
  "on_lattice tm \<longleftrightarrow> tile_size tm = TILE_SIZE \<and> list_all lattice_tile (tiles tm)"

section \<open>Concrete inputs\<close>

text \<open>A grid with no tile, 80 columns wide, for the examples that need no solid.\<close>

abbreviation open_field :: TileMap where
  "open_field \<equiv>
     \<lparr>data = [], tile_size = 32, width = 80, height = 8, tiles = [],
      coin_positions = [], koopa_positions = []\<rparr>"

abbreviation open_field_A :: TileMap_A where
  "open_field_A \<equiv>
     \<lparr>data_A = [], tile_size_A = 32, width_A = 80, height_A = 8, tiles_A = [],
      coins_A = [], koopas_A = []\<rparr>"

text \<open>A session of \<^verbatim>\<open>KoopaHDR1.07.31.251.0X.py\<close> with the given player and enemies.\<close>

abbreviation session :: "Player \<Rightarrow> Koopa list \<Rightarrow> GameManager" where
  "session p ks \<equiv>
     \<lparr>player = p, coins = [], koopas = ks, tile_map = open_field, score = 0, lives = 3,
      current_world = 0, current_level = 0, camera_x = 0,
      self_current_world = None, self_current_level = None\<rparr>"

text \<open>A session of \<^verbatim>\<open>koopahdr.py\<close> whose Koopa objects are all in the three groups.\<close>

abbreviation session_A :: "Player_A \<Rightarrow> Koopa_A list \<Rightarrow> GameManager_A" where
  "session_A p ks \<equiv>
     \<lparr>player_A = p, koopa_objs_A = ks, all_sprites_A = [0..<length ks],
      koopas_group_A = [0..<length ks], enemies_A = [0..<length ks],
      current_level_data_A = [], tile_map_A = open_field_A, score_A = 0, lives_A = 3,
      current_world_A = 0, current_level_A = 0\<rparr>"

text \<open>A 32 by 32 player of either engine at a position with a velocity.\<close>

abbreviation player_at :: "int \<Rightarrow> int \<Rightarrow> real \<Rightarrow> real \<Rightarrow> bool \<Rightarrow> Player" where
  "player_at px py vx vy sh \<equiv>
     \<lparr>rect = mk_Rect px py 32 32, vel_x = vx, vel_y = vy, on_ground = False,
      shell_state = sh, shell_timer = (if sh then 100 else 0),
      dash_speed = (if sh then 12 else 0)\<rparr>"

abbreviation player_at_A :: "int \<Rightarrow> int \<Rightarrow> real \<Rightarrow> real \<Rightarrow> Player_A" where
  "player_at_A px py vx vy \<equiv>
     \<lparr>rect_A = mk_Rect px py 32 32, vel_x_A = vx, vel_y_A = vy, on_ground_A = False,
      jumping_A = False, shell_state_A = False, shell_timer_A = 0\<rparr>"

text \<open>The grid that \<open>TileMap\<close> builds from the two rows \<open>..#\<close> and \<open>###\<close>.\<close>

abbreviation two_rows :: TileMap where
  "two_rows \<equiv>
     \<lparr>data = [''..#'', ''###''], tile_size = 32, width = 3, height = 2,
      tiles = [mk_Rect 64 0 32 32, mk_Rect 0 32 32 32, mk_Rect 32 32 32 32,
               mk_Rect 64 32 32 32],
      coin_positions = [], koopa_positions = []\<rparr>"

text \<open>A floor of three tiles of \<^verbatim>\<open>koopahdr.py\<close> under the row \<open>y = 192\<close>.\<close>

abbreviation floor_A :: TileMap_A where
  "floor_A \<equiv>
     open_field_A\<lparr>tiles_A := [mk_Rect 288 224 32 32, mk_Rect 320 224 32 32,
                              mk_Rect 352 224 32 32]\<rparr>"

section \<open>Floats assigned to rectangle coordinates\<close>

lemma pg_int_step_up:
  assumes "0 \<le> v" "v \<le> 32"
  shows "0 \<le> pg_int (real_of_int x + v) - x \<and> pg_int (real_of_int x + v) - x \<le> 32"
proof -
  have f: "\<lfloor>real_of_int x + v + 1 / 2\<rfloor> = x + \<lfloor>v + 1 / 2\<rfloor>"
    by (simp add: add.assoc)
  have c: "\<lceil>real_of_int x + v - 1 / 2\<rceil> = x + \<lceil>v - 1 / 2\<rceil>"
    using ceiling_add_of_int [of "v - 1 / 2" x] by (simp add: algebra_simps)
  have "0 \<le> \<lfloor>v + 1 / 2\<rfloor>" using assms(1) by (simp add: le_floor_iff)
  moreover have "\<lfloor>v + 1 / 2\<rfloor> \<le> 32" using assms(2) by (simp add: floor_le_iff)
  moreover have "0 \<le> \<lceil>v - 1 / 2\<rceil>" using assms(1) by (simp add: le_ceiling_iff)
  moreover have "\<lceil>v - 1 / 2\<rceil> \<le> 32" using assms(2) by (simp add: ceiling_le_iff)
  ultimately show ?thesis
    unfolding pg_int_def f c by simp
qed

lemma pg_int_step_down:
  assumes "- 32 \<le> v" "v \<le> 0"
  shows "- 32 \<le> pg_int (real_of_int x + v) - x \<and> pg_int (real_of_int x + v) - x \<le> 0"
proof -
  have f: "\<lfloor>real_of_int x + v + 1 / 2\<rfloor> = x + \<lfloor>v + 1 / 2\<rfloor>"
    by (simp add: add.assoc)
  have c: "\<lceil>real_of_int x + v - 1 / 2\<rceil> = x + \<lceil>v - 1 / 2\<rceil>"
    using ceiling_add_of_int [of "v - 1 / 2" x] by (simp add: algebra_simps)
  have "- 32 \<le> \<lfloor>v + 1 / 2\<rfloor>" using assms(1) by (simp add: le_floor_iff)
  moreover have "\<lfloor>v + 1 / 2\<rfloor> \<le> 0" using assms(2) by (simp add: floor_le_iff)
  moreover have "- 32 \<le> \<lceil>v - 1 / 2\<rceil>" using assms(1) by (simp add: le_ceiling_iff)
  moreover have "\<lceil>v - 1 / 2\<rceil> \<le> 0" using assms(2) by (simp add: ceiling_le_iff)
  ultimately show ?thesis
    unfolding pg_int_def f c by simp
qed

lemma pg_int_of_int: "pg_int (real_of_int z) = z"
proof -
  have "\<lfloor>real_of_int z + 1 / 2\<rfloor> = z" by (simp add: floor_eq_iff)
  moreover have "\<lceil>real_of_int z - 1 / 2\<rceil> = z" by (simp add: ceiling_eq_iff)
  ultimately show ?thesis by (simp add: pg_int_def)
qed

lemma pg_int_near: "\<bar>real_of_int (pg_int r) - r\<bar> \<le> 1 / 2"
proof (cases "0 \<le> r")
  case True
  then have eq: "pg_int r = \<lfloor>r + 1 / 2\<rfloor>" by (simp add: pg_int_def)
  have "real_of_int \<lfloor>r + 1 / 2\<rfloor> \<le> r + 1 / 2"
    and "r + 1 / 2 < real_of_int \<lfloor>r + 1 / 2\<rfloor> + 1"
    by linarith+
  then show ?thesis unfolding eq by linarith
next
  case False
  then have eq: "pg_int r = \<lceil>r - 1 / 2\<rceil>" by (simp add: pg_int_def)
  have "r - 1 / 2 \<le> real_of_int \<lceil>r - 1 / 2\<rceil>"
    and "real_of_int \<lceil>r - 1 / 2\<rceil> < r - 1 / 2 + 1"
    by linarith+
  then show ?thesis unfolding eq by linarith
qed

section \<open>The collision sweeps\<close>

lemma vel_x_update_same: "vel_x e = v \<Longrightarrow> e\<lparr>vel_x := v\<rparr> = e"
  by (cases e) simp

lemma check_collisions_x_still: "vel_x e = 0 \<Longrightarrow> check_collisions_x ts e = e"
  by (induction ts) (auto simp: vel_x_update_same)

lemma collisions_y_loop_still: "vel_y e = 0 \<Longrightarrow> collisions_y_loop ts e = e"
  by (induction ts) auto

text \<open>Both sweeps act on the first overlapping tile only: it zeroes the velocity they test.\<close>

lemma check_collisions_x_first:
  "check_collisions_x ts e =
     (case find (colliderect (rect e)) ts of None \<Rightarrow> e | Some t \<Rightarrow> snap_x e t)"
proof (induction ts)
  case Nil
  show ?case by simp
next
  case (Cons t ts)
  show ?case
  proof (cases "colliderect (rect e) t")
    case True
    have "vel_x (snap_x e t) = 0" by (simp add: snap_x_def)
    then have "check_collisions_x ts (snap_x e t) = snap_x e t"
      by (rule check_collisions_x_still)
    with True show ?thesis by (simp add: snap_x_def)
  next
    case False
    with Cons show ?thesis by simp
  qed
qed

lemma collisions_y_loop_first:
  "collisions_y_loop ts e =
     (case find (colliderect (rect e)) ts of None \<Rightarrow> e | Some t \<Rightarrow> snap_y e t)"
proof (induction ts)
  case Nil
  show ?case by simp
next
  case (Cons t ts)
  show ?case
  proof (cases "colliderect (rect e) t")
    case True
    have "vel_y (snap_y e t) = 0" by (simp add: snap_y_def)
    then have "collisions_y_loop ts (snap_y e t) = snap_y e t"
      by (rule collisions_y_loop_still)
    with True show ?thesis by (simp add: snap_y_def)
  next
    case False
    with Cons show ?thesis by simp
  qed
qed

lemma foldl_snap_y_still: "vel_y e = 0 \<Longrightarrow> foldl snap_y e us = e"
  by (induction us) (auto simp: snap_y_def)

lemma collisions_y_loop_filter:
  "collisions_y_loop ts e = foldl snap_y e (filter (colliderect (rect e)) ts)"
proof (induction ts)
  case Nil
  show ?case by simp
next
  case (Cons t ts)
  show ?case
  proof (cases "colliderect (rect e) t")
    case True
    have still: "vel_y (snap_y e t) = 0" by (simp add: snap_y_def)
    have "collisions_y_loop (t # ts) e = collisions_y_loop ts (snap_y e t)"
      using True by (simp add: snap_y_def)
    also have "\<dots> = snap_y e t"
      using still by (rule collisions_y_loop_still)
    also have "\<dots> = foldl snap_y (snap_y e t) (filter (colliderect (rect e)) ts)"
      using still by (simp add: foldl_snap_y_still)
    finally show ?thesis using True by simp
  next
    case False
    with Cons show ?thesis by simp
  qed
qed

section \<open>The tile map\<close>

lemma TileMap_build_cases:
  "TileMap_build d =
     (if d = [] then Inl IndexError
      else Inr (load_tiles \<lparr>data = d, tile_size = 32, width = int (length (hd d)),
                 height = int (length d), tiles = [], coin_positions = [],
                 koopa_positions = []\<rparr>))"
  by (cases d) (simp_all add: TileMap_build_def TileMap_init_def TILE_SIZE_def)

lemma load_cell_fixed:
  "data (load_cell cy cx ch tm) = data tm \<and> tile_size (load_cell cy cx ch tm) = tile_size tm \<and>
   width (load_cell cy cx ch tm) = width tm \<and> height (load_cell cy cx ch tm) = height tm"
  by (simp add: load_cell_def)

lemma load_row_fixed:
  "data (load_row cy cx row tm) = data tm \<and> tile_size (load_row cy cx row tm) = tile_size tm \<and>
   width (load_row cy cx row tm) = width tm \<and> height (load_row cy cx row tm) = height tm"
  by (induction row arbitrary: cx tm) (simp_all add: load_cell_fixed)

lemma load_rows_fixed:
  "data (load_rows cy rows tm) = data tm \<and> tile_size (load_rows cy rows tm) = tile_size tm \<and>
   width (load_rows cy rows tm) = width tm \<and> height (load_rows cy rows tm) = height tm"
  by (induction rows arbitrary: cy tm) (simp_all add: load_row_fixed)

lemma load_tiles_fixed:
  "data (load_tiles tm) = data tm \<and> tile_size (load_tiles tm) = tile_size tm \<and>
   width (load_tiles tm) = width tm \<and> height (load_tiles tm) = height tm"
  by (simp add: load_tiles_def load_rows_fixed)

text \<open>Every tile that \<open>load_tiles\<close> makes is a lattice tile.\<close>

lemma load_cell_lattice: "on_lattice tm \<Longrightarrow> on_lattice (load_cell cy cx ch tm)"
  by (simp add: on_lattice_def load_cell_def lattice_tile_def mk_Rect_def)

lemma load_row_lattice: "on_lattice tm \<Longrightarrow> on_lattice (load_row cy cx row tm)"
  by (induction row arbitrary: cx tm) (simp_all add: load_cell_lattice)

lemma load_rows_lattice: "on_lattice tm \<Longrightarrow> on_lattice (load_rows cy rows tm)"
  by (induction rows arbitrary: cy tm) (simp_all add: load_row_lattice)

lemma TileMap_build_lattice:
  assumes "TileMap_build d = Inr tm"
  shows "list_all lattice_tile (tiles tm)"
proof -
  from assms have "d \<noteq> []" and
    tm: "tm = load_tiles \<lparr>data = d, tile_size = 32, width = int (length (hd d)),
                 height = int (length d), tiles = [], coin_positions = [],
                 koopa_positions = []\<rparr>"
    by (auto simp: TileMap_build_cases split: if_splits)
  have "on_lattice tm"
    unfolding tm load_tiles_def
    by (rule load_rows_lattice) (simp add: on_lattice_def TILE_SIZE_def)
  then show ?thesis by (simp add: on_lattice_def)
qed


section \<open>The score\<close>

lemma enemy_interaction_score: "score g \<le> score (snd (enemy_interaction i g))"
  by (simp add: enemy_interaction_def Let_def)

lemma enemy_loop_score: "score g \<le> score (snd (enemy_loop js g))"
proof (induction js arbitrary: g)
  case Nil
  show ?case by simp
next
  case (Cons i js)
  obtain go g1 where step: "enemy_interaction i g = (go, g1)"
    by (cases "enemy_interaction i g")
  have "score g \<le> score g1"
    using enemy_interaction_score [of g i] step by simp
  moreover have "score g1 \<le> score (snd (enemy_loop js g1))"
    by (rule Cons.IH)
  ultimately show ?case using step by simp
qed

lemma coin_score: "s \<le> foldl (\<lambda>s coin. s + 50) s cs" for s :: int
proof (induction cs arbitrary: s)
  case Nil
  show ?case by simp
next
  case (Cons c cs)
  have "s + 50 \<le> foldl (\<lambda>s coin. s + 50) (s + 50) cs" by (rule Cons.IH)
  then show ?case by simp
qed

lemma load_level_score: "score (snd (load_level w l g)) = score g"
  by (simp add: load_level_def Let_def split: sum.split)

lemma GameManager_load_level_score: "score (snd (GameManager_load_level w l g)) = score g"
proof -
  obtain r g1 where a: "load_level w l g = (r, g1)" by (cases "load_level w l g")
  then have "score g1 = score g" using load_level_score [of w l g] by simp
  then show ?thesis
    using a by (simp add: GameManager_load_level_def split: sum.split)
qed

lemma level_complete_score: "score (snd (level_complete g)) = score g"
proof -
  have b: "score (snd (case GameManager_load_level w l g' of
                    (Inl e, g3) \<Rightarrow> (Inl e, g3)
                  | (Inr u, g3) \<Rightarrow> (Inr True, g3))) = score g'" for w l g'
    using GameManager_load_level_score [of w l g']
    by (cases "GameManager_load_level w l g'") (simp split: sum.split)
  show ?thesis
    by (simp add: level_complete_def Let_def b split: option.split sum.split)
qed

lemma GameManager_update_score: "score g \<le> score (snd (GameManager_update keys g))"
proof -
  define g5 where "g5 =
    (let g1 = g\<lparr>player := Player_update (tile_map g) keys (player g)\<rparr>;
          g2 = g1\<lparr>koopas := map (Koopa_update (tile_map g1)) (koopas g1)\<rparr>;
          g3 = g2\<lparr>camera_x := rect_x (rect (player g2)) - SCREEN_WIDTH div 2\<rparr>;
          collected = filter (\<lambda>c. colliderect (rect (player g3)) (rect c)) (coins g3);
          g4 = g3\<lparr>coins := filter (\<lambda>c. \<not> colliderect (rect (player g3)) (rect c)) (coins g3)\<rparr>
      in g4\<lparr>score := foldl (\<lambda>s coin. s + 50) (score g4) collected\<rparr>)"
  have s5: "score g \<le> score g5"
    by (simp add: g5_def Let_def coin_score)
  obtain go g6 where loop: "enemy_loop (collided_koopas g5) g5 = (go, g6)"
    by (cases "enemy_loop (collided_koopas g5) g5")
  have s6: "score g5 \<le> score g6"
    using enemy_loop_score [of g5 "collided_koopas g5"] loop by simp
  have "GameManager_update keys g =
          (if \<not> go then (Inr False, g6)
           else if rect_x (rect (player g6)) > width (tile_map g6) * TILE_SIZE - 100
           then level_complete g6 else (Inr True, g6))"
    using loop by (simp add: GameManager_update_def g5_def Let_def)
  then have "score (snd (GameManager_update keys g)) = score g6"
    by (simp add: level_complete_score)
  with s5 s6 show ?thesis by simp
qed

lemma main_loop_score: "score g \<le> score (main_loop ks g)"
proof (induction ks arbitrary: g)
  case Nil
  show ?case by simp
next
  case (Cons keys ks)
  obtain r g1 where step: "GameManager_update keys g = (r, g1)"
    by (cases "GameManager_update keys g")
  have a: "score g \<le> score g1"
    using GameManager_update_score [of g keys] step by simp
  have b: "score g1 \<le> score (main_loop ks g1)" by (rule Cons.IH)
  show ?case
    using step a b by (simp split: sum.split bool.split)
qed

lemma GameManager_init_succeeds: "\<exists>g0. GameManager_init = Inr g0 \<and> score g0 = 0 \<and> lives g0 = 3 \<and> self_current_level g0 = None"
proof -
  have w: "py_index WORLDS 0 = Inr [level_1_1, level_1_2, level_1_3]"
    by (simp add: py_index_def WORLDS_def)
  have ne: "level_1_1 \<noteq> []" by (simp add: level_1_1_def)
  then obtain tm where tm: "TileMap_build level_1_1 = Inr tm"
    by (simp add: TileMap_build_cases)
  have lw: "length WORLDS = 3" and w0: "WORLDS ! 0 = [level_1_1, level_1_2, level_1_3]"
    by (simp_all add: WORLDS_def)
  show ?thesis
    by (simp add: GameManager_init_def GameManager_load_level_def load_level_def Let_def w
        get_level_def lw w0 tm)
qed

lemma enemy_interaction_A_score: "score_A g \<le> score_A (snd (enemy_interaction_A feet i g))"
  by (simp add: enemy_interaction_A_def Let_def kill_A_def)

lemma enemy_loop_A_score: "score_A g \<le> score_A (snd (enemy_loop_A feet js g))"
proof (induction js arbitrary: g)
  case Nil
  show ?case by simp
next
  case (Cons i js)
  obtain go g1 where step: "enemy_interaction_A feet i g = (go, g1)"
    by (cases "enemy_interaction_A feet i g")
  have "score_A g \<le> score_A g1"
    using enemy_interaction_A_score [of g feet i] step by simp
  moreover have "score_A g1 \<le> score_A (snd (enemy_loop_A feet js g1))"
    by (rule Cons.IH)
  ultimately show ?case using step by simp
qed

lemma GameManager_update_A_score: "score_A g \<le> score_A (snd (GameManager_update_A keys g))"
proof -
  define g3 where "g3 =
     (let g1 = g\<lparr>player_A := Player_update_A (tile_map_A g) keys (player_A g)\<rparr>;
          g2 = g1\<lparr>koopa_objs_A := group_update_A (all_sprites_A g1) (tile_map_A g1) (koopa_objs_A g1)\<rparr>
      in g2\<lparr>koopa_objs_A := group_update_A (koopas_group_A g2) (tile_map_A g2) (koopa_objs_A g2)\<rparr>)"
  have s3: "score_A g3 = score_A g" by (simp add: g3_def Let_def)
  have "GameManager_update_A keys g =
          enemy_loop_A (mk_Rect (rect_x (rect_A (player_A g3)))
                          (rect_bottom (rect_A (player_A g3)) - 5)
                          (rect_w (rect_A (player_A g3))) 10) (enemies_A g3) g3"
    by (simp add: GameManager_update_A_def g3_def Let_def)
  then show ?thesis
    using enemy_loop_A_score [of g3] s3 by simp
qed

lemma spawn_koopas_A_score: "score_A (spawn_koopas_A ps g) = score_A g"
  by (induction ps arbitrary: g) simp_all

lemma GameManager_load_level_A_score:
  "score_A (snd (GameManager_load_level_A w l g)) = score_A g"
  by (simp add: GameManager_load_level_A_def load_level_A_def Let_def spawn_koopas_A_score
      split: sum.split)

lemma handle_event_A_score: "score_A (snd (snd (handle_event_A e (r, g)))) = score_A g"
proof (cases e)
  case QUIT
  then show ?thesis by (simp add: handle_event_A_def)
next
  case (KEYDOWN k)
  obtain res g1 where ld: "GameManager_load_level_A (k - 49) 0 g = (res, g1)"
    by (cases "GameManager_load_level_A (k - 49) 0 g")
  then have "score_A g1 = score_A g"
    using GameManager_load_level_A_score [of "k - 49" 0 g] by simp
  then show ?thesis
    using KEYDOWN ld by (simp add: handle_event_A_def Let_def split: sum.split)
qed

lemma handle_events_A_score: "score_A (snd (snd (handle_events_A es (r, g)))) = score_A g"
proof (induction es arbitrary: r g)
  case Nil
  show ?case by simp
next
  case (Cons e es)
  obtain res r1 g1 where step: "handle_event_A e (r, g) = (res, r1, g1)"
    by (cases "handle_event_A e (r, g)") auto
  have "score_A g1 = score_A g"
    using handle_event_A_score [of e r g] step by simp
  then show ?case
    using step Cons.IH [of r1 g1] by (simp split: sum.split)
qed

lemma main_loop_A_score: "score_A g \<le> score_A (main_loop_A ticks g)"
proof (induction ticks arbitrary: g)
  case Nil
  show ?case by simp
next
  case (Cons tick ticks)
  obtain res r1 g1 where ev: "handle_events_A (fst tick) (True, g) = (res, r1, g1)"
    by (cases "handle_events_A (fst tick) (True, g)") auto
  have a: "score_A g1 = score_A g"
    using handle_events_A_score [of "fst tick" True g] ev by simp
  obtain go g2 where up: "GameManager_update_A (snd tick) g1 = (go, g2)"
    by (cases "GameManager_update_A (snd tick) g1")
  have b: "score_A g1 \<le> score_A g2"
    using GameManager_update_A_score [of g1 "snd tick"] up by simp
  have c: "score_A g2 \<le> score_A (main_loop_A ticks g2)" by (rule Cons.IH)
  show ?case
    using ev up a b c by (simp split: sum.split)
qed

lemma GameManager_init_A_succeeds:
  "\<exists>g0. GameManager_init_A = Inr g0 \<and> score_A g0 = 0 \<and> lives_A g0 = 3"
proof -
  have lw: "length WORLDS_A = 5" and w0: "WORLDS_A ! 0 = [level_1_1_A, level_1_2_A, level_1_3_A]"
    by (simp_all add: WORLDS_A_def)
  have ne: "map cells level_1_1_A \<noteq> []" by (simp add: level_1_1_A_def)
  then obtain row rows where d: "map cells level_1_1_A = row # rows"
    by (cases "map cells level_1_1_A") auto
  show ?thesis
    by (simp add: GameManager_init_A_def Let_def get_level_A_def lw w0 TileMap_build_A_def
        TileMap_init_A_def d)
qed

section \<open>Level completion\<close>

lemma enemy_interaction_attr:
  "self_current_level (snd (enemy_interaction i g)) = self_current_level g"
  by (simp add: enemy_interaction_def Let_def)

lemma enemy_loop_attr: "self_current_level (snd (enemy_loop js g)) = self_current_level g"
proof (induction js arbitrary: g)
  case Nil
  show ?case by simp
next
  case (Cons i js)
  obtain go g1 where step: "enemy_interaction i g = (go, g1)"
    by (cases "enemy_interaction i g")
  have "self_current_level g1 = self_current_level g"
    using enemy_interaction_attr [of i g] step by simp
  then show ?case using step Cons.IH [of g1] by simp
qed

lemma enemy_interaction_globals:
  "current_world (snd (enemy_interaction i g)) = current_world g \<and>
   current_level (snd (enemy_interaction i g)) = current_level g"
  by (simp add: enemy_interaction_def Let_def)

lemma enemy_loop_globals:
  "current_world (snd (enemy_loop js g)) = current_world g \<and>
   current_level (snd (enemy_loop js g)) = current_level g"
proof (induction js arbitrary: g)
  case Nil
  show ?case by simp
next
  case (Cons i js)
  obtain go g1 where step: "enemy_interaction i g = (go, g1)"
    by (cases "enemy_interaction i g")
  have "current_world g1 = current_world g \<and> current_level g1 = current_level g"
    using enemy_interaction_globals [of i g] step by simp
  then show ?case using step Cons.IH [of g1] by simp
qed

lemma level_complete_raises:
  "self_current_level g = None \<Longrightarrow> level_complete g = (Inl AttributeError, g)"
  by (simp add: level_complete_def)

lemma GameManager_update_attr:
  assumes "self_current_level g = None"
  shows "self_current_level (snd (GameManager_update keys g)) = None \<and>
         current_world (snd (GameManager_update keys g)) = current_world g \<and>
         current_level (snd (GameManager_update keys g)) = current_level g"
proof -
  define g5 where "g5 =
    (let g1 = g\<lparr>player := Player_update (tile_map g) keys (player g)\<rparr>;
          g2 = g1\<lparr>koopas := map (Koopa_update (tile_map g1)) (koopas g1)\<rparr>;
          g3 = g2\<lparr>camera_x := rect_x (rect (player g2)) - SCREEN_WIDTH div 2\<rparr>;
          collected = filter (\<lambda>c. colliderect (rect (player g3)) (rect c)) (coins g3);
          g4 = g3\<lparr>coins := filter (\<lambda>c. \<not> colliderect (rect (player g3)) (rect c)) (coins g3)\<rparr>
      in g4\<lparr>score := foldl (\<lambda>s coin. s + 50) (score g4) collected\<rparr>)"
  have s5: "self_current_level g5 = None" "current_world g5 = current_world g"
    "current_level g5 = current_level g"
    using assms by (simp_all add: g5_def Let_def)
  obtain go g6 where loop: "enemy_loop (collided_koopas g5) g5 = (go, g6)"
    by (cases "enemy_loop (collided_koopas g5) g5")
  have s6: "self_current_level g6 = None" "current_world g6 = current_world g"
    "current_level g6 = current_level g"
    using enemy_loop_attr [of "collided_koopas g5" g5] enemy_loop_globals [of "collided_koopas g5" g5]
      loop s5 by simp_all
  have "GameManager_update keys g =
          (if \<not> go then (Inr False, g6)
           else if rect_x (rect (player g6)) > width (tile_map g6) * TILE_SIZE - 100
           then level_complete g6 else (Inr True, g6))"
    using loop by (simp add: GameManager_update_def g5_def Let_def)
  then show ?thesis
    using s6 by (simp add: level_complete_raises)
qed


section \<open>Patrolling\<close>

lemma koopa_wall_loop_A_miss:
  "\<not> list_ex (colliderect (rect_A k)) ts \<Longrightarrow> koopa_wall_loop_A ts k = (k, False)"
  by (induction ts) auto

lemma koopa_walk_A_stays:
  assumes "\<not> list_ex (colliderect (rect_A (move_x_A (real_of_int (walk_speed_A k * direction_A k)) k)))
             (tiles_A tm)"
  shows "rect_A (koopa_walk_A tm k) = rect_A k \<and> direction_A (koopa_walk_A tm k) = direction_A k"
proof -
  define k2 where "k2 = move_x_A (real_of_int (walk_speed_A k * direction_A k))
                          (k\<lparr>vel_x_A := real_of_int (walk_speed_A k * direction_A k)\<rparr>)"
  have r2: "rect_A k2 = rect_A (move_x_A (real_of_int (walk_speed_A k * direction_A k)) k)"
    by (simp add: k2_def move_x_A_def)
  have "koopa_wall_loop_A (tiles_A tm) k2 = (k2, False)"
    using assms r2 by (simp add: koopa_wall_loop_A_miss)
  then have "koopa_walk_A tm k = k2\<lparr>rect_A := (rect_A k2)\<lparr>rect_x := rect_x (rect_A k)\<rparr>\<rparr>"
    by (simp add: koopa_walk_A_def Let_def k2_def)
  then show ?thesis
    by (simp add: k2_def move_x_A_def)
qed

lemma koopa_wall_loop_miss:
  "\<not> list_ex (colliderect (rect k)) ts \<Longrightarrow> koopa_wall_loop ts k = (k, False)"
  by (induction ts) auto

lemma koopa_wall_loop_hit:
  "list_ex (colliderect (rect k)) ts \<Longrightarrow> snd (koopa_wall_loop ts k) \<and> direction (fst (koopa_wall_loop ts k)) = direction k"
  by (induction ts) auto

text \<open>The patrol step of \<^verbatim>\<open>KoopaHDR1.07.31.251.0X.py\<close>: speed times direction, a full step when no tile is hit, a flip when one is.\<close>

lemma patrol_step:
  assumes "\<not> shell k"
  shows "vel_x (koopa_walk tm k) = real_of_int (KOOPA_SPEED * direction k) \<and>
         (if list_ex (colliderect (rect (move_x (real_of_int (KOOPA_SPEED * direction k)) k))) (tiles tm)
          then direction (koopa_walk tm k) = - direction k
          else direction (koopa_walk tm k) = direction k \<and>
               rect_x (rect (koopa_walk tm k)) = rect_x (rect k) + KOOPA_SPEED * direction k)"
proof -
  define k2 where "k2 = move_x (real_of_int (KOOPA_SPEED * direction k))
                          (k\<lparr>vel_x := real_of_int (KOOPA_SPEED * direction k)\<rparr>)"
  have r2: "rect k2 = rect (move_x (real_of_int (KOOPA_SPEED * direction k)) k)"
    and d2: "direction k2 = direction k"
    and v2: "vel_x k2 = real_of_int (KOOPA_SPEED * direction k)"
    by (simp_all add: k2_def move_x_def)
  have vx: "vel_x (fst (koopa_wall_loop ts k2)) = vel_x k2" for ts
    by (induction ts) auto
  have walk: "koopa_walk tm k =
     (case koopa_wall_loop (tiles tm) k2 of
        (k3, hit_wall) \<Rightarrow> if hit_wall then k3\<lparr>direction := direction k3 * (- 1)\<rparr> else k3)"
    using assms by (simp add: koopa_walk_def Let_def k2_def)
  have x2: "rect_x (rect k2) = rect_x (rect k) + KOOPA_SPEED * direction k"
  proof -
    have "pg_int (real_of_int (rect_x (rect k)) + real_of_int (KOOPA_SPEED * direction k)) =
          rect_x (rect k) + KOOPA_SPEED * direction k"
      using pg_int_of_int [of "rect_x (rect k) + KOOPA_SPEED * direction k"] by simp
    then show ?thesis
      by (simp add: k2_def move_x_def)
  qed
  show ?thesis
  proof (cases "list_ex (colliderect (rect k2)) (tiles tm)")
    case True
    obtain k3 h where l: "koopa_wall_loop (tiles tm) k2 = (k3, h)"
      by (cases "koopa_wall_loop (tiles tm) k2")
    with koopa_wall_loop_hit [OF True] vx [of "tiles tm"] have "h" "direction k3 = direction k" "vel_x k3 = vel_x k2"
      using d2 by simp_all
    then show ?thesis using True l walk r2 v2 by simp
  next
    case False
    then have "koopa_wall_loop (tiles tm) k2 = (k2, False)"
      by (rule koopa_wall_loop_miss)
    then show ?thesis using False walk r2 d2 v2 x2 by simp
  qed
qed

section \<open>Sweeps keep a clear body clear\<close>

lemma lattice_gap:
  fixes a b :: int
  assumes "a mod 32 = 0" "b mod 32 = 0" "a < b"
  shows "a + 32 \<le> b"
  using assms by presburger

lemma snap_right_arith:
  fixes x y w h d tx ty ux uy :: int
  assumes "tx mod 32 = 0" "ux mod 32 = 0" "0 \<le> d" "d \<le> 32"
    and t0: "\<not> (x < tx + 32 \<and> y < ty + 32 \<and> tx < x + w \<and> ty < y + h)"
    and u0: "\<not> (x < ux + 32 \<and> y < uy + 32 \<and> ux < x + w \<and> uy < y + h)"
    and t1: "x + d < tx + 32 \<and> y < ty + 32 \<and> tx < x + d + w \<and> ty < y + h"
  shows "\<not> (tx - w < ux + 32 \<and> y < uy + 32 \<and> ux < tx \<and> uy < y + h)"
proof
  assume u1: "tx - w < ux + 32 \<and> y < uy + 32 \<and> ux < tx \<and> uy < y + h"
  then have "ux + 32 \<le> tx" using assms(1,2) lattice_gap [of ux tx] by simp
  moreover have "x + w \<le> tx" using t0 t1 assms(3) by linarith
  moreover have "x + w \<le> ux" using u0 u1 \<open>x + w \<le> tx\<close> by linarith
  ultimately show False using t1 assms(4) by linarith
qed

lemma snap_left_arith:
  fixes x y w h d tx ty ux uy :: int
  assumes "tx mod 32 = 0" "ux mod 32 = 0" "- 32 \<le> d" "d \<le> 0"
    and t0: "\<not> (x < tx + 32 \<and> y < ty + 32 \<and> tx < x + w \<and> ty < y + h)"
    and u0: "\<not> (x < ux + 32 \<and> y < uy + 32 \<and> ux < x + w \<and> uy < y + h)"
    and t1: "x + d < tx + 32 \<and> y < ty + 32 \<and> tx < x + d + w \<and> ty < y + h"
  shows "\<not> (tx + 32 < ux + 32 \<and> y < uy + 32 \<and> ux < tx + 32 + w \<and> uy < y + h)"
proof
  assume u1: "tx + 32 < ux + 32 \<and> y < uy + 32 \<and> ux < tx + 32 + w \<and> uy < y + h"
  then have "tx + 32 \<le> ux" using assms(1,2) lattice_gap [of tx ux] by simp
  moreover have "tx + 32 \<le> x" using t0 t1 assms(4) by linarith
  moreover have "ux + 32 \<le> x" using u0 u1 \<open>tx + 32 \<le> x\<close> by linarith
  ultimately show False using t1 assms(3) by linarith
qed

lemma clear_of_iff: "clear_of ts r \<longleftrightarrow> (\<forall>t\<in>set ts. \<not> colliderect r t)"
  by (simp add: clear_of_def list_ex_iff)

lemma find_hit: "find P ts = Some t \<Longrightarrow> P t \<and> t \<in> set ts"
  by (induction ts) (auto split: if_splits)

lemma find_miss: "find (colliderect r) ts = None \<Longrightarrow> clear_of ts r"
  by (simp add: find_None_iff clear_of_iff)

lemma lattice_tileD:
  "list_all lattice_tile ts \<Longrightarrow> t \<in> set ts \<Longrightarrow>
     rect_w t = 32 \<and> rect_h t = 32 \<and> rect_x t mod 32 = 0 \<and> rect_y t mod 32 = 0"
  by (simp add: list_all_iff lattice_tile_def TILE_SIZE_def)

lemma rect_snap_right_clear:
  assumes lat: "list_all lattice_tile ts" and clr: "clear_of ts r0"
    and t: "t \<in> set ts" and hit: "colliderect (r0\<lparr>rect_x := rect_x r0 + d\<rparr>) t"
    and d: "0 \<le> d" "d \<le> 32"
  shows "clear_of ts (set_right (rect_left t) (r0\<lparr>rect_x := rect_x r0 + d\<rparr>))"
  unfolding clear_of_iff
proof
  fix u assume u: "u \<in> set ts"
  note lt = lattice_tileD [OF lat t] and lu = lattice_tileD [OF lat u]
  have t0: "\<not> colliderect r0 t" and u0: "\<not> colliderect r0 u"
    using clr t u by (simp_all add: clear_of_iff)
  have "\<not> (rect_x t - rect_w r0 < rect_x u + 32 \<and> rect_y r0 < rect_y u + 32 \<and>
           rect_x u < rect_x t \<and> rect_y u < rect_y r0 + rect_h r0)"
    using lt lu d t0 u0 hit
    by (intro snap_right_arith [where d = d and x = "rect_x r0" and ty = "rect_y t"])
       (simp_all add: colliderect_def)
  then show "\<not> colliderect (set_right (rect_left t) (r0\<lparr>rect_x := rect_x r0 + d\<rparr>)) u"
    using lu by (simp add: colliderect_def set_right_def rect_left_def)
qed

lemma rect_snap_left_clear:
  assumes lat: "list_all lattice_tile ts" and clr: "clear_of ts r0"
    and t: "t \<in> set ts" and hit: "colliderect (r0\<lparr>rect_x := rect_x r0 + d\<rparr>) t"
    and d: "- 32 \<le> d" "d \<le> 0"
  shows "clear_of ts (set_left (rect_right t) (r0\<lparr>rect_x := rect_x r0 + d\<rparr>))"
  unfolding clear_of_iff
proof
  fix u assume u: "u \<in> set ts"
  note lt = lattice_tileD [OF lat t] and lu = lattice_tileD [OF lat u]
  have t0: "\<not> colliderect r0 t" and u0: "\<not> colliderect r0 u"
    using clr t u by (simp_all add: clear_of_iff)
  have "\<not> (rect_x t + 32 < rect_x u + 32 \<and> rect_y r0 < rect_y u + 32 \<and>
           rect_x u < rect_x t + 32 + rect_w r0 \<and> rect_y u < rect_y r0 + rect_h r0)"
    using lt lu d t0 u0 hit
    by (intro snap_left_arith [where d = d and x = "rect_x r0" and ty = "rect_y t"])
       (simp_all add: colliderect_def)
  then show "\<not> colliderect (set_left (rect_right t) (r0\<lparr>rect_x := rect_x r0 + d\<rparr>)) u"
    using lt lu by (simp add: colliderect_def set_left_def rect_right_def)
qed

lemma rect_snap_bottom_clear:
  assumes lat: "list_all lattice_tile ts" and clr: "clear_of ts r0"
    and t: "t \<in> set ts" and hit: "colliderect (r0\<lparr>rect_y := rect_y r0 + d\<rparr>) t"
    and d: "0 \<le> d" "d \<le> 32"
  shows "clear_of ts (set_bottom (rect_top t) (r0\<lparr>rect_y := rect_y r0 + d\<rparr>))"
  unfolding clear_of_iff
proof
  fix u assume u: "u \<in> set ts"
  note lt = lattice_tileD [OF lat t] and lu = lattice_tileD [OF lat u]
  have t0: "\<not> colliderect r0 t" and u0: "\<not> colliderect r0 u"
    using clr t u by (simp_all add: clear_of_iff)
  have "\<not> (rect_y t - rect_h r0 < rect_y u + 32 \<and> rect_x r0 < rect_x u + 32 \<and>
           rect_y u < rect_y t \<and> rect_x u < rect_x r0 + rect_w r0)"
    using lt lu d t0 u0 hit
    by (intro snap_right_arith [where d = d and x = "rect_y r0" and ty = "rect_x t"])
       (auto simp: colliderect_def)
  then show "\<not> colliderect (set_bottom (rect_top t) (r0\<lparr>rect_y := rect_y r0 + d\<rparr>)) u"
    using lu by (auto simp: colliderect_def set_bottom_def rect_top_def)
qed

lemma rect_snap_top_clear:
  assumes lat: "list_all lattice_tile ts" and clr: "clear_of ts r0"
    and t: "t \<in> set ts" and hit: "colliderect (r0\<lparr>rect_y := rect_y r0 + d\<rparr>) t"
    and d: "- 32 \<le> d" "d \<le> 0"
  shows "clear_of ts (set_top (rect_bottom t) (r0\<lparr>rect_y := rect_y r0 + d\<rparr>))"
  unfolding clear_of_iff
proof
  fix u assume u: "u \<in> set ts"
  note lt = lattice_tileD [OF lat t] and lu = lattice_tileD [OF lat u]
  have t0: "\<not> colliderect r0 t" and u0: "\<not> colliderect r0 u"
    using clr t u by (simp_all add: clear_of_iff)
  have "\<not> (rect_y t + 32 < rect_y u + 32 \<and> rect_x r0 < rect_x u + 32 \<and>
           rect_y u < rect_y t + 32 + rect_h r0 \<and> rect_x u < rect_x r0 + rect_w r0)"
    using lt lu d t0 u0 hit
    by (intro snap_left_arith [where d = d and x = "rect_y r0" and ty = "rect_x t"])
       (auto simp: colliderect_def)
  then show "\<not> colliderect (set_top (rect_bottom t) (r0\<lparr>rect_y := rect_y r0 + d\<rparr>)) u"
    using lt lu by (auto simp: colliderect_def set_top_def rect_bottom_def)
qed

lemma check_collisions_x_clear:
  assumes lat: "list_all lattice_tile ts" and clr: "clear_of ts r0"
    and mv: "rect e1 = r0\<lparr>rect_x := rect_x r0 + d\<rparr>"
    and pos: "vel_x e1 > 0 \<Longrightarrow> 0 \<le> d \<and> d \<le> 32"
    and neg: "vel_x e1 < 0 \<Longrightarrow> - 32 \<le> d \<and> d \<le> 0"
    and zero: "vel_x e1 = 0 \<Longrightarrow> d = 0"
  shows "clear_of ts (rect (check_collisions_x ts e1))"
proof (cases "find (colliderect (rect e1)) ts")
  case None
  then show ?thesis by (simp add: check_collisions_x_first find_miss)
next
  case (Some t)
  then have t: "t \<in> set ts" and hit: "colliderect (r0\<lparr>rect_x := rect_x r0 + d\<rparr>) t"
    using find_hit [of "colliderect (rect e1)" ts t] mv by simp_all
  consider "vel_x e1 > 0" | "vel_x e1 < 0" | "vel_x e1 = 0" by linarith
  then show ?thesis
  proof cases
    case 1
    then show ?thesis
      using rect_snap_right_clear [OF lat clr t hit] pos Some mv
      by (simp add: check_collisions_x_first snap_x_def)
  next
    case 2
    then show ?thesis
      using rect_snap_left_clear [OF lat clr t hit] neg Some mv
      by (simp add: check_collisions_x_first snap_x_def)
  next
    case 3
    then have "colliderect r0 t" using hit zero by simp
    then show ?thesis using clr t by (simp add: clear_of_iff)
  qed
qed

lemma check_collisions_y_clear:
  assumes lat: "list_all lattice_tile ts" and clr: "clear_of ts r0"
    and mv: "rect e1 = r0\<lparr>rect_y := rect_y r0 + d\<rparr>"
    and pos: "vel_y e1 > 0 \<Longrightarrow> 0 \<le> d \<and> d \<le> 32"
    and neg: "vel_y e1 < 0 \<Longrightarrow> - 32 \<le> d \<and> d \<le> 0"
    and zero: "vel_y e1 = 0 \<Longrightarrow> d = 0"
  shows "clear_of ts (rect (check_collisions_y ts e1))"
proof (cases "find (colliderect (rect e1)) ts")
  case None
  then show ?thesis
    by (simp add: check_collisions_y_def collisions_y_loop_first find_miss)
next
  case (Some t)
  then have t: "t \<in> set ts" and hit: "colliderect (r0\<lparr>rect_y := rect_y r0 + d\<rparr>) t"
    using find_hit [of "colliderect (rect e1)" ts t] mv by simp_all
  consider "vel_y e1 > 0" | "vel_y e1 < 0" | "vel_y e1 = 0" by linarith
  then show ?thesis
  proof cases
    case 1
    then show ?thesis
      using rect_snap_bottom_clear [OF lat clr t hit] pos Some mv
      by (simp add: check_collisions_y_def collisions_y_loop_first snap_y_def)
  next
    case 2
    then show ?thesis
      using rect_snap_top_clear [OF lat clr t hit] neg Some mv
      by (simp add: check_collisions_y_def collisions_y_loop_first snap_y_def)
  next
    case 3
    then have "colliderect r0 t" using hit zero by simp
    then show ?thesis using clr t by (simp add: clear_of_iff)
  qed
qed

lemma koopa_wall_loop_first:
  "koopa_wall_loop ts k =
     (case find (colliderect (rect k)) ts of
        None \<Rightarrow> (k, False)
      | Some t \<Rightarrow>
          (if vel_x k > 0 then k\<lparr>rect := set_right (rect_left t) (rect k)\<rparr>
           else k\<lparr>rect := set_left (rect_right t) (rect k)\<rparr>, True))"
  by (induction ts) simp_all

lemma koopa_wall_loop_clear:
  assumes lat: "list_all lattice_tile ts" and clr: "clear_of ts r0"
    and mv: "rect k1 = r0\<lparr>rect_x := rect_x r0 + d\<rparr>"
    and pos: "vel_x k1 > 0 \<Longrightarrow> 0 \<le> d \<and> d \<le> 32"
    and neg: "vel_x k1 \<le> 0 \<Longrightarrow> - 32 \<le> d \<and> d \<le> 0"
  shows "clear_of ts (rect (fst (koopa_wall_loop ts k1)))"
proof (cases "find (colliderect (rect k1)) ts")
  case None
  then show ?thesis by (simp add: koopa_wall_loop_first find_miss)
next
  case (Some t)
  then have t: "t \<in> set ts" and hit: "colliderect (r0\<lparr>rect_x := rect_x r0 + d\<rparr>) t"
    using find_hit [of "colliderect (rect k1)" ts t] mv by simp_all
  show ?thesis
  proof (cases "vel_x k1 > 0")
    case True
    then show ?thesis
      using rect_snap_right_clear [OF lat clr t hit] pos Some mv
      by (simp add: koopa_wall_loop_first)
  next
    case False
    then show ?thesis
      using rect_snap_left_clear [OF lat clr t hit] neg Some mv
      by (simp add: koopa_wall_loop_first)
  qed
qed

lemma rect_move_x: "rect (move_x v e) =
   (rect e)\<lparr>rect_x := rect_x (rect e) + (pg_int (real_of_int (rect_x (rect e)) + v) - rect_x (rect e))\<rparr>"
  by (simp add: move_x_def)

lemma rect_move_y: "rect (move_y v e) =
   (rect e)\<lparr>rect_y := rect_y (rect e) + (pg_int (real_of_int (rect_y (rect e)) + v) - rect_y (rect e))\<rparr>"
  by (simp add: move_y_def)

lemma pg_int_still: "pg_int (real_of_int x + 0) - x = 0"
  by (simp add: pg_int_of_int)

text \<open>The horizontal sweep after a move of at most one tile in the direction of the velocity.\<close>

lemma x_sweep_clear:
  assumes lat: "list_all lattice_tile ts" and clr: "clear_of ts (rect e)"
    and pos: "vel_x e > 0 \<Longrightarrow> 0 \<le> v \<and> v \<le> 32"
    and neg: "vel_x e < 0 \<Longrightarrow> - 32 \<le> v \<and> v \<le> 0"
    and zero: "vel_x e = 0 \<Longrightarrow> v = 0"
  shows "clear_of ts (rect (check_collisions_x ts (move_x v e)))"
proof (rule check_collisions_x_clear [OF lat clr rect_move_x])
  have vx: "vel_x (move_x v e) = vel_x e" by (simp add: move_x_def)
  show "0 \<le> pg_int (real_of_int (rect_x (rect e)) + v) - rect_x (rect e) \<and>
        pg_int (real_of_int (rect_x (rect e)) + v) - rect_x (rect e) \<le> 32"
    if "vel_x (move_x v e) > 0"
    using that pos vx by (intro pg_int_step_up) simp_all
  show "- 32 \<le> pg_int (real_of_int (rect_x (rect e)) + v) - rect_x (rect e) \<and>
        pg_int (real_of_int (rect_x (rect e)) + v) - rect_x (rect e) \<le> 0"
    if "vel_x (move_x v e) < 0"
    using that neg vx by (intro pg_int_step_down) simp_all
  show "pg_int (real_of_int (rect_x (rect e)) + v) - rect_x (rect e) = 0"
    if "vel_x (move_x v e) = 0"
    using that zero vx pg_int_still by simp
qed

lemma y_sweep_clear:
  assumes lat: "list_all lattice_tile ts" and clr: "clear_of ts (rect e)"
    and bound: "\<bar>vel_y e\<bar> \<le> 32"
  shows "clear_of ts (rect (check_collisions_y ts (move_y (vel_y e) e)))"
proof (rule check_collisions_y_clear [OF lat clr rect_move_y])
  have vy: "vel_y (move_y (vel_y e) e) = vel_y e" by (simp add: move_y_def)
  show "0 \<le> pg_int (real_of_int (rect_y (rect e)) + vel_y e) - rect_y (rect e) \<and>
        pg_int (real_of_int (rect_y (rect e)) + vel_y e) - rect_y (rect e) \<le> 32"
    if "vel_y (move_y (vel_y e) e) > 0"
    using that bound vy by (intro pg_int_step_up) simp_all
  show "- 32 \<le> pg_int (real_of_int (rect_y (rect e)) + vel_y e) - rect_y (rect e) \<and>
        pg_int (real_of_int (rect_y (rect e)) + vel_y e) - rect_y (rect e) \<le> 0"
    if "vel_y (move_y (vel_y e) e) < 0"
    using that bound vy by (intro pg_int_step_down) simp_all
  show "pg_int (real_of_int (rect_y (rect e)) + vel_y e) - rect_y (rect e) = 0"
    if "vel_y (move_y (vel_y e) e) = 0"
    using that vy pg_int_still by simp
qed

lemma apply_gravity_keeps:
  "rect (apply_gravity e) = rect e \<and> vel_x (apply_gravity e) = vel_x e \<and>
   vel_y (apply_gravity e) \<le> 10 \<and> min (vel_y e) 10 \<le> vel_y (apply_gravity e)"
  by (simp add: apply_gravity_def Let_def GRAVITY_def)

lemma koopa_wall_loop_keeps:
  "vel_y (fst (koopa_wall_loop ts k)) = vel_y k"
  by (simp add: koopa_wall_loop_first split: option.split)

lemma koopa_edge_check_keeps:
  "rect (koopa_edge_check tm k) = rect k \<and> vel_y (koopa_edge_check tm k) = vel_y k"
  by (simp add: koopa_edge_check_def Let_def)

lemma koopa_shell_tick_keeps: "rect (koopa_shell_tick k) = rect k"
  by (simp add: koopa_shell_tick_def Let_def)

lemma koopa_walk_clear:
  assumes lat: "list_all lattice_tile (tiles tm)" and clr: "clear_of (tiles tm) (rect k)"
    and dir: "\<bar>direction k\<bar> \<le> 3"
  shows "clear_of (tiles tm) (rect (koopa_walk tm k)) \<and> vel_y (koopa_walk tm k) = vel_y k"
proof -
  define c where "c = (if \<not> shell k then KOOPA_SPEED else KOOPA_SHELL_SPEED)"
  define k1 where "k1 = k\<lparr>vel_x := real_of_int (c * direction k)\<rparr>"
  define k2 where "k2 = move_x (vel_x k1) k1"
  have c: "0 \<le> c" "c \<le> 10"
    by (simp_all add: c_def KOOPA_SPEED_def KOOPA_SHELL_SPEED_def)
  have "\<bar>c * direction k\<bar> \<le> 10 * 3"
    unfolding abs_mult using c dir by (intro mult_mono) simp_all
  then have "\<bar>c * direction k\<bar> \<le> 32" by simp
  then have "real_of_int \<bar>c * direction k\<bar> \<le> real_of_int 32"
    by (simp only: of_int_le_iff)
  then have v: "\<bar>vel_x k1\<bar> \<le> 32"
    by (simp add: k1_def del: of_int_mult)
  have walk: "koopa_walk tm k =
     (case koopa_wall_loop (tiles tm) k2 of
        (k3, hit_wall) \<Rightarrow> if hit_wall then k3\<lparr>direction := direction k3 * (- 1)\<rparr> else k3)"
    by (simp add: koopa_walk_def Let_def k2_def k1_def c_def)
  obtain k3 h where l: "koopa_wall_loop (tiles tm) k2 = (k3, h)"
    by (cases "koopa_wall_loop (tiles tm) k2")
  have r2: "rect k2 = (rect k)\<lparr>rect_x := rect_x (rect k) +
              (pg_int (real_of_int (rect_x (rect k)) + vel_x k1) - rect_x (rect k))\<rparr>"
    by (simp add: k2_def move_x_def k1_def)
  have v2: "vel_x k2 = vel_x k1" "vel_y k2 = vel_y k"
    by (simp_all add: k2_def move_x_def k1_def)
  have "clear_of (tiles tm) (rect (fst (koopa_wall_loop (tiles tm) k2)))"
  proof (rule koopa_wall_loop_clear [OF lat clr r2])
    show "0 \<le> pg_int (real_of_int (rect_x (rect k)) + vel_x k1) - rect_x (rect k) \<and>
          pg_int (real_of_int (rect_x (rect k)) + vel_x k1) - rect_x (rect k) \<le> 32"
      if "vel_x k2 > 0"
      using that v v2 by (intro pg_int_step_up) simp_all
    show "- 32 \<le> pg_int (real_of_int (rect_x (rect k)) + vel_x k1) - rect_x (rect k) \<and>
          pg_int (real_of_int (rect_x (rect k)) + vel_x k1) - rect_x (rect k) \<le> 0"
      if "vel_x k2 \<le> 0"
      using that v v2 by (intro pg_int_step_down) simp_all
  qed
  moreover have "vel_y (fst (koopa_wall_loop (tiles tm) k2)) = vel_y k"
    using v2 by (simp add: koopa_wall_loop_keeps)
  ultimately show ?thesis
    using l walk by simp
qed

lemma Koopa_update_clear:
  assumes lat: "list_all lattice_tile (tiles tm)" and clr: "clear_of (tiles tm) (rect k)"
    and dir: "\<bar>direction k\<bar> \<le> 3" and vy: "- 32 \<le> vel_y k"
  shows "clear_of (tiles tm) (rect (Koopa_update tm k))"
proof -
  define k0 where "k0 = apply_gravity k"
  define k1 where "k1 = Koopa_update_x tm k"
  have g: "rect k0 = rect k" "vel_y k0 \<le> 10" "min (vel_y k) 10 \<le> vel_y k0"
    using apply_gravity_keeps [of k] by (simp_all add: k0_def)
  have d0: "direction k0 = direction k"
    by (simp add: k0_def apply_gravity_def Let_def)
  have w: "clear_of (tiles tm) (rect (koopa_walk tm k0)) \<and> vel_y (koopa_walk tm k0) = vel_y k0"
    using lat clr dir g(1) d0 by (intro koopa_walk_clear) simp_all
  have k1: "clear_of (tiles tm) (rect k1)" "vel_y k1 = vel_y k0"
    using w by (simp_all add: k1_def Koopa_update_x_def k0_def koopa_edge_check_keeps)
  have "\<bar>vel_y k1\<bar> \<le> 32" using k1(2) g(2,3) vy by (simp add: abs_le_iff min_def split: if_splits)
  then have "clear_of (tiles tm) (rect (check_collisions_y (tiles tm) (move_y (vel_y k1) k1)))"
    using lat k1(1) by (intro y_sweep_clear)
  then show ?thesis
    by (simp add: Koopa_update_def Let_def k1_def koopa_shell_tick_keeps)
qed

lemma player_input_keeps:
  "rect (player_input keys p) = rect p \<and> shell_state (player_input keys p) = shell_state p \<and>
   shell_timer (player_input keys p) = shell_timer p \<and>
   dash_speed (player_input keys p) = dash_speed p \<and>
   \<bar>vel_x (player_input keys p)\<bar> \<le> 6 \<and>
   (vel_y (player_input keys p) = vel_y p \<or> vel_y (player_input keys p) = - 12)"
  by (simp add: player_input_def Let_def PLAYER_SPEED_def JUMP_STRENGTH_def)

lemma player_shell_mode_rect:
  assumes "rect q = rect p" "shell_state q = shell_state p" "shell_timer q = shell_timer p"
  shows "rect (player_shell_mode keys q) = rect (player_shell_mode keys p)"
  using assms by (simp add: player_shell_mode_def Let_def)

lemma player_shell_mode_keeps:
  assumes "0 \<le> dash_speed p" "dash_speed p \<le> 24"
  shows "vel_y (player_shell_mode keys p) = vel_y p \<and>
         0 \<le> dash_speed (player_shell_mode keys p) \<and> dash_speed (player_shell_mode keys p) \<le> 24 \<and>
         (vel_x (player_shell_mode keys p) = vel_x p \<or>
          vel_x (player_shell_mode keys p) = vel_x p * (12 / 10))"
  using assms by (simp add: player_shell_mode_def Let_def PLAYER_SPEED_def)

lemma check_collisions_x_keeps: "vel_y (check_collisions_x ts e) = vel_y e"
  by (simp add: check_collisions_x_first snap_x_def split: option.split)

lemma Player_update_clear:
  assumes lat: "list_all lattice_tile (tiles tm)"
    and clr: "clear_of (tiles tm) (rect (player_shell_mode keys p))"
    and vy: "- 32 \<le> vel_y p" and dash: "0 \<le> dash_speed p" "dash_speed p \<le> 24"
  shows "clear_of (tiles tm) (rect (Player_update tm keys p))"
proof -
  define p0 where "p0 = apply_gravity p"
  define pi where "pi = player_input keys p0"
  define p1 where "p1 = player_shell_mode keys pi"
  define v where "v = vel_x p1 + real_of_int (dash_speed p1) *
                         (if vel_x p1 > 0 then 1 else if vel_x p1 < 0 then - 1 else 0)"
  define p3 where "p3 = check_collisions_x (tiles tm) (move_x v p1)"
  have g: "rect p0 = rect p" "vel_y p0 \<le> 10" "min (vel_y p) 10 \<le> vel_y p0"
    using apply_gravity_keeps [of p] by (simp_all add: p0_def)
  have s0: "shell_state p0 = shell_state p" "shell_timer p0 = shell_timer p"
    "dash_speed p0 = dash_speed p"
    by (simp_all add: p0_def apply_gravity_def Let_def)
  note i = player_input_keeps [of keys p0, folded pi_def]
  have r1: "rect p1 = rect (player_shell_mode keys p)"
    unfolding p1_def using i g(1) s0 by (intro player_shell_mode_rect) simp_all
  have m: "vel_y p1 = vel_y pi \<and> 0 \<le> dash_speed p1 \<and> dash_speed p1 \<le> 24 \<and>
           (vel_x p1 = vel_x pi \<or> vel_x p1 = vel_x pi * (12 / 10))"
    unfolding p1_def using i s0 dash by (intro player_shell_mode_keeps) simp_all
  have vx1: "\<bar>vel_x p1\<bar> \<le> 36 / 5"
    using m i by (auto simp: abs_le_iff)
  have vy1: "\<bar>vel_y p1\<bar> \<le> 32"
    using m i g(2,3) vy by (auto simp: abs_le_iff min_def split: if_splits)
  have c1: "clear_of (tiles tm) (rect p1)" using clr r1 by simp
  have "clear_of (tiles tm) (rect p3)"
    unfolding p3_def
  proof (rule x_sweep_clear [OF lat c1])
    show "0 \<le> v \<and> v \<le> 32" if "vel_x p1 > 0"
      using that vx1 m by (simp add: v_def abs_le_iff)
    show "- 32 \<le> v \<and> v \<le> 0" if "vel_x p1 < 0"
      using that vx1 m by (simp add: v_def abs_le_iff)
    show "v = 0" if "vel_x p1 = 0"
      using that by (simp add: v_def)
  qed
  moreover have "vel_y p3 = vel_y p1"
    by (simp add: p3_def check_collisions_x_keeps move_x_def)
  ultimately have "clear_of (tiles tm) (rect (check_collisions_y (tiles tm) (move_y (vel_y p3) p3)))"
    using lat vy1 by (intro y_sweep_clear) simp_all
  moreover have "Player_update_x tm keys p = p3"
    by (simp add: Player_update_x_def Let_def p3_def v_def p1_def pi_def p0_def)
  ultimately show ?thesis
    by (simp add: Player_update_def Let_def)
qed

section \<open>The vertical sweeps, read as the first overlapping tile\<close>

lemma pg_int_nearest: "pg_int r = nearest r"
proof -
  have "\<lceil>r - 1 / 2\<rceil> = - \<lfloor>- r + 1 / 2\<rfloor>"
    by (simp add: ceiling_def)
  then show ?thesis
    by (simp add: pg_int_def nearest_def round_def)
qed

lemma foldl_snap_y_A_still: "vel_y_A e = 0 \<Longrightarrow> foldl snap_y_A e us = e"
  by (induction us) (auto simp: snap_y_A_def)

lemma foldl_snap_y_A_first:
  "foldl snap_y_A e (filter (colliderect (rect_A e)) ts) =
     (case find (colliderect (rect_A e)) ts of None \<Rightarrow> e | Some t \<Rightarrow> snap_y_A e t)"
proof (induction ts)
  case Nil
  show ?case by simp
next
  case (Cons t ts)
  show ?case
  proof (cases "colliderect (rect_A e) t")
    case True
    have "vel_y_A (snap_y_A e t) = 0" by (simp add: snap_y_A_def)
    then have "foldl snap_y_A (snap_y_A e t) (filter (colliderect (rect_A e)) ts) = snap_y_A e t"
      by (rule foldl_snap_y_A_still)
    with True show ?thesis by simp
  next
    case False
    with Cons show ?thesis by simp
  qed
qed

lemma collisions_loop_A_vertical_still:
  "vel_y_A p = 0 \<Longrightarrow> collisions_loop_A ts ''vertical'' p = p"
  by (induction ts) auto

lemma collisions_loop_A_vertical_first:
  "collisions_loop_A ts ''vertical'' p =
     (case find (colliderect (rect_A p)) ts of
        None \<Rightarrow> p
      | Some t \<Rightarrow>
          if vel_y_A p > 0 then
            p\<lparr>rect_A := set_bottom (rect_top t) (rect_A p), vel_y_A := 0,
              on_ground_A := True, jumping_A := False\<rparr>
          else if vel_y_A p < 0 then
            p\<lparr>rect_A := set_top (rect_bottom t) (rect_A p), vel_y_A := 0\<rparr>
          else p)"
proof (induction ts)
  case Nil
  show ?case by simp
next
  case (Cons t ts)
  show ?case
  proof (cases "colliderect (rect_A p) t")
    case True
    then show ?thesis
      by (simp add: collisions_loop_A_vertical_still)
  next
    case False
    with Cons show ?thesis by simp
  qed
qed

lemma koopa_collisions_loop_A_still:
  "vel_y_A k \<le> 0 \<Longrightarrow> koopa_collisions_loop_A ts k = k"
  by (induction ts) auto

lemma koopa_collisions_loop_A_first:
  "koopa_collisions_loop_A ts k =
     (case find (colliderect (rect_A k)) ts of
        None \<Rightarrow> k
      | Some t \<Rightarrow>
          if vel_y_A k > 0
          then k\<lparr>rect_A := set_bottom (rect_top t) (rect_A k), vel_y_A := 0\<rparr>
          else k)"
proof (induction ts)
  case Nil
  show ?case by simp
next
  case (Cons t ts)
  show ?case
  proof (cases "colliderect (rect_A k) t")
    case True
    then show ?thesis
      by (simp add: koopa_collisions_loop_A_still)
  next
    case False
    with Cons show ?thesis by simp
  qed
qed

lemma move_y_nearest:
  "move_y v e = e\<lparr>rect := (rect e)\<lparr>rect_y := nearest (real_of_int (rect_y (rect e)) + v)\<rparr>\<rparr>"
  by (simp add: move_y_def pg_int_nearest)

lemma move_y_A_nearest:
  "move_y_A v e =
     e\<lparr>rect_A := (rect_A e)\<lparr>rect_y := nearest (real_of_int (rect_y (rect_A e)) + v)\<rparr>\<rparr>"
  by (simp add: move_y_A_def pg_int_nearest)

lemma sweep_B: "check_collisions_y ts (move_y (vel_y e) e) = vertical_sweep_claim ts e"
  by (simp add: check_collisions_y_def vertical_sweep_claim_def collisions_y_loop_filter
      move_y_nearest)

lemma sweep_A_player:
  "rect_A (check_collisions_A tm ''vertical'' (move_y_A (vel_y_A p) p)) =
     rect_A (vertical_sweep_claim_A (tiles_A tm) p) \<and>
   vel_x_A (check_collisions_A tm ''vertical'' (move_y_A (vel_y_A p) p)) =
     vel_x_A (vertical_sweep_claim_A (tiles_A tm) p) \<and>
   vel_y_A (check_collisions_A tm ''vertical'' (move_y_A (vel_y_A p) p)) =
     vel_y_A (vertical_sweep_claim_A (tiles_A tm) p) \<and>
   (list_ex (colliderect (rect_A (move_y_A (vel_y_A p) p))) (tiles_A tm) \<and> vel_y_A p > 0 \<longrightarrow>
      on_ground_A (check_collisions_A tm ''vertical'' (move_y_A (vel_y_A p) p)))"
proof -
  define q where "q = move_y_A (vel_y_A p) p"
  have q: "q = p\<lparr>rect_A := (rect_A p)\<lparr>rect_y :=
                 nearest (real_of_int (rect_y (rect_A p)) + vel_y_A p)\<rparr>\<rparr>"
    by (simp add: q_def move_y_A_nearest)
  have vq: "vel_y_A q = vel_y_A p" by (simp add: q)
  have claim: "vertical_sweep_claim_A (tiles_A tm) p =
     (case find (colliderect (rect_A q)) (tiles_A tm) of None \<Rightarrow> q | Some t \<Rightarrow> snap_y_A q t)"
    using foldl_snap_y_A_first [of q "tiles_A tm"]
    by (simp add: vertical_sweep_claim_A_def Let_def q)
  have hit: "list_ex (colliderect (rect_A q)) (tiles_A tm) \<Longrightarrow>
             \<exists>t. find (colliderect (rect_A q)) (tiles_A tm) = Some t"
    by (cases "find (colliderect (rect_A q)) (tiles_A tm)") (auto simp: find_None_iff list_ex_iff)
  show ?thesis
    unfolding q_def [symmetric] check_collisions_A_def claim collisions_loop_A_vertical_first
    using hit vq by (auto simp: snap_y_A_def split: option.split)
qed

lemma sweep_A_koopa:
  "0 \<le> vel_y_A k \<Longrightarrow>
   Koopa_check_collisions_A tm (move_y_A (vel_y_A k) k) = vertical_sweep_claim_A (tiles_A tm) k"
proof -
  assume nn: "0 \<le> vel_y_A k"
  define q where "q = move_y_A (vel_y_A k) k"
  have q: "q = k\<lparr>rect_A := (rect_A k)\<lparr>rect_y :=
                 nearest (real_of_int (rect_y (rect_A k)) + vel_y_A k)\<rparr>\<rparr>"
    by (simp add: q_def move_y_A_nearest)
  have vq: "vel_y_A q = vel_y_A k" by (simp add: q)
  have claim: "vertical_sweep_claim_A (tiles_A tm) k =
     (case find (colliderect (rect_A q)) (tiles_A tm) of None \<Rightarrow> q | Some t \<Rightarrow> snap_y_A q t)"
    using foldl_snap_y_A_first [of q "tiles_A tm"]
    by (simp add: vertical_sweep_claim_A_def Let_def q)
  show ?thesis
    unfolding q_def [symmetric] Koopa_check_collisions_A_def claim koopa_collisions_loop_A_first
    using nn vq by (auto simp: snap_y_A_def split: option.split)
qed

lemma updates_A:
  "Player_update_A tm keys p =
     player_shell_tick_A (check_collisions_A tm ''vertical''
        (move_y_A (vel_y_A (Player_update_x_A tm keys p)) (Player_update_x_A tm keys p))) \<and>
   Koopa_update_A tm k =
     koopa_shell_tick_A (Koopa_check_collisions_A tm
        (move_y_A (vel_y_A (Koopa_update_x_A tm k)) (Koopa_update_x_A tm k)))"
  by (simp add: Player_update_A_def Player_update_x_A_def player_shell_tick_A_def
      Koopa_update_A_def Koopa_update_x_A_def koopa_shell_tick_A_def Let_def)

lemma move_near:
  "\<bar>real_of_int (rect_y (rect (move_y v e))) - (real_of_int (rect_y (rect e)) + v)\<bar> \<le> 1 / 2"
  using pg_int_near [of "real_of_int (rect_y (rect e)) + v"] by (simp add: move_y_def)


section \<open>The enemy loop, turn by turn\<close>

lemma before_turn_split:
  assumes "i \<in> set js" and "distinct js"
  shows "\<exists>post. js = before_turn i js @ i # post \<and> i \<notin> set (before_turn i js) \<and>
                i \<notin> set post"
proof -
  from assms(1) obtain pre post where js: "js = pre @ i # post" and pre: "i \<notin> set pre"
    by (auto dest: split_list_first)
  have "takeWhile (\<lambda>j. j \<noteq> i) (pre @ i # post) =
          pre @ takeWhile (\<lambda>j. j \<noteq> i) (i # post)"
    by (rule takeWhile_append2) (use pre in auto)
  then have "before_turn i js = pre"
    by (simp add: before_turn_def js)
  moreover have "i \<notin> set post"
    using assms(2) by (simp add: js)
  ultimately show ?thesis
    using js pre by auto
qed

lemma collided_koopas_distinct: "distinct (collided_koopas g)"
  by (simp add: collided_koopas_def)

lemma collided_koopas_member:
  "i \<in> set (collided_koopas g) \<longleftrightarrow>
     i < length (koopas g) \<and> colliderect (rect (player g)) (rect (koopas g ! i))"
  by (auto simp: collided_koopas_def)

lemma enemy_interaction_length:
  "length (koopas (snd (enemy_interaction i g))) = length (koopas g)"
  by (simp add: enemy_interaction_def Let_def)

lemma enemy_interaction_other:
  "j \<noteq> i \<Longrightarrow> koopas (snd (enemy_interaction i g)) ! j = koopas g ! j"
  by (simp add: enemy_interaction_def Let_def)

lemma enemy_loop_koopas:
  "length (koopas (snd (enemy_loop js g))) = length (koopas g) \<and>
   (j \<notin> set js \<longrightarrow> koopas (snd (enemy_loop js g)) ! j = koopas g ! j)"
proof (induction js arbitrary: g)
  case Nil
  show ?case by simp
next
  case (Cons i js)
  obtain go g1 where step: "enemy_interaction i g = (go, g1)"
    by (cases "enemy_interaction i g")
  from enemy_interaction_length [of i g] enemy_interaction_other [of j i g] step
  have one: "length (koopas g1) = length (koopas g)"
    "j \<noteq> i \<Longrightarrow> koopas g1 ! j = koopas g ! j"
    by simp_all
  show ?case
    using Cons [of g1] one by (simp add: step)
qed

lemma enemy_loop_append:
  "enemy_loop (xs @ ys) g =
     (case enemy_loop xs g of (go, g1) \<Rightarrow> if go then enemy_loop ys g1 else (False, g1))"
  by (induction xs arbitrary: g) (auto split: prod.splits)

lemma GameManager_update_phases:
  "GameManager_update keys g =
     (case enemy_loop (collided_koopas (GameManager_move keys g)) (GameManager_move keys g) of
        (go, g6) \<Rightarrow>
          if \<not> go then (Inr False, g6)
          else if rect_x (rect (player g6)) > width (tile_map g6) * TILE_SIZE - 100
          then level_complete g6
          else (Inr True, g6))"
  by (simp add: GameManager_update_def GameManager_move_def Let_def)

lemma GameManager_move_attr:
  "self_current_level (GameManager_move keys g) = self_current_level g"
  by (simp add: GameManager_move_def Let_def)

lemma GameManager_update_state:
  assumes "self_current_level g = None"
  shows "snd (GameManager_update keys g) =
           snd (enemy_loop (collided_koopas (GameManager_move keys g)) (GameManager_move keys g))"
proof -
  define g5 where "g5 = GameManager_move keys g"
  obtain go g6 where loop: "enemy_loop (collided_koopas g5) g5 = (go, g6)"
    by (cases "enemy_loop (collided_koopas g5) g5")
  have "self_current_level g5 = None"
    using assms by (simp add: g5_def GameManager_move_attr)
  with enemy_loop_attr [of "collided_koopas g5" g5] loop
  have "self_current_level g6 = None" by simp
  then have "level_complete g6 = (Inl AttributeError, g6)"
    by (simp add: level_complete_def)
  then show ?thesis
    by (simp add: GameManager_update_phases g5_def [symmetric] loop)
qed

text \<open>The turn of an enemy that the player overlaps after the tick's movement.\<close>

lemma enemy_turn:
  assumes i: "i < length (koopas g5)"
    and hit: "colliderect (rect (player g5)) (rect (koopas g5 ! i))"
    and pre: "enemy_loop (before_turn i (collided_koopas g5)) g5 = (True, g1)"
  shows "koopas g1 ! i = koopas g5 ! i" "length (koopas g1) = length (koopas g5)"
    "enemy_loop (before_turn i (collided_koopas g5) @ [i]) g5 = enemy_interaction i g1"
    "fst (enemy_interaction i g1) \<Longrightarrow>
       koopas (snd (enemy_loop (collided_koopas g5) g5)) ! i =
         koopas (snd (enemy_interaction i g1)) ! i"
proof -
  have mem: "i \<in> set (collided_koopas g5)"
    using i hit by (simp add: collided_koopas_member)
  from before_turn_split [OF mem collided_koopas_distinct]
  obtain post where cs: "collided_koopas g5 = before_turn i (collided_koopas g5) @ i # post"
    and npre: "i \<notin> set (before_turn i (collided_koopas g5))" and npost: "i \<notin> set post"
    by blast
  from enemy_loop_koopas [of "before_turn i (collided_koopas g5)" g5 i] pre npre
  show same: "koopas g1 ! i = koopas g5 ! i" and len: "length (koopas g1) = length (koopas g5)"
    by simp_all
  show turn: "enemy_loop (before_turn i (collided_koopas g5) @ [i]) g5 = enemy_interaction i g1"
    by (simp add: enemy_loop_append pre split: prod.splits)
  show "koopas (snd (enemy_loop (collided_koopas g5) g5)) ! i =
          koopas (snd (enemy_interaction i g1)) ! i" if go: "fst (enemy_interaction i g1)"
  proof -
    obtain g2 where step: "enemy_interaction i g1 = (True, g2)"
      using go by (cases "enemy_interaction i g1") simp
    have "enemy_loop (collided_koopas g5) g5 = enemy_loop post g2"
      by (subst cs) (simp add: enemy_loop_append pre step)
    with enemy_loop_koopas [of post g2 i] npost step show ?thesis by simp
  qed
qed

lemma enemy_interaction_shell:
  assumes "shell_state (player g)"
  shows "fst (enemy_interaction i g) \<and> shell_state (player (snd (enemy_interaction i g))) \<and>
         vel_x (player (snd (enemy_interaction i g))) = vel_x (player g)"
  using assms by (simp add: enemy_interaction_def Let_def)

lemma enemy_loop_shell:
  "shell_state (player g) \<Longrightarrow>
     fst (enemy_loop js g) \<and> shell_state (player (snd (enemy_loop js g))) \<and>
     vel_x (player (snd (enemy_loop js g))) = vel_x (player g)"
proof (induction js arbitrary: g)
  case Nil
  then show ?case by simp
next
  case (Cons i js)
  obtain go g1 where step: "enemy_interaction i g = (go, g1)"
    by (cases "enemy_interaction i g")
  from enemy_interaction_shell [OF Cons.prems, of i] step
  have one: "go" "shell_state (player g1)" "vel_x (player g1) = vel_x (player g)"
    by simp_all
  from Cons.IH [OF one(2)] one show ?case
    by (simp add: step)
qed

lemma feet_hit:
  assumes "colliderect p e" and "0 \<le> rect_h e" and "rect_bottom p < rect_centery e"
  shows "colliderect e (mk_Rect (rect_x p) (rect_bottom p - 5) (rect_w p) 10)"
proof -
  have "rect_h e div 2 \<le> rect_h e" using assms(2) by simp
  then show ?thesis
    using assms(1,3)
    by (simp add: colliderect_def mk_Rect_def rect_bottom_def rect_centery_def)
qed

lemma enemy_interaction_A_length:
  "length (koopa_objs_A (snd (enemy_interaction_A f i g))) = length (koopa_objs_A g)"
  by (simp add: enemy_interaction_A_def Let_def kill_A_def)

lemma enemy_interaction_A_other:
  "j \<noteq> i \<Longrightarrow> koopa_objs_A (snd (enemy_interaction_A f i g)) ! j = koopa_objs_A g ! j"
  by (simp add: enemy_interaction_A_def Let_def kill_A_def)

lemma enemy_interaction_A_gone:
  "j \<notin> set (enemies_A g) \<Longrightarrow> j \<notin> set (enemies_A (snd (enemy_interaction_A f i g)))"
  "j \<notin> set (koopas_group_A g) \<Longrightarrow> j \<notin> set (koopas_group_A (snd (enemy_interaction_A f i g)))"
  "j \<notin> set (all_sprites_A g) \<Longrightarrow> j \<notin> set (all_sprites_A (snd (enemy_interaction_A f i g)))"
  by (simp_all add: enemy_interaction_A_def Let_def kill_A_def)

lemma enemy_loop_A_objs:
  "length (koopa_objs_A (snd (enemy_loop_A f js g))) = length (koopa_objs_A g) \<and>
   (j \<notin> set js \<longrightarrow> koopa_objs_A (snd (enemy_loop_A f js g)) ! j = koopa_objs_A g ! j)"
proof (induction js arbitrary: g)
  case Nil
  show ?case by simp
next
  case (Cons i js)
  obtain go g1 where step: "enemy_interaction_A f i g = (go, g1)"
    by (cases "enemy_interaction_A f i g")
  from enemy_interaction_A_length [of f i g] enemy_interaction_A_other [of j i f g] step
  have one: "length (koopa_objs_A g1) = length (koopa_objs_A g)"
    "j \<noteq> i \<Longrightarrow> koopa_objs_A g1 ! j = koopa_objs_A g ! j"
    by simp_all
  show ?case
    using Cons [of g1] one by (simp add: step)
qed

lemma enemy_loop_A_gone:
  "(j \<notin> set (enemies_A g) \<longrightarrow> j \<notin> set (enemies_A (snd (enemy_loop_A f js g)))) \<and>
   (j \<notin> set (koopas_group_A g) \<longrightarrow> j \<notin> set (koopas_group_A (snd (enemy_loop_A f js g)))) \<and>
   (j \<notin> set (all_sprites_A g) \<longrightarrow> j \<notin> set (all_sprites_A (snd (enemy_loop_A f js g))))"
proof (induction js arbitrary: g)
  case Nil
  show ?case by simp
next
  case (Cons i js)
  obtain go g1 where step: "enemy_interaction_A f i g = (go, g1)"
    by (cases "enemy_interaction_A f i g")
  from enemy_interaction_A_gone [of j g f i] step
  have one: "j \<notin> set (enemies_A g) \<Longrightarrow> j \<notin> set (enemies_A g1)"
    "j \<notin> set (koopas_group_A g) \<Longrightarrow> j \<notin> set (koopas_group_A g1)"
    "j \<notin> set (all_sprites_A g) \<Longrightarrow> j \<notin> set (all_sprites_A g1)"
    by simp_all
  show ?case
    using Cons [of g1] one by (auto simp: step)
qed

lemma enemy_loop_A_append:
  "enemy_loop_A f (xs @ ys) g =
     (case enemy_loop_A f xs g of
        (go, g1) \<Rightarrow> if go then enemy_loop_A f ys g1 else (False, g1))"
  by (induction xs arbitrary: g) (auto split: prod.splits)

lemma enemy_interaction_A_shell:
  assumes "shell_state_A (player_A g)"
  shows "fst (enemy_interaction_A f i g) \<and>
         shell_state_A (player_A (snd (enemy_interaction_A f i g)))"
  using assms by (simp add: enemy_interaction_A_def Let_def kill_A_def)

lemma enemy_loop_A_shell:
  "shell_state_A (player_A g) \<Longrightarrow>
     fst (enemy_loop_A f js g) \<and> shell_state_A (player_A (snd (enemy_loop_A f js g)))"
proof (induction js arbitrary: g)
  case Nil
  then show ?case by simp
next
  case (Cons i js)
  obtain go g1 where step: "enemy_interaction_A f i g = (go, g1)"
    by (cases "enemy_interaction_A f i g")
  from enemy_interaction_A_shell [OF Cons.prems, of f i] step
  have one: "go" "shell_state_A (player_A g1)"
    by simp_all
  from Cons.IH [OF one(2)] one show ?case
    by (simp add: step)
qed

lemma GameManager_update_A_phases:
  "GameManager_update_A keys g =
     enemy_loop_A (player_feet_A (GameManager_move_A keys g))
       (enemies_A (GameManager_move_A keys g)) (GameManager_move_A keys g)"
  by (simp add: GameManager_update_A_def GameManager_move_A_def player_feet_A_def Let_def)

text \<open>The turn of a member of the group \<open>enemies\<close> of \<^verbatim>\<open>koopahdr.py\<close>.\<close>

lemma enemy_turn_A:
  assumes mem: "j \<in> set es" and dist: "distinct es"
    and pre: "enemy_loop_A f (before_turn j es) g3 = (True, g1)"
  shows "koopa_objs_A g1 ! j = koopa_objs_A g3 ! j"
    "length (koopa_objs_A g1) = length (koopa_objs_A g3)"
    "enemy_loop_A f (before_turn j es @ [j]) g3 = enemy_interaction_A f j g1"
    "fst (enemy_interaction_A f j g1) \<Longrightarrow>
       \<exists>post. j \<notin> set post \<and>
         enemy_loop_A f es g3 = enemy_loop_A f post (snd (enemy_interaction_A f j g1))"
proof -
  from before_turn_split [OF mem dist]
  obtain post where cs: "es = before_turn j es @ j # post"
    and npre: "j \<notin> set (before_turn j es)" and npost: "j \<notin> set post"
    by blast
  from enemy_loop_A_objs [of f "before_turn j es" g3 j] pre npre
  show "koopa_objs_A g1 ! j = koopa_objs_A g3 ! j"
    and "length (koopa_objs_A g1) = length (koopa_objs_A g3)"
    by simp_all
  show "enemy_loop_A f (before_turn j es @ [j]) g3 = enemy_interaction_A f j g1"
    by (simp add: enemy_loop_A_append pre split: prod.splits)
  show "\<exists>post. j \<notin> set post \<and>
         enemy_loop_A f es g3 = enemy_loop_A f post (snd (enemy_interaction_A f j g1))"
    if go: "fst (enemy_interaction_A f j g1)"
  proof -
    obtain g2 where step: "enemy_interaction_A f j g1 = (True, g2)"
      using go by (cases "enemy_interaction_A f j g1") simp
    have "enemy_loop_A f es g3 = enemy_loop_A f post g2"
      by (subst cs) (simp add: enemy_loop_A_append pre step)
    with npost step show ?thesis by auto
  qed
qed


section \<open>Ticks on concrete sessions\<close>

text \<open>
  A player falling at speed 3 onto one enemy, and onto two enemies side by side, on the open
  field with no key pressed: the state that the movement of the tick leaves.
\<close>

lemma move_one_enemy:
  "GameManager_move (\<lambda>key. False) (session (player_at 300 160 0 3 False) [Koopa_init 310 192]) =
     session ((player_at 300 164 0 (7 / 2) False))
       [(Koopa_init 312 193)\<lparr>vel_x := 2, vel_y := 1 / 2\<rparr>]
       \<lparr>camera_x := - 100\<rparr>"
  by (simp add: GameManager_move_def Player_update_def Player_update_x_def Let_def
      apply_gravity_def player_input_def player_shell_mode_def move_x_def move_y_def
      check_collisions_y_def Koopa_update_def Koopa_update_x_def koopa_walk_def
      koopa_edge_check_def koopa_shell_tick_def Koopa_init_def mk_Rect_def pg_int_def
      GRAVITY_def KOOPA_SPEED_def SCREEN_WIDTH_def)

lemma move_two_enemies:
  "GameManager_move (\<lambda>key. False)
     (session (player_at 300 160 0 3 False) [Koopa_init 310 192, Koopa_init 290 192]) =
     session ((player_at 300 164 0 (7 / 2) False))
       [(Koopa_init 312 193)\<lparr>vel_x := 2, vel_y := 1 / 2\<rparr>,
        (Koopa_init 292 193)\<lparr>vel_x := 2, vel_y := 1 / 2\<rparr>]
       \<lparr>camera_x := - 100\<rparr>"
  by (simp add: GameManager_move_def Player_update_def Player_update_x_def Let_def
      apply_gravity_def player_input_def player_shell_mode_def move_x_def move_y_def
      check_collisions_y_def Koopa_update_def Koopa_update_x_def koopa_walk_def
      koopa_edge_check_def koopa_shell_tick_def Koopa_init_def mk_Rect_def pg_int_def
      GRAVITY_def KOOPA_SPEED_def SCREEN_WIDTH_def)

lemma move_one_enemy_A:
  "GameManager_move_A (\<lambda>key. False)
     (session_A (player_at_A 300 160 0 3) [Koopa_init_A 310 192]) =
     session_A (player_at_A 300 164 0 (7 / 2))
       [(Koopa_init_A 310 194)\<lparr>vel_x_A := 1, vel_y_A := 1\<rparr>]"
  by (simp add: GameManager_move_A_def Player_update_A_def Let_def gravity_A_def
      check_collisions_A_def move_x_A_def move_y_A_def Koopa_update_A_def koopa_walk_A_def
      Koopa_check_collisions_A_def Koopa_init_A_def mk_Rect_def pg_int_def GRAVITY_def
      KOOPA_SPEED_A_def)

section \<open>C1: the vertical sweep\<close>

text \<open>
  C1, as the code has it. In \<^verbatim>\<open>KoopaHDR1.07.31.251.0X.py\<close>, for every body (any extension
  of \<open>Entity\<close>, so player and enemy alike), the statements \<open>self.rect.y += self.vel.y\<close> and
  \<open>check_collisions_y\<close> do what the specification describes, the new \<open>y\<close> being the sum
  rounded to the nearest integer (so at most one half away from it): the flag is cleared,
  and every rectangle overlapping the moved box is treated in grid order, snapping the
  bottom edge when falling and the top edge when rising and zeroing \<open>velocity.y\<close>. The code
  tests each tile against the box as it stands at that moment; the two coincide because
  the first snap zeroes the velocity. \<open>Player.update\<close> and \<open>Koopa.update\<close> both run this
  sweep on the state their horizontal part leaves.

  In \<^verbatim>\<open>koopahdr.py\<close> the player's \<open>check_collisions\<close> leaves the position and the velocity
  that the specification describes, and a falling player that meets a tile is grounded
  after it; the enemy's \<open>check_collisions\<close>, which has no grounded flag, does what the
  specification describes whenever the enemy is not rising. Both \<open>update\<close> methods run
  these sweeps on the state their horizontal part leaves. The statement is silent on
  whether the player's sweep of \<^verbatim>\<open>koopahdr.py\<close> clears the grounded flag and on a rising
  enemy of \<^verbatim>\<open>koopahdr.py\<close>.
\<close>

theorem vertical_sweep_rounded:
  "check_collisions_y ts (move_y (vel_y e) e) = vertical_sweep_claim ts e \<and>
   \<bar>real_of_int (rect_y (rect (move_y (vel_y e) e))) -
      (real_of_int (rect_y (rect e)) + vel_y e)\<bar> \<le> 1 / 2 \<and>
   Player_update tm keys p = vertical_sweep_claim (tiles tm) (Player_update_x tm keys p) \<and>
   Koopa_update tm k =
     koopa_shell_tick (vertical_sweep_claim (tiles tm) (Koopa_update_x tm k)) \<and>
   rect_A (check_collisions_A tma ''vertical'' (move_y_A (vel_y_A pa) pa)) =
     rect_A (vertical_sweep_claim_A (tiles_A tma) pa) \<and>
   vel_x_A (check_collisions_A tma ''vertical'' (move_y_A (vel_y_A pa) pa)) =
     vel_x_A (vertical_sweep_claim_A (tiles_A tma) pa) \<and>
   vel_y_A (check_collisions_A tma ''vertical'' (move_y_A (vel_y_A pa) pa)) =
     vel_y_A (vertical_sweep_claim_A (tiles_A tma) pa) \<and>
   (list_ex (colliderect (rect_A (move_y_A (vel_y_A pa) pa))) (tiles_A tma) \<and>
    vel_y_A pa > 0 \<longrightarrow>
      on_ground_A (check_collisions_A tma ''vertical'' (move_y_A (vel_y_A pa) pa))) \<and>
   (0 \<le> vel_y_A ka \<longrightarrow>
      Koopa_check_collisions_A tma (move_y_A (vel_y_A ka) ka) =
        vertical_sweep_claim_A (tiles_A tma) ka) \<and>
   Player_update_A tma keys pa =
     player_shell_tick_A (check_collisions_A tma ''vertical''
        (move_y_A (vel_y_A (Player_update_x_A tma keys pa)) (Player_update_x_A tma keys pa))) \<and>
   Koopa_update_A tma ka =
     koopa_shell_tick_A (Koopa_check_collisions_A tma
        (move_y_A (vel_y_A (Koopa_update_x_A tma ka)) (Koopa_update_x_A tma ka)))"
proof -
  have b: "check_collisions_y ts (move_y (vel_y e) e) = vertical_sweep_claim ts e"
    by (rule sweep_B)
  have pu: "Player_update tm keys p =
              vertical_sweep_claim (tiles tm) (Player_update_x tm keys p)"
    by (simp add: Player_update_def Let_def sweep_B)
  have ku: "Koopa_update tm k =
              koopa_shell_tick (vertical_sweep_claim (tiles tm) (Koopa_update_x tm k))"
    by (simp add: Koopa_update_def Let_def sweep_B)
  have ak: "0 \<le> vel_y_A ka \<longrightarrow>
      Koopa_check_collisions_A tma (move_y_A (vel_y_A ka) ka) =
        vertical_sweep_claim_A (tiles_A tma) ka"
    by (simp add: sweep_A_koopa)
  from b move_near [of "vel_y e" e] pu ku sweep_A_player [of tma pa] ak
    updates_A [of tma keys pa ka]
  show ?thesis by blast
qed

text \<open>
  A falling player of \<^verbatim>\<open>koopahdr.py\<close> that meets the floor is grounded after the sweep, and a
  falling enemy of \<^verbatim>\<open>koopahdr.py\<close> is swept as the specification describes.
\<close>

theorem vertical_sweep_rounded_witness:
  "on_ground_A (check_collisions_A floor_A ''vertical''
      (move_y_A 3 (player_at_A 300 190 0 3))) \<and>
   Koopa_check_collisions_A floor_A (move_y_A 3 ((Koopa_init_A 300 190)\<lparr>vel_y_A := 3\<rparr>)) =
     vertical_sweep_claim_A (tiles_A floor_A) ((Koopa_init_A 300 190)\<lparr>vel_y_A := 3\<rparr>)"
proof -
  let ?p = "player_at_A 300 190 0 3"
  let ?k = "(Koopa_init_A 300 190)\<lparr>vel_y_A := 3\<rparr>"
  have hit: "list_ex (colliderect (rect_A (move_y_A (vel_y_A ?p) ?p))) (tiles_A floor_A) \<and>
             vel_y_A ?p > 0"
    by (simp add: move_y_A_def pg_int_def colliderect_def mk_Rect_def)
  have falls: "0 \<le> vel_y_A ?k"
    by simp
  have vp: "vel_y_A ?p = 3" and vk: "vel_y_A ?k = 3"
    by simp_all
  from vertical_sweep_rounded [of "[]" "player_at 0 0 0 0 False" open_field "\<lambda>key. False"
      "player_at 0 0 0 0 False" "Koopa_init 0 0" floor_A ?p ?k] hit falls
  have "on_ground_A (check_collisions_A floor_A ''vertical''
          (move_y_A (vel_y_A ?p) ?p)) \<and>
        Koopa_check_collisions_A floor_A (move_y_A (vel_y_A ?k) ?k) =
          vertical_sweep_claim_A (tiles_A floor_A) ?k"
    by blast
  then show ?thesis
    unfolding vp vk .
qed

text \<open>
  C1 as stated fails. The new \<open>y\<close> is not \<open>position.y + velocity.y\<close> when the velocity has a
  fraction: a body at \<open>y = 100\<close> with \<open>velocity.y = 0.5\<close> is moved to 101, not to 100.5. In
  \<^verbatim>\<open>koopahdr.py\<close>, moreover, the player's sweep does not clear the grounded flag (with no
  tile in reach a grounded player is still grounded after it), and a rising enemy that
  enters a tile is neither snapped nor stopped.
\<close>

theorem vertical_sweep_counterexample:
  "rect_y (rect (move_y (1 / 2)
      \<lparr>rect = mk_Rect 100 100 32 32, vel_x = 0, vel_y = 1 / 2, on_ground = True\<rparr>)) = 101 \<and>
   on_ground_A (check_collisions_A open_field_A ''vertical''
      (move_y_A (1 / 2)
        \<lparr>rect_A = mk_Rect 200 64 32 32, vel_x_A = 0, vel_y_A = 1 / 2, on_ground_A = True,
         jumping_A = False, shell_state_A = False, shell_timer_A = 0\<rparr>)) \<and>
   Koopa_check_collisions_A (open_field_A\<lparr>tiles_A := [mk_Rect 288 128 32 32]\<rparr>)
      (move_y_A (- 5) ((Koopa_init_A 300 162)\<lparr>vel_y_A := - 5\<rparr>)) =
     (Koopa_init_A 300 162)\<lparr>rect_A := mk_Rect 300 157 32 32, vel_y_A := - 5\<rparr> \<and>
   colliderect (mk_Rect 300 157 32 32) (mk_Rect 288 128 32 32)"
  by (simp add: move_y_def move_y_A_def mk_Rect_def pg_int_def check_collisions_A_def
      Koopa_check_collisions_A_def Koopa_init_A_def colliderect_def)

section \<open>C2: no overlap after the sweeps\<close>

text \<open>
  C2 fails on the code at two places where a sibling path does what the failing one
  misses. The sweeps push a body out of a tile only against its direction of travel
  (lemmas \<open>x_sweep_clear\<close>, \<open>y_sweep_clear\<close>, \<open>Koopa_update_clear\<close> and \<open>Player_update_clear\<close>
  above: on the tiles of a grid, a body that is clear and moves by at most a tile stays
  clear through the sweeps of \<^verbatim>\<open>KoopaHDR1.07.31.251.0X.py\<close>).

  In \<^verbatim>\<open>KoopaHDR1.07.31.251.0X.py\<close>, \<open>Player.update\<close> restores the 32 pixel box when the
  shell timer runs out, growing it 8 pixels upward, after both sweeps and with no collision
  test. A player in shell mode, 24 pixels high and two pixels below a ceiling tile, is clear
  of the tile; in the tick in which its timer runs out at the top of a jump (no key held) it
  ends the tick at \<open>y = 122\<close>, overlapping the tile, and the next tick's falling branch puts
  it on top of the ceiling at \<open>y = 64\<close>.

  In \<^verbatim>\<open>koopahdr.py\<close>, \<open>Koopa.check_collisions\<close> has the falling branch only (the player's
  \<open>check_collisions\<close> has both). An enemy standing in a corridor one tile high, kicked
  (\<open>velocity.y = - 5\<close>), rises four pixels into the ceiling tile and ends its tick
  overlapping it.
\<close>

theorem tick_ends_inside_ceiling:
  "\<not> colliderect (mk_Rect 100 130 32 24) (mk_Rect 96 96 32 32) \<and>
   rect (Player_update (open_field\<lparr>tiles := [mk_Rect 96 96 32 32]\<rparr>) (\<lambda>key. False)
        \<lparr>rect = mk_Rect 100 130 32 24, vel_x = 0, vel_y = - (1 / 2), on_ground = False,
         shell_state = True, shell_timer = 1, dash_speed = 12\<rparr>) = mk_Rect 100 122 32 32 \<and>
   colliderect (mk_Rect 100 122 32 32) (mk_Rect 96 96 32 32) \<and>
   rect (Player_update (open_field\<lparr>tiles := [mk_Rect 96 96 32 32]\<rparr>) (\<lambda>key. False)
          (Player_update (open_field\<lparr>tiles := [mk_Rect 96 96 32 32]\<rparr>) (\<lambda>key. False)
             \<lparr>rect = mk_Rect 100 130 32 24, vel_x = 0, vel_y = - (1 / 2), on_ground = False,
              shell_state = True, shell_timer = 1, dash_speed = 12\<rparr>)) =
     mk_Rect 100 64 32 32 \<and>
   rect_A (kick_A (Koopa_init_A 300 192)) = mk_Rect 300 192 32 32 \<and>
   \<not> list_ex (colliderect (mk_Rect 300 192 32 32))
       [mk_Rect 288 160 32 32, mk_Rect 288 224 32 32, mk_Rect 320 224 32 32] \<and>
   rect_A (Koopa_update_A
      (open_field_A\<lparr>tiles_A := [mk_Rect 288 160 32 32, mk_Rect 288 224 32 32,
                                mk_Rect 320 224 32 32]\<rparr>)
      (kick_A (Koopa_init_A 300 192))) = mk_Rect 300 188 32 32 \<and>
   colliderect (mk_Rect 300 188 32 32) (mk_Rect 288 160 32 32)"
proof -
  let ?tm = "open_field\<lparr>tiles := [mk_Rect 96 96 32 32]\<rparr>"
  let ?p = "\<lparr>rect = mk_Rect 100 130 32 24, vel_x = 0, vel_y = - (1 / 2), on_ground = False,
         shell_state = True, shell_timer = 1, dash_speed = 12\<rparr>"
  let ?q = "\<lparr>rect = mk_Rect 100 122 32 32, vel_x = 0, vel_y = 0, on_ground = False,
         shell_state = False, shell_timer = 0, dash_speed = 0\<rparr>"
  have one: "Player_update ?tm (\<lambda>key. False) ?p = ?q"
    by (simp add: Player_update_def Player_update_x_def Let_def apply_gravity_def GRAVITY_def
        player_input_def player_shell_mode_def move_x_def move_y_def check_collisions_y_def
        colliderect_def mk_Rect_def pg_int_def set_bottom_def set_top_def rect_top_def
        rect_bottom_def)
  have two: "rect (Player_update ?tm (\<lambda>key. False) ?q) = mk_Rect 100 64 32 32"
    by (simp add: Player_update_def Player_update_x_def Let_def apply_gravity_def GRAVITY_def
        player_input_def player_shell_mode_def move_x_def move_y_def check_collisions_y_def
        colliderect_def mk_Rect_def pg_int_def set_bottom_def set_top_def rect_top_def
        rect_bottom_def)
  have enemy: "rect_A (Koopa_update_A
      (open_field_A\<lparr>tiles_A := [mk_Rect 288 160 32 32, mk_Rect 288 224 32 32,
                                mk_Rect 320 224 32 32]\<rparr>)
      (kick_A (Koopa_init_A 300 192))) = mk_Rect 300 188 32 32"
    by (simp add: Koopa_update_A_def koopa_walk_A_def Koopa_check_collisions_A_def Let_def
        gravity_A_def GRAVITY_def kick_A_def Koopa_init_A_def KOOPA_SPEED_A_def
        KOOPA_SHELL_SPEED_A_def move_x_A_def move_y_A_def colliderect_def mk_Rect_def
        pg_int_def set_bottom_def rect_top_def)
  have rest: "\<not> colliderect (mk_Rect 100 130 32 24) (mk_Rect 96 96 32 32) \<and>
      colliderect (mk_Rect 100 122 32 32) (mk_Rect 96 96 32 32) \<and>
      rect_A (kick_A (Koopa_init_A 300 192)) = mk_Rect 300 192 32 32 \<and>
      \<not> list_ex (colliderect (mk_Rect 300 192 32 32))
          [mk_Rect 288 160 32 32, mk_Rect 288 224 32 32, mk_Rect 320 224 32 32] \<and>
      colliderect (mk_Rect 300 188 32 32) (mk_Rect 288 160 32 32)"
    by (simp add: colliderect_def mk_Rect_def kick_A_def Koopa_init_A_def Let_def)
  from one two enemy rest show ?thesis by simp
qed

section \<open>C3: horizontal contact\<close>

text \<open>
  C3, as the code has it. In \<^verbatim>\<open>KoopaHDR1.07.31.251.0X.py\<close>, when \<open>check_collisions_x\<close> (the
  player's horizontal sweep) finds a tile overlapping the moved box, the first such tile in
  grid order decides: \<open>velocity.x\<close> becomes zero, the right edge is put on the tile's left
  edge when moving right, the left edge on the tile's right edge when moving left, and the
  box is unchanged when \<open>velocity.x\<close> was zero. With no overlapping tile nothing changes.
  The player's sweep of \<^verbatim>\<open>koopahdr.py\<close> and the enemies' wall loops of both files never
  change \<open>velocity.x\<close>.
\<close>

theorem horizontal_contact:
  "(find (colliderect (rect e)) ts = Some t \<longrightarrow>
      vel_x (check_collisions_x ts e) = 0 \<and>
      (vel_x e > 0 \<longrightarrow> rect_right (rect (check_collisions_x ts e)) = rect_left t) \<and>
      (vel_x e < 0 \<longrightarrow> rect_left (rect (check_collisions_x ts e)) = rect_right t) \<and>
      (vel_x e = 0 \<longrightarrow> rect (check_collisions_x ts e) = rect e)) \<and>
   (find (colliderect (rect e)) ts = None \<longrightarrow> check_collisions_x ts e = e) \<and>
   vel_x_A (check_collisions_A tmA ''horizontal'' pA) = vel_x_A pA \<and>
   vel_x (fst (koopa_wall_loop ts k)) = vel_x k \<and>
   vel_x_A (fst (koopa_wall_loop_A ts kA)) = vel_x_A kA"
proof -
  have a: "vel_x_A (collisions_loop_A us ''horizontal'' q) = vel_x_A q" for us q
    by (induction us arbitrary: q) auto
  have b: "vel_x (fst (koopa_wall_loop ts k)) = vel_x k"
    by (induction ts) auto
  have c: "vel_x_A (fst (koopa_wall_loop_A ts kA)) = vel_x_A kA"
    by (induction ts) auto
  show ?thesis
    by (simp add: check_collisions_x_first snap_x_def a b c check_collisions_A_def
        rect_right_def rect_left_def set_right_def set_left_def)
qed

text \<open>
  One tile at \<open>(128, 96)\<close>: a body running right into it, one running left into it, one
  resting inside it, and one out of its reach.
\<close>

theorem horizontal_contact_witness:
  "vel_x (check_collisions_x [mk_Rect 128 96 32 32]
      \<lparr>rect = mk_Rect 100 100 32 32, vel_x = 6, vel_y = 1, on_ground = False\<rparr>) = 0 \<and>
   rect_right (rect (check_collisions_x [mk_Rect 128 96 32 32]
      \<lparr>rect = mk_Rect 100 100 32 32, vel_x = 6, vel_y = 1, on_ground = False\<rparr>)) = 128 \<and>
   rect_left (rect (check_collisions_x [mk_Rect 128 96 32 32]
      \<lparr>rect = mk_Rect 150 100 32 32, vel_x = - 6, vel_y = 1, on_ground = False\<rparr>)) = 160 \<and>
   rect (check_collisions_x [mk_Rect 128 96 32 32]
      \<lparr>rect = mk_Rect 130 100 32 32, vel_x = 0, vel_y = 1, on_ground = False\<rparr>)
     = mk_Rect 130 100 32 32 \<and>
   check_collisions_x [mk_Rect 128 96 32 32]
      \<lparr>rect = mk_Rect 300 100 32 32, vel_x = 6, vel_y = 1, on_ground = False\<rparr>
     = \<lparr>rect = mk_Rect 300 100 32 32, vel_x = 6, vel_y = 1, on_ground = False\<rparr>"
proof -
  let ?ts = "[mk_Rect 128 96 32 32]"
  let ?right = "\<lparr>rect = mk_Rect 100 100 32 32, vel_x = 6, vel_y = 1, on_ground = False\<rparr>"
  let ?left = "\<lparr>rect = mk_Rect 150 100 32 32, vel_x = - 6, vel_y = 1, on_ground = False\<rparr>"
  let ?rest = "\<lparr>rect = mk_Rect 130 100 32 32, vel_x = 0, vel_y = 1, on_ground = False\<rparr>"
  let ?far = "\<lparr>rect = mk_Rect 300 100 32 32, vel_x = 6, vel_y = 1, on_ground = False\<rparr>"
  have hit: "find (colliderect (rect ?right)) ?ts = Some (mk_Rect 128 96 32 32)"
    "find (colliderect (rect ?left)) ?ts = Some (mk_Rect 128 96 32 32)"
    "find (colliderect (rect ?rest)) ?ts = Some (mk_Rect 128 96 32 32)"
    and miss: "find (colliderect (rect ?far)) ?ts = None"
    by (simp_all add: colliderect_def mk_Rect_def)
  have edges: "rect_left (mk_Rect 128 96 32 32) = 128" "rect_right (mk_Rect 128 96 32 32) = 160"
    by (simp_all add: rect_left_def rect_right_def mk_Rect_def)
  from horizontal_contact [of ?right ?ts "mk_Rect 128 96 32 32"] hit(1) edges(1)
  have a: "vel_x (check_collisions_x ?ts ?right) = 0 \<and>
           rect_right (rect (check_collisions_x ?ts ?right)) = 128"
    by simp
  from horizontal_contact [of ?left ?ts "mk_Rect 128 96 32 32"] hit(2) edges(2)
  have b: "rect_left (rect (check_collisions_x ?ts ?left)) = 160"
    by simp
  from horizontal_contact [of ?rest ?ts "mk_Rect 128 96 32 32"] hit(3)
  have c: "rect (check_collisions_x ?ts ?rest) = mk_Rect 130 100 32 32"
    by simp
  from horizontal_contact [of ?far ?ts] miss
  have d: "check_collisions_x ?ts ?far = ?far"
    by simp
  from a b c d show ?thesis by blast
qed

text \<open>
  C3 as stated fails in \<^verbatim>\<open>koopahdr.py\<close>: a player moving right at speed 5 into a tile is put
  against the tile and keeps \<open>velocity.x = 5\<close>.
\<close>

theorem horizontal_contact_counterexample:
  "vel_x_A (check_collisions_A (open_field_A\<lparr>tiles_A := [mk_Rect 224 64 32 32]\<rparr>)
      ''horizontal'' (player_at_A 195 64 5 1)) = 5 \<and>
   rect_right (rect_A (check_collisions_A (open_field_A\<lparr>tiles_A := [mk_Rect 224 64 32 32]\<rparr>)
      ''horizontal'' (player_at_A 195 64 5 1))) = 224"
  by (simp add: check_collisions_A_def colliderect_def mk_Rect_def rect_right_def
      rect_left_def set_right_def)

section \<open>C4: the stomp\<close>

text \<open>
  C4, as the code has it, for a whole tick. \<open>update\<close> first moves the player and the enemies
  (\<open>GameManager_move\<close>), then gives every enemy that overlaps the player its turn in the
  enemy loop, in group order. In every tick in which an enemy overlaps the player after the
  movement, and in which the enemy's turn is reached with the stomp test true of the player
  as the enemies before it in this tick have left it (\<open>velocity.y\<close> positive, bottom edge
  above the enemy's vertical centre): in \<^verbatim>\<open>KoopaHDR1.07.31.251.0X.py\<close> the enemy's turn makes
  it an idle shell (shell flag set, shell timer 180, \<open>velocity.x\<close> zero), sets the player's
  \<open>velocity.y\<close> to \<open>JUMP_STRENGTH * 0.7\<close>, which is negative, and adds exactly 100 to the score,
  and the enemy ends the loop, and the tick, as that shell. With no overlapping enemy before
  it in the group, the test is the one on the player as the movement left it.

  In \<^verbatim>\<open>koopahdr.py\<close> the test is made on a feet rectangle computed once after the
  movement, which an enemy overlapping the player with its centre below the player's bottom
  edge always meets. For such a member of the group \<open>enemies\<close>, reached with the player's
  \<open>velocity.y\<close> positive, the turn removes the enemy from every group, sets the player's
  \<open>velocity.y\<close> to \<open>JUMP_STRENGTH * 0.8\<close>, which is negative, and adds exactly 100 to the
  score; the enemy is in no group at the end of the tick and its object is left as it was.
\<close>

theorem stomp_in_tick:
  "(g5 = GameManager_move keys g \<and> i < length (koopas g5) \<and>
    colliderect (rect (player g5)) (rect (koopas g5 ! i)) \<and>
    enemy_loop (before_turn i (collided_koopas g5)) g5 = (True, g1) \<and>
    stomp_test g1 i \<longrightarrow>
      enemy_loop (before_turn i (collided_koopas g5) @ [i]) g5 =
        (True, g1\<lparr>koopas := (koopas g1)[i := stomp (koopas g5 ! i)],
                  player := (player g1)\<lparr>vel_y := JUMP_STRENGTH * (7 / 10)\<rparr>,
                  score := score g1 + 100\<rparr>) \<and>
      JUMP_STRENGTH * (7 / 10) < 0 \<and>
      koopas (snd (enemy_loop (collided_koopas g5) g5)) ! i = stomp (koopas g5 ! i) \<and>
      shell (stomp (koopas g5 ! i)) \<and> shell_timer_k (stomp (koopas g5 ! i)) = 180 \<and>
      vel_x (stomp (koopas g5 ! i)) = 0 \<and>
      (self_current_level g = None \<longrightarrow>
         koopas (snd (GameManager_update keys g)) ! i = stomp (koopas g5 ! i))) \<and>
   (g3 = GameManager_move_A keys gA \<and> j \<in> set (enemies_A g3) \<and> distinct (enemies_A g3) \<and>
    colliderect (rect_A (player_A g3)) (rect_A (koopa_objs_A g3 ! j)) \<and>
    0 \<le> rect_h (rect_A (koopa_objs_A g3 ! j)) \<and>
    rect_bottom (rect_A (player_A g3)) < rect_centery (rect_A (koopa_objs_A g3 ! j)) \<and>
    enemy_loop_A (player_feet_A g3) (before_turn j (enemies_A g3)) g3 = (True, gA1) \<and>
    vel_y_A (player_A gA1) > 0 \<longrightarrow>
      enemy_loop_A (player_feet_A g3) (before_turn j (enemies_A g3) @ [j]) g3 =
        (True, (kill_A j gA1)\<lparr>player_A := (player_A gA1)\<lparr>vel_y_A := JUMP_STRENGTH_A * (8 / 10)\<rparr>,
                               score_A := score_A gA1 + 100\<rparr>) \<and>
      JUMP_STRENGTH_A * (8 / 10) < 0 \<and>
      j \<notin> set (enemies_A (snd (GameManager_update_A keys gA))) \<and>
      j \<notin> set (koopas_group_A (snd (GameManager_update_A keys gA))) \<and>
      j \<notin> set (all_sprites_A (snd (GameManager_update_A keys gA))) \<and>
      koopa_objs_A (snd (GameManager_update_A keys gA)) ! j = koopa_objs_A g3 ! j)"
proof (intro conjI impI)
  assume h: "g5 = GameManager_move keys g \<and> i < length (koopas g5) \<and>
    colliderect (rect (player g5)) (rect (koopas g5 ! i)) \<and>
    enemy_loop (before_turn i (collided_koopas g5)) g5 = (True, g1) \<and> stomp_test g1 i"
  then have g5: "g5 = GameManager_move keys g" and i: "i < length (koopas g5)"
    and hit: "colliderect (rect (player g5)) (rect (koopas g5 ! i))"
    and pre: "enemy_loop (before_turn i (collided_koopas g5)) g5 = (True, g1)"
    and test: "stomp_test g1 i"
    by blast+
  note turn = enemy_turn [OF i hit pre]
  define g2 where "g2 = g1\<lparr>koopas := (koopas g1)[i := stomp (koopas g5 ! i)],
      player := (player g1)\<lparr>vel_y := JUMP_STRENGTH * (7 / 10)\<rparr>, score := score g1 + 100\<rparr>"
  have step: "enemy_interaction i g1 = (True, g2)"
    using test turn(1) by (simp add: enemy_interaction_def stomp_test_def Let_def g2_def)
  show "enemy_loop (before_turn i (collided_koopas g5) @ [i]) g5 =
        (True, g1\<lparr>koopas := (koopas g1)[i := stomp (koopas g5 ! i)],
                  player := (player g1)\<lparr>vel_y := JUMP_STRENGTH * (7 / 10)\<rparr>,
                  score := score g1 + 100\<rparr>)"
    using turn(3) step by (simp add: g2_def)
  have at_i: "koopas g2 ! i = stomp (koopas g5 ! i)"
    using i turn(2) by (simp add: g2_def)
  show final: "koopas (snd (enemy_loop (collided_koopas g5) g5)) ! i = stomp (koopas g5 ! i)"
    using turn(4) step at_i by simp
  show "JUMP_STRENGTH * (7 / 10) < 0"
    by (simp add: JUMP_STRENGTH_def)
  show "shell (stomp (koopas g5 ! i))" "shell_timer_k (stomp (koopas g5 ! i)) = 180"
    "vel_x (stomp (koopas g5 ! i)) = 0"
    by (simp_all add: stomp_def)
  show "koopas (snd (GameManager_update keys g)) ! i = stomp (koopas g5 ! i)"
    if "self_current_level g = None"
    using GameManager_update_state [OF that, of keys] final by (simp add: g5)
next
  assume h: "g3 = GameManager_move_A keys gA \<and> j \<in> set (enemies_A g3) \<and>
    distinct (enemies_A g3) \<and>
    colliderect (rect_A (player_A g3)) (rect_A (koopa_objs_A g3 ! j)) \<and>
    0 \<le> rect_h (rect_A (koopa_objs_A g3 ! j)) \<and>
    rect_bottom (rect_A (player_A g3)) < rect_centery (rect_A (koopa_objs_A g3 ! j)) \<and>
    enemy_loop_A (player_feet_A g3) (before_turn j (enemies_A g3)) g3 = (True, gA1) \<and>
    vel_y_A (player_A gA1) > 0"
  then have g3: "g3 = GameManager_move_A keys gA" and mem: "j \<in> set (enemies_A g3)"
    and dist: "distinct (enemies_A g3)"
    and hit: "colliderect (rect_A (player_A g3)) (rect_A (koopa_objs_A g3 ! j))"
    and tall: "0 \<le> rect_h (rect_A (koopa_objs_A g3 ! j))"
    and above: "rect_bottom (rect_A (player_A g3)) < rect_centery (rect_A (koopa_objs_A g3 ! j))"
    and pre: "enemy_loop_A (player_feet_A g3) (before_turn j (enemies_A g3)) g3 = (True, gA1)"
    and falls: "vel_y_A (player_A gA1) > 0"
    by blast+
  note turn = enemy_turn_A [OF mem dist pre]
  define g2 where "g2 = (kill_A j gA1)\<lparr>player_A := (player_A gA1)\<lparr>vel_y_A :=
      JUMP_STRENGTH_A * (8 / 10)\<rparr>, score_A := score_A gA1 + 100\<rparr>"
  have feet: "colliderect (rect_A (koopa_objs_A gA1 ! j)) (player_feet_A g3)"
    using feet_hit [OF hit tall above] turn(1) by (simp add: player_feet_A_def)
  have step: "enemy_interaction_A (player_feet_A g3) j gA1 = (True, g2)"
    using feet falls by (simp add: enemy_interaction_A_def Let_def g2_def)
  show "enemy_loop_A (player_feet_A g3) (before_turn j (enemies_A g3) @ [j]) g3 =
        (True, (kill_A j gA1)\<lparr>player_A := (player_A gA1)\<lparr>vel_y_A := JUMP_STRENGTH_A * (8 / 10)\<rparr>,
                               score_A := score_A gA1 + 100\<rparr>)"
    using turn(3) step by (simp add: g2_def)
  show "JUMP_STRENGTH_A * (8 / 10) < 0"
    by (simp add: JUMP_STRENGTH_A_def)
  from turn(4) step obtain post where post: "j \<notin> set post"
    and rest: "enemy_loop_A (player_feet_A g3) (enemies_A g3) g3 =
                 enemy_loop_A (player_feet_A g3) post g2"
    by auto
  have final: "snd (GameManager_update_A keys gA) = snd (enemy_loop_A (player_feet_A g3) post g2)"
    by (simp add: GameManager_update_A_phases g3 [symmetric] rest)
  have gone: "j \<notin> set (enemies_A g2)" "j \<notin> set (koopas_group_A g2)"
    "j \<notin> set (all_sprites_A g2)"
    by (simp_all add: g2_def kill_A_def)
  from enemy_loop_A_gone [of j g2 "player_feet_A g3" post] gone
  show "j \<notin> set (enemies_A (snd (GameManager_update_A keys gA)))"
    "j \<notin> set (koopas_group_A (snd (GameManager_update_A keys gA)))"
    "j \<notin> set (all_sprites_A (snd (GameManager_update_A keys gA)))"
    by (simp_all add: final)
  have "koopa_objs_A g2 ! j = koopa_objs_A g3 ! j"
    using turn(1) by (simp add: g2_def kill_A_def)
  with enemy_loop_A_objs [of "player_feet_A g3" post g2 j] post
  show "koopa_objs_A (snd (GameManager_update_A keys gA)) ! j = koopa_objs_A g3 ! j"
    by (simp add: final)
qed

text \<open>
  A player falling at speed 3 from \<open>y = 160\<close> onto an enemy at \<open>y = 192\<close>, no key pressed. The
  movement leaves the player at \<open>y = 164\<close> with \<open>velocity.y = 3.5\<close> and its bottom edge at
  196, above the enemy's centre. In \<^verbatim>\<open>KoopaHDR1.07.31.251.0X.py\<close> the tick ends with the enemy
  an idle shell; in \<^verbatim>\<open>koopahdr.py\<close> it ends with the enemy in no group.
\<close>

theorem stomp_in_tick_witness:
  "koopas (snd (GameManager_update (\<lambda>key. False)
      (session (player_at 300 160 0 3 False) [Koopa_init 310 192]))) ! 0 =
     stomp ((Koopa_init 312 193)\<lparr>vel_x := 2, vel_y := 1 / 2\<rparr>) \<and>
   enemy_loop [0] (session ((player_at 300 164 0 (7 / 2) False))
                     [(Koopa_init 312 193)\<lparr>vel_x := 2, vel_y := 1 / 2\<rparr>]
                     \<lparr>camera_x := - 100\<rparr>) =
     (True, session ((player_at 300 164 0 (7 / 2) False)\<lparr>vel_y := JUMP_STRENGTH * (7 / 10)\<rparr>)
              [stomp ((Koopa_init 312 193)\<lparr>vel_x := 2, vel_y := 1 / 2\<rparr>)]
              \<lparr>camera_x := - 100, score := 100\<rparr>) \<and>
   0 \<notin> set (enemies_A (snd (GameManager_update_A (\<lambda>key. False)
      (session_A (player_at_A 300 160 0 3) [Koopa_init_A 310 192]))))"
proof -
  let ?g = "session (player_at 300 160 0 3 False) [Koopa_init 310 192]"
  let ?g5 = "session ((player_at 300 164 0 (7 / 2) False))
               [(Koopa_init 312 193)\<lparr>vel_x := 2, vel_y := 1 / 2\<rparr>]\<lparr>camera_x := - 100\<rparr>"
  let ?gA = "session_A (player_at_A 300 160 0 3) [Koopa_init_A 310 192]"
  let ?g3 = "session_A (player_at_A 300 164 0 (7 / 2))
               [(Koopa_init_A 310 194)\<lparr>vel_x_A := 1, vel_y_A := 1\<rparr>]"
  have cs: "collided_koopas ?g5 = [0]"
    by (simp add: collided_koopas_def colliderect_def mk_Rect_def Koopa_init_def)
  have mv: "?g5 = GameManager_move (\<lambda>key. False) ?g"
    by (rule move_one_enemy [symmetric])
  have geo: "0 < length (koopas ?g5) \<and>
    colliderect (rect (player ?g5)) (rect (koopas ?g5 ! 0)) \<and>
    enemy_loop (before_turn 0 (collided_koopas ?g5)) ?g5 = (True, ?g5) \<and> stomp_test ?g5 0"
    unfolding cs
    by (simp add: before_turn_def stomp_test_def colliderect_def mk_Rect_def
        Koopa_init_def rect_bottom_def rect_centery_def)
  note b = conjI [OF mv geo]
  have none: "self_current_level ?g = None"
    by simp
  have mvA: "?g3 = GameManager_move_A (\<lambda>key. False) ?gA"
    by (rule move_one_enemy_A [symmetric])
  have geoA: "0 \<in> set (enemies_A ?g3) \<and>
    distinct (enemies_A ?g3) \<and>
    colliderect (rect_A (player_A ?g3)) (rect_A (koopa_objs_A ?g3 ! 0)) \<and>
    0 \<le> rect_h (rect_A (koopa_objs_A ?g3 ! 0)) \<and>
    rect_bottom (rect_A (player_A ?g3)) < rect_centery (rect_A (koopa_objs_A ?g3 ! 0)) \<and>
    enemy_loop_A (player_feet_A ?g3) (before_turn 0 (enemies_A ?g3)) ?g3 = (True, ?g3) \<and>
    vel_y_A (player_A ?g3) > 0"
    by (simp add: before_turn_def colliderect_def mk_Rect_def
        Koopa_init_A_def rect_bottom_def rect_centery_def)
  note a = conjI [OF mvA geoA]
  from stomp_in_tick [of ?g5 "\<lambda>key. False" ?g 0 ?g5 ?g3 ?gA 0 ?g3] b none a
  have "enemy_loop (before_turn 0 (collided_koopas ?g5) @ [0]) ?g5 =
        (True, ?g5\<lparr>koopas := (koopas ?g5)[0 := stomp (koopas ?g5 ! 0)],
                   player := (player ?g5)\<lparr>vel_y := JUMP_STRENGTH * (7 / 10)\<rparr>,
                   score := score ?g5 + 100\<rparr>) \<and>
      koopas (snd (GameManager_update (\<lambda>key. False) ?g)) ! 0 = stomp (koopas ?g5 ! 0) \<and>
      0 \<notin> set (enemies_A (snd (GameManager_update_A (\<lambda>key. False) ?gA)))"
    by blast
  then show ?thesis
    unfolding cs by (simp add: before_turn_def)
qed

text \<open>
  C4 as stated fails. In \<^verbatim>\<open>koopahdr.py\<close> the stomped enemy does not become a shell: the
  tick of the session above ends with the enemy removed from the enemies and its shell flag
  off. In \<^verbatim>\<open>KoopaHDR1.07.31.251.0X.py\<close>, when two enemies overlap a falling player above their
  centres after the movement of one tick, the first stomp turns the player's velocity
  upward, so the second enemy is not stomped: the tick ends with it walking and the player
  one life down.
\<close>

theorem stomp_in_tick_counterexample:
  "0 \<notin> set (enemies_A (snd (GameManager_update_A (\<lambda>key. False)
      (session_A (player_at_A 300 160 0 3) [Koopa_init_A 310 192])))) \<and>
   \<not> shell_A (koopa_objs_A (snd (GameManager_update_A (\<lambda>key. False)
      (session_A (player_at_A 300 160 0 3) [Koopa_init_A 310 192]))) ! 0) \<and>
   collided_koopas (GameManager_move (\<lambda>key. False)
      (session (player_at 300 160 0 3 False) [Koopa_init 310 192, Koopa_init 290 192])) =
     [0, 1] \<and>
   stomp_test (GameManager_move (\<lambda>key. False)
      (session (player_at 300 160 0 3 False) [Koopa_init 310 192, Koopa_init 290 192])) 1 \<and>
   \<not> shell (koopas (snd (GameManager_update (\<lambda>key. False)
      (session (player_at 300 160 0 3 False) [Koopa_init 310 192, Koopa_init 290 192]))) ! 1) \<and>
   lives (snd (GameManager_update (\<lambda>key. False)
      (session (player_at 300 160 0 3 False) [Koopa_init 310 192, Koopa_init 290 192]))) = 2"
proof -
  let ?g5 = "session ((player_at 300 164 0 (7 / 2) False))
       [(Koopa_init 312 193)\<lparr>vel_x := 2, vel_y := 1 / 2\<rparr>,
        (Koopa_init 292 193)\<lparr>vel_x := 2, vel_y := 1 / 2\<rparr>]\<lparr>camera_x := - 100\<rparr>"
  have cs: "collided_koopas ?g5 = [0, 1]"
    by (simp add: collided_koopas_def colliderect_def mk_Rect_def Koopa_init_def upt_rec)
  have test: "stomp_test ?g5 1"
    by (simp add: stomp_test_def mk_Rect_def Koopa_init_def rect_bottom_def rect_centery_def)
  have loop: "\<not> shell (koopas (snd (enemy_loop [0, 1] ?g5)) ! 1) \<and>
              lives (snd (enemy_loop [0, 1] ?g5)) = 2"
    by (simp add: enemy_interaction_def Let_def stomp_def Koopa_init_def mk_Rect_def
        rect_bottom_def rect_centery_def JUMP_STRENGTH_def set_topleft_def)
  have st: "snd (GameManager_update (\<lambda>key. False)
      (session (player_at 300 160 0 3 False) [Koopa_init 310 192, Koopa_init 290 192])) =
      snd (enemy_loop [0, 1] ?g5)"
  proof -
    have "self_current_level
        (session (player_at 300 160 0 3 False) [Koopa_init 310 192, Koopa_init 290 192]) = None"
      by simp
    from GameManager_update_state [OF this, of "\<lambda>key. False"] show ?thesis
      unfolding move_two_enemies cs .
  qed
  have b: "\<not> shell (koopas (snd (GameManager_update (\<lambda>key. False)
      (session (player_at 300 160 0 3 False) [Koopa_init 310 192, Koopa_init 290 192]))) ! 1) \<and>
   lives (snd (GameManager_update (\<lambda>key. False)
      (session (player_at 300 160 0 3 False) [Koopa_init 310 192, Koopa_init 290 192]))) = 2"
    unfolding st using loop by blast
  let ?g3 = "session_A (player_at_A 300 164 0 (7 / 2))
               [(Koopa_init_A 310 194)\<lparr>vel_x_A := 1, vel_y_A := 1\<rparr>]"
  have stA: "GameManager_update_A (\<lambda>key. False)
      (session_A (player_at_A 300 160 0 3) [Koopa_init_A 310 192]) =
      enemy_loop_A (player_feet_A ?g3) (enemies_A ?g3) ?g3"
    unfolding GameManager_update_A_phases move_one_enemy_A ..
  have loopA: "0 \<notin> set (enemies_A (snd (enemy_loop_A (player_feet_A ?g3) (enemies_A ?g3) ?g3))) \<and>
      \<not> shell_A (koopa_objs_A (snd (enemy_loop_A (player_feet_A ?g3) (enemies_A ?g3) ?g3)) ! 0)"
    by (simp add: player_feet_A_def enemy_interaction_A_def Let_def kill_A_def
        Koopa_init_A_def mk_Rect_def rect_bottom_def colliderect_def)
  have a: "0 \<notin> set (enemies_A (snd (GameManager_update_A (\<lambda>key. False)
      (session_A (player_at_A 300 160 0 3) [Koopa_init_A 310 192])))) \<and>
   \<not> shell_A (koopa_objs_A (snd (GameManager_update_A (\<lambda>key. False)
      (session_A (player_at_A 300 160 0 3) [Koopa_init_A 310 192]))) ! 0)"
    unfolding stA using loopA by blast
  have c: "collided_koopas (GameManager_move (\<lambda>key. False)
      (session (player_at 300 160 0 3 False) [Koopa_init 310 192, Koopa_init 290 192])) =
     [0, 1] \<and>
   stomp_test (GameManager_move (\<lambda>key. False)
      (session (player_at 300 160 0 3 False) [Koopa_init 310 192, Koopa_init 290 192])) 1"
    unfolding move_two_enemies using cs test by blast
  from a b c show ?thesis
    by blast
qed

section \<open>C5: level completion\<close>

text \<open>
  C5 at the input where the code departs from it. \<open>update\<close> reaches the level-complete
  branch exactly when the player's \<open>x\<close> exceeds the width in pixels minus 100: on a level of
  80 columns, \<open>x = 2460\<close> does not trigger and \<open>x = 2461\<close> does. But the branch then reads
  \<open>self.current_level\<close>, an attribute that no code creates (the level indices live in module
  globals), so \<open>update\<close> raises AttributeError instead of advancing. That holds in every
  state the main loop can reach from \<open>__init__\<close>.
\<close>

theorem level_completion_raises:
  "fst (GameManager_update (\<lambda>key. False) (session (player_at 2461 192 0 0 False) [])) =
     Inl AttributeError \<and>
   fst (GameManager_update (\<lambda>key. False) (session (player_at 2460 192 0 0 False) [])) =
     Inr True \<and>
   (\<exists>g0. GameManager_init = Inr g0 \<and> self_current_level (main_loop ks g0) = None \<and>
         level_complete (main_loop ks g0) = (Inl AttributeError, main_loop ks g0))"
proof -
  have reach: "self_current_level (main_loop ks g) = None" if "self_current_level g = None"
    for g
    using that
  proof (induction ks arbitrary: g)
    case Nil
    then show ?case by simp
  next
    case (Cons keys ks)
    obtain r g1 where step: "GameManager_update keys g = (r, g1)"
      by (cases "GameManager_update keys g")
    have "self_current_level g1 = None"
      using GameManager_update_attr [OF Cons.prems, of keys] step by simp
    then have "self_current_level (main_loop ks g1) = None" by (rule Cons.IH)
    then show ?case
      using step \<open>self_current_level g1 = None\<close> by (simp split: sum.split bool.split)
  qed
  obtain g0 where g0: "GameManager_init = Inr g0" "self_current_level g0 = None"
    using GameManager_init_succeeds by blast
  have a: "fst (GameManager_update (\<lambda>key. False) (session (player_at 2461 192 0 0 False) []))
           = Inl AttributeError"
    by (simp add: GameManager_update_def Player_update_def Player_update_x_def Let_def
        apply_gravity_def player_input_def player_shell_mode_def move_x_def move_y_def
        check_collisions_y_def collided_koopas_def level_complete_def mk_Rect_def pg_int_def
        GRAVITY_def TILE_SIZE_def)
  have b: "fst (GameManager_update (\<lambda>key. False) (session (player_at 2460 192 0 0 False) []))
           = Inr True"
    by (simp add: GameManager_update_def Player_update_def Player_update_x_def Let_def
        apply_gravity_def player_input_def player_shell_mode_def move_x_def move_y_def
        check_collisions_y_def collided_koopas_def level_complete_def mk_Rect_def pg_int_def
        GRAVITY_def TILE_SIZE_def)
  have none: "self_current_level (main_loop ks g0) = None" using g0(2) by (rule reach)
  then have "level_complete (main_loop ks g0) = (Inl AttributeError, main_loop ks g0)"
    by (rule level_complete_raises)
  then show ?thesis
    using a b g0(1) none by blast
qed

section \<open>C6: patrolling\<close>

text \<open>
  C6 at the input where the code of \<^verbatim>\<open>koopahdr.py\<close> departs from it. A patrolling enemy
  standing on a floor, facing right, with no wall in reach, gets \<open>velocity.x = 1\<close> but is
  put back on its old \<open>x\<close> because no tile was hit: after one tick, and after two, it is
  still at \<open>x = 320\<close>. (\<open>patrol_step\<close> above shows that \<^verbatim>\<open>KoopaHDR1.07.31.251.0X.py\<close> does
  what C6 says, and \<open>koopa_walk_A_stays\<close> that the stall is general.)
\<close>

theorem patrol_stalls:
  "vel_x_A (Koopa_update_A floor_A (Koopa_init_A 320 192)) = 1 \<and>
   direction_A (Koopa_update_A floor_A (Koopa_init_A 320 192)) = 1 \<and>
   rect_x (rect_A (Koopa_update_A floor_A (Koopa_init_A 320 192))) = 320 \<and>
   rect_x (rect_A (Koopa_update_A floor_A (Koopa_update_A floor_A (Koopa_init_A 320 192))))
     = 320"
  by (simp add: Koopa_update_A_def koopa_walk_A_def Koopa_check_collisions_A_def Let_def
      gravity_A_def move_x_A_def move_y_A_def Koopa_init_A_def mk_Rect_def pg_int_def
      colliderect_def KOOPA_SPEED_A_def GRAVITY_def set_bottom_def rect_top_def)

section \<open>C7: the kick transition\<close>

text \<open>
  C7, as the code has it. In \<^verbatim>\<open>KoopaHDR1.07.31.251.0X.py\<close> a kick carrying the direction \<open>d\<close>
  sets the enemy's direction to \<open>d\<close>, \<open>velocity.x\<close> to the shell speed 10 times \<open>d\<close>,
  \<open>velocity.y\<close> to \<open>- 5\<close> (upward) and the shell timer to 300. In \<^verbatim>\<open>koopahdr.py\<close> the
  kick carries no direction: the direction becomes 1 if the enemy's own \<open>velocity.x\<close> is
  negative and \<open>- 1\<close> otherwise, \<open>velocity.x\<close> is the shell speed 8 times that, \<open>velocity.y\<close>
  is \<open>- 5\<close>, and the shell timer is 180.
\<close>

theorem kick_transition:
  "shell (kick d k) \<and> direction (kick d k) = d \<and>
   vel_x (kick d k) = real_of_int (10 * d) \<and> vel_y (kick d k) = - 5 \<and>
   shell_timer_k (kick d k) = 300 \<and>
   shell_A (kick_A kA) \<and>
   direction_A (kick_A kA) = (if vel_x_A kA < 0 then 1 else - 1) \<and>
   vel_x_A (kick_A kA) = real_of_int (8 * direction_A (kick_A kA)) \<and>
   vel_y_A (kick_A kA) = - 5 \<and> shell_timer_k_A (kick_A kA) = 180"
  by (simp add: kick_def kick_A_def KOOPA_SHELL_SPEED_def KOOPA_SHELL_SPEED_A_def)

text \<open>
  C7 as stated fails in \<^verbatim>\<open>koopahdr.py\<close>: a kicked enemy gets 180 ticks, and an enemy walking
  right is sent left whatever the player does.
\<close>

theorem kick_transition_counterexample:
  "shell_timer_k_A (kick_A ((Koopa_init_A 320 192)\<lparr>vel_x_A := 1\<rparr>)) \<noteq> 300 \<and>
   direction_A (kick_A ((Koopa_init_A 320 192)\<lparr>vel_x_A := 1\<rparr>)) = - 1"
  by (simp add: kick_A_def Koopa_init_A_def)

section \<open>C9: building the tile grid\<close>

text \<open>
  C9, as the code has it, in both files. The build raises IndexError on the empty sequence
  and on nothing else. Every non-empty sequence of rows is accepted, whatever the lengths
  of the rows: the width is the length of the first row, the height the number of rows,
  and (in \<^verbatim>\<open>KoopaHDR1.07.31.251.0X.py\<close>) every solid is a 32-pixel square on the lattice. Being
  a function of the rows alone, the result depends on nothing else.
\<close>

theorem build_outcome:
  "TileMap_build [] = Inl IndexError \<and> TileMap_build_A [] = Inl IndexError \<and>
   (d \<noteq> [] \<longrightarrow>
      (\<exists>tm. TileMap_build d = Inr tm \<and> data tm = d \<and> width tm = int (length (hd d)) \<and>
            height tm = int (length d) \<and> tile_size tm = 32 \<and>
            list_all lattice_tile (tiles tm))) \<and>
   (dA \<noteq> [] \<longrightarrow>
      (\<exists>tm. TileMap_build_A dA = Inr tm \<and> data_A tm = dA \<and>
            width_A tm = int (length (hd dA)) \<and> height_A tm = int (length dA)))"
proof (intro conjI impI)
  show "TileMap_build [] = Inl IndexError" by (simp add: TileMap_build_cases)
next
  show "TileMap_build_A [] = Inl IndexError"
    by (simp add: TileMap_build_A_def TileMap_init_A_def)
next
  assume ne: "d \<noteq> []"
  then obtain tm where tm: "TileMap_build d = Inr tm"
    by (simp add: TileMap_build_cases)
  have "list_all lattice_tile (tiles tm)" using tm by (rule TileMap_build_lattice)
  moreover have "data tm = d \<and> width tm = int (length (hd d)) \<and>
            height tm = int (length d) \<and> tile_size tm = 32"
    using tm ne by (auto simp: TileMap_build_cases load_tiles_fixed)
  ultimately show "\<exists>tm. TileMap_build d = Inr tm \<and> data tm = d \<and>
            width tm = int (length (hd d)) \<and>
            height tm = int (length d) \<and> tile_size tm = 32 \<and>
            list_all lattice_tile (tiles tm)"
    using tm by blast
next
  assume "dA \<noteq> []"
  then obtain row rows where dA: "dA = row # rows" by (cases dA) auto
  have row_fixed:
    "data_A (load_row_A cy cx r t) = data_A t \<and> width_A (load_row_A cy cx r t) = width_A t \<and>
     height_A (load_row_A cy cx r t) = height_A t" for cy cx r t
    by (induction r arbitrary: cx t) (simp_all add: load_cell_A_def)
  have fixed:
    "data_A (load_rows_A cy rs t) = data_A t \<and> width_A (load_rows_A cy rs t) = width_A t \<and>
     height_A (load_rows_A cy rs t) = height_A t" for cy rs t
    by (induction rs arbitrary: cy t) (simp_all add: row_fixed)
  show "\<exists>tm. TileMap_build_A dA = Inr tm \<and> data_A tm = dA \<and>
            width_A tm = int (length (hd dA)) \<and> height_A tm = int (length dA)"
    by (simp add: dA TileMap_build_A_def TileMap_init_A_def load_tiles_A_def fixed row_fixed)
qed

theorem build_outcome_witness:
  "(\<exists>tm. TileMap_build [''..#'', ''###''] = Inr tm \<and> width tm = 3 \<and> height tm = 2 \<and>
         list_all lattice_tile (tiles tm)) \<and>
   (\<exists>tm. TileMap_build_A [cells ''..#'', cells ''###''] = Inr tm \<and> width_A tm = 3 \<and>
         height_A tm = 2)"
proof -
  from build_outcome [of "[''..#'', ''###'']" "[cells ''..#'', cells ''###'']"]
  have "(\<exists>tm. TileMap_build [''..#'', ''###''] = Inr tm \<and> data tm = [''..#'', ''###''] \<and>
              width tm = 3 \<and> height tm = 2 \<and> tile_size tm = 32 \<and>
              list_all lattice_tile (tiles tm)) \<and>
        (\<exists>tm. TileMap_build_A [cells ''..#'', cells ''###''] = Inr tm \<and>
              data_A tm = [cells ''..#'', cells ''###''] \<and> width_A tm = 3 \<and> height_A tm = 2)"
    by (simp add: cells_def)
  then show ?thesis by blast
qed

text \<open>
  C9 as stated fails: rows of unequal length do not make the build fail. The second level
  of the first world, as shipped, has rows of 80 and of 79 characters and is built; and the
  rows \<open>#\<close> and \<open>.#\<close> give a grid of width 1 with a solid in column 1.
\<close>

theorem build_outcome_counterexample:
  "map length level_1_2 = [80, 80, 79, 79, 80, 79, 80, 80] \<and>
   \<not> isl (TileMap_build level_1_2) \<and>
   TileMap_build [''#'', ''.#''] =
     Inr \<lparr>data = [''#'', ''.#''], tile_size = 32, width = 1, height = 2,
          tiles = [mk_Rect 0 0 32 32, mk_Rect 32 32 32 32], coin_positions = [],
          koopa_positions = []\<rparr>"
proof -
  have lengths: "map length level_1_2 = [80, 80, 79, 79, 80, 79, 80, 80]"
    by (simp add: level_1_2_def)
  then have "level_1_2 \<noteq> []" by auto
  then have built: "\<not> isl (TileMap_build level_1_2)"
    by (simp add: TileMap_build_cases)
  have small: "TileMap_build [''#'', ''.#''] =
     Inr \<lparr>data = [''#'', ''.#''], tile_size = 32, width = 1, height = 2,
          tiles = [mk_Rect 0 0 32 32, mk_Rect 32 32 32 32], coin_positions = [],
          koopa_positions = []\<rparr>"
    by (simp add: TileMap_build_cases load_tiles_def load_cell_def)
  from lengths built small show ?thesis by blast
qed

section \<open>C10: the score never decreases\<close>

text \<open>
  C10, in both files. One \<open>update\<close> never lowers the score, whatever it does (coins, stomp,
  kick, damage, the level-complete branch) and in whatever state; so neither does any run
  of the main loop. \<open>__init__\<close> succeeds and starts the score at 0, so the score is
  non-negative in every state the main loop reaches.
\<close>

theorem score_never_decreases:
  "score g \<le> score (snd (GameManager_update keys g)) \<and>
   score g \<le> score (main_loop ks g) \<and>
   (\<exists>g0. GameManager_init = Inr g0 \<and> score g0 = 0 \<and> 0 \<le> score (main_loop ks g0)) \<and>
   score_A gA \<le> score_A (snd (GameManager_update_A keys gA)) \<and>
   score_A gA \<le> score_A (main_loop_A ticks gA) \<and>
   (\<exists>g0. GameManager_init_A = Inr g0 \<and> score_A g0 = 0 \<and>
         0 \<le> score_A (main_loop_A ticks g0))"
proof -
  obtain g0 where g0: "GameManager_init = Inr g0" "score g0 = 0"
    using GameManager_init_succeeds by blast
  have "0 \<le> score (main_loop ks g0)"
    using main_loop_score [of g0 ks] g0(2) by simp
  then have b: "\<exists>g0. GameManager_init = Inr g0 \<and> score g0 = 0 \<and> 0 \<le> score (main_loop ks g0)"
    using g0 by blast
  obtain h0 where h0: "GameManager_init_A = Inr h0" "score_A h0 = 0"
    using GameManager_init_A_succeeds by blast
  have "0 \<le> score_A (main_loop_A ticks h0)"
    using main_loop_A_score [of h0 ticks] h0(2) by simp
  then have a: "\<exists>g0. GameManager_init_A = Inr g0 \<and> score_A g0 = 0 \<and>
         0 \<le> score_A (main_loop_A ticks g0)"
    using h0 by blast
  show ?thesis
    using a b GameManager_update_score [of g keys] main_loop_score [of g ks]
      GameManager_update_A_score [of gA keys] main_loop_A_score [of gA ticks]
    by blast
qed

end
